theory Spec2Isabelle
  imports Complex_Main
begin

section \<open>Exact fractions (fraction.js)\<close>

text \<open>
  The class \<open>Fraction\<close> holds two JavaScript numbers, \<open>num\<close> and \<open>den\<close>. The engine only
  ever stores integers in them, so both fields are modelled as unbounded integers (a
  JavaScript number is exact on every integer below \<open>2^53\<close>, far above any value the
  inheritance rules reach). Both \<open>throw new Error(...)\<close> statements of the class throw
  the same class \<open>Error\<close>; they differ in the message only, which is kept as a tag.
\<close>

datatype message = DenominatorIsZero | DivideByZero

datatype error = Error message

record fraction =
  num :: int
  den :: int

text \<open>Sequencing of calls that may throw: the first exception wins.\<close>

definition ebind :: "error + 'a \<Rightarrow> ('a \<Rightarrow> error + 'b) \<Rightarrow> error + 'b" where
  "ebind m f = (case m of Inl e \<Rightarrow> Inl e | Inr x \<Rightarrow> f x)"

text \<open>\<open>constructor(numerator, denominator)\<close>: throws on a zero denominator, then moves the
  sign to the numerator.\<close>

definition new_Fraction :: "int \<Rightarrow> int \<Rightarrow> error + fraction" where
  "new_Fraction numerator denominator =
     (if denominator = 0 then Inl (Error DenominatorIsZero)
      else if denominator < 0 then Inr \<lparr>num = - numerator, den = - denominator\<rparr>
      else Inr \<lparr>num = numerator, den = denominator\<rparr>)"

text \<open>JavaScript's \<open>%\<close> truncates: the result has the sign of the dividend.\<close>

definition js_rem :: "int \<Rightarrow> int \<Rightarrow> int" where
  "js_rem a b = sgn a * (\<bar>a\<bar> mod \<bar>b\<bar>)"

text \<open>The \<open>while (b !== 0)\<close> loop of \<open>Fraction.gcd\<close>.\<close>

function gcd_loop :: "int \<Rightarrow> int \<Rightarrow> int" where
  "gcd_loop a b = (if b \<noteq> 0 then gcd_loop b (js_rem a b) else a)"
  by pat_completeness auto
termination
proof (relation "measure (\<lambda>(a, b). nat \<bar>b\<bar>)")
  show "wf (measure (\<lambda>(a, b). nat \<bar>b\<bar>))" by simp
next
  fix a b :: int
  assume b: "b \<noteq> 0"
  have nonneg: "0 \<le> \<bar>a\<bar> mod \<bar>b\<bar>"
    using b by simp
  have "\<bar>js_rem a b\<bar> = \<bar>sgn a\<bar> * (\<bar>a\<bar> mod \<bar>b\<bar>)"
    using nonneg by (simp add: js_rem_def abs_mult)
  also have "\<dots> \<le> \<bar>a\<bar> mod \<bar>b\<bar>"
    by (cases "a = 0") simp_all
  also have "\<dots> < \<bar>b\<bar>"
    using b by simp
  finally show "((b, js_rem a b), (a, b)) \<in> measure (\<lambda>(a, b). nat \<bar>b\<bar>)"
    by simp
qed

declare gcd_loop.simps [simp del]

definition Fraction_gcd :: "int \<Rightarrow> int \<Rightarrow> int" where
  "Fraction_gcd a b = gcd_loop \<bar>a\<bar> \<bar>b\<bar>"

text \<open>\<open>simplify()\<close>. The source divides with \<open>/\<close>; the divisor is the greatest common
  divisor of both operands, so the quotient is the exact integer quotient
  (lemma \<open>Fraction_gcd_dvd\<close> below).\<close>

definition simplify :: "fraction \<Rightarrow> error + fraction" where
  "simplify f =
     (if num f = 0 then new_Fraction 0 1
      else let g = Fraction_gcd (num f) (den f)
           in new_Fraction (num f div g) (den f div g))"

definition add :: "fraction \<Rightarrow> fraction \<Rightarrow> error + fraction" where
  "add this other =
     (let newNum = num this * den other + num other * den this;
          newDen = den this * den other
      in ebind (new_Fraction newNum newDen) simplify)"

definition subtract :: "fraction \<Rightarrow> fraction \<Rightarrow> error + fraction" where
  "subtract this other =
     (let newNum = num this * den other - num other * den this;
          newDen = den this * den other
      in ebind (new_Fraction newNum newDen) simplify)"

definition multiply :: "fraction \<Rightarrow> fraction \<Rightarrow> error + fraction" where
  "multiply this other =
     ebind (new_Fraction (num this * num other) (den this * den other)) simplify"

definition divide :: "fraction \<Rightarrow> fraction \<Rightarrow> error + fraction" where
  "divide this other =
     (if num other = 0 then Inl (Error DivideByZero)
      else ebind (new_Fraction (num this * den other) (den this * num other)) simplify)"

definition equals :: "fraction \<Rightarrow> fraction \<Rightarrow> error + bool" where
  "equals this other =
     ebind (simplify this) (\<lambda>simplified1.
     ebind (simplify other) (\<lambda>simplified2.
       Inr (num simplified1 = num simplified2 \<and> den simplified1 = den simplified2)))"

definition greaterThan :: "fraction \<Rightarrow> fraction \<Rightarrow> bool" where
  "greaterThan this other \<longleftrightarrow> num this * den other > num other * den this"

definition lessThan :: "fraction \<Rightarrow> fraction \<Rightarrow> bool" where
  "lessThan this other \<longleftrightarrow> num this * den other < num other * den this"

definition isZero :: "fraction \<Rightarrow> bool" where
  "isZero f \<longleftrightarrow> num f = 0"

subsection \<open>The rational number a fraction denotes\<close>

definition ratOf :: "fraction \<Rightarrow> rat" where
  "ratOf f = Fract (num f) (den f)"

text \<open>The fraction in lowest terms with positive denominator that denotes a rational.\<close>

definition canon :: "rat \<Rightarrow> fraction" where
  "canon q = \<lparr>num = fst (quotient_of q), den = snd (quotient_of q)\<rparr>"

lemma ebind_Inr [simp]: "ebind (Inr x) f = f x"
  by (simp add: ebind_def)

lemma ebind_Inl [simp]: "ebind (Inl e) f = Inl e"
  by (simp add: ebind_def)

lemma gcd_loop_gcd: "0 \<le> a \<Longrightarrow> 0 \<le> b \<Longrightarrow> gcd_loop a b = gcd a b"
proof (induction a b rule: gcd_loop.induct)
  case (1 a b)
  show ?case
  proof (cases "b = 0")
    case True
    with "1.prems" show ?thesis by (subst gcd_loop.simps) simp
  next
    case False
    have rem: "js_rem a b = a mod b"
      using "1.prems" by (cases "a = 0") (simp_all add: js_rem_def)
    have "0 \<le> a mod b"
      using "1.prems" False by simp
    with "1.IH" [OF False] "1.prems" rem have "gcd_loop b (js_rem a b) = gcd b (a mod b)"
      by simp
    with False show ?thesis
      by (subst gcd_loop.simps) (simp add: gcd.commute [of a b] gcd_red_int [symmetric])
  qed
qed

lemma Fraction_gcd_eq: "Fraction_gcd a b = gcd a b"
  by (simp add: Fraction_gcd_def gcd_loop_gcd)

lemma Fraction_gcd_dvd: "Fraction_gcd a b dvd a \<and> Fraction_gcd a b dvd b"
  by (simp add: Fraction_gcd_eq)

lemma ratOf_canon [simp]: "ratOf (canon q) = q"
  by (simp add: ratOf_def canon_def)

lemma den_canon_pos [simp]: "0 < den (canon q)"
  by (simp add: canon_def quotient_of_denom_pos')

lemma simplify_canon: "den f \<noteq> 0 \<Longrightarrow> simplify f = Inr (canon (ratOf f))"
proof -
  assume d: "den f \<noteq> 0"
  let ?g = "gcd (num f) (den f)"
  have g: "0 < ?g" using d by (simp add: less_le)
  have dd: "?g dvd den f" and dn: "?g dvd num f" by simp_all
  have q: "quotient_of (ratOf f) = Rat.normalize (num f, den f)"
    by (simp add: ratOf_def quotient_of_Fract)
  show ?thesis
  proof (cases "num f = 0")
    case True
    then show ?thesis using d q
      by (cases "0 < den f")
        (simp_all add: simplify_def new_Fraction_def canon_def Rat.normalize_def Let_def)
  next
    case False
    show ?thesis
    proof (cases "0 < den f")
      case True
      then have "0 < den f div ?g"
        using g dd by (simp add: pos_imp_zdiv_pos_iff zdvd_imp_le)
      with True False q show ?thesis
        by (simp add: simplify_def new_Fraction_def canon_def Rat.normalize_def Let_def
            Fraction_gcd_eq)
    next
      case neg: False
      with d have lt: "den f < 0" by simp
      have "den f div ?g < 0"
        using g dd lt by (metis dvd_div_mult_self mult_less_0_iff not_less_iff_gr_or_eq)
      moreover have "num f div - ?g = - (num f div ?g)" "den f div - ?g = - (den f div ?g)"
        using dn dd by (simp_all add: dvd_div_neg)
      ultimately show ?thesis using lt False q
        by (simp add: simplify_def new_Fraction_def canon_def Rat.normalize_def Let_def
            Fraction_gcd_eq)
    qed
  qed
qed

lemma new_Fraction_simplify:
  "d \<noteq> 0 \<Longrightarrow> ebind (new_Fraction n d) simplify = Inr (canon (Fract n d))"
proof -
  assume d: "d \<noteq> 0"
  show ?thesis
  proof (cases "d < 0")
    case True
    have "simplify \<lparr>num = - n, den = - d\<rparr> = Inr (canon (ratOf \<lparr>num = - n, den = - d\<rparr>))"
      using d by (intro simplify_canon) simp
    then show ?thesis using True
      by (simp add: new_Fraction_def ratOf_def)
  next
    case False
    have "simplify \<lparr>num = n, den = d\<rparr> = Inr (canon (ratOf \<lparr>num = n, den = d\<rparr>))"
      using d by (intro simplify_canon) simp
    then show ?thesis using False d
      by (simp add: new_Fraction_def ratOf_def)
  qed
qed

lemma add_canon:
  "den a \<noteq> 0 \<Longrightarrow> den b \<noteq> 0 \<Longrightarrow> add a b = Inr (canon (ratOf a + ratOf b))"
  by (simp add: add_def Let_def new_Fraction_simplify ratOf_def)

lemma subtract_canon:
  "den a \<noteq> 0 \<Longrightarrow> den b \<noteq> 0 \<Longrightarrow> subtract a b = Inr (canon (ratOf a - ratOf b))"
  by (simp add: subtract_def Let_def new_Fraction_simplify ratOf_def)

lemma multiply_canon:
  "den a \<noteq> 0 \<Longrightarrow> den b \<noteq> 0 \<Longrightarrow> multiply a b = Inr (canon (ratOf a * ratOf b))"
  by (simp add: multiply_def new_Fraction_simplify ratOf_def)

lemma divide_canon:
  "den a \<noteq> 0 \<Longrightarrow> num b \<noteq> 0 \<Longrightarrow> divide a b = Inr (canon (ratOf a / ratOf b))"
  by (simp add: divide_def new_Fraction_simplify ratOf_def)

lemma new_Fraction_den_pos: "new_Fraction n d = Inr f \<Longrightarrow> 0 < den f"
  by (auto simp: new_Fraction_def split: if_splits)

lemma simplify_den_pos: "simplify f = Inr s \<Longrightarrow> 0 < den s"
  by (auto simp: simplify_def Let_def dest: new_Fraction_den_pos split: if_splits)

lemma ebind_simplify_den_pos: "ebind m simplify = Inr s \<Longrightarrow> 0 < den s"
  by (cases m) (auto dest: simplify_den_pos)

lemma canon_eq_iff [simp]: "canon p = canon q \<longleftrightarrow> p = q"
  by (auto simp: canon_def prod_eq_iff [symmetric] quotient_of_inject_eq)

lemma simplify_canon_id [simp]: "simplify (canon q) = Inr (canon q)"
  by (simp add: simplify_canon less_imp_neq [THEN not_sym])

subsection \<open>Construction and division errors\<close>

lemma simplify_eval_6_8: "simplify \<lparr>num = 6, den = - 8\<rparr> = Inr \<lparr>num = - 3, den = 4\<rparr>"
  by code_simp

lemma simplify_eval_3_4: "simplify \<lparr>num = - 3, den = 4\<rparr> = Inr \<lparr>num = - 3, den = 4\<rparr>"
  by code_simp

lemma equals_eval_3_4: "equals \<lparr>num = - 3, den = 4\<rparr> \<lparr>num = 6, den = - 8\<rparr> = Inr True"
  by code_simp

text \<open>
  Claim C8. Constructing a fraction with denominator zero fails at once with an
  \<open>Error\<close>; dividing by a fraction whose numerator is zero fails with an \<open>Error\<close> too,
  whatever the dividend; and every fraction that the constructor, \<open>simplify\<close> or one of
  the four arithmetic operations returns has a positive denominator, the constructor
  having moved the sign of a negative denominator to the numerator.
\<close>

theorem Fraction_fails_fast_and_denominator_positive:
  "new_Fraction n 0 = Inl (Error DenominatorIsZero)
   \<and> divide dividend \<lparr>num = 0, den = d0\<rparr> = Inl (Error DivideByZero)
   \<and> (new_Fraction n d = Inr f \<longrightarrow>
        0 < den f \<and> den f = \<bar>d\<bar> \<and> num f = (if d < 0 then - n else n))
   \<and> (simplify a = Inr f \<longrightarrow> 0 < den f)
   \<and> (add a b = Inr f \<longrightarrow> 0 < den f)
   \<and> (subtract a b = Inr f \<longrightarrow> 0 < den f)
   \<and> (multiply a b = Inr f \<longrightarrow> 0 < den f)
   \<and> (divide a b = Inr f \<longrightarrow> 0 < den f)"
proof (intro conjI impI)
  show "new_Fraction n 0 = Inl (Error DenominatorIsZero)"
    by (simp add: new_Fraction_def)
  show "divide dividend \<lparr>num = 0, den = d0\<rparr> = Inl (Error DivideByZero)"
    by (simp add: divide_def)
next
  assume c: "new_Fraction n d = Inr f"
  then show "0 < den f" by (rule new_Fraction_den_pos)
  from c show "den f = \<bar>d\<bar>" by (auto simp: new_Fraction_def split: if_splits)
  from c show "num f = (if d < 0 then - n else n)"
    by (auto simp: new_Fraction_def split: if_splits)
next
  assume "simplify a = Inr f" then show "0 < den f" by (rule simplify_den_pos)
next
  assume "add a b = Inr f" then show "0 < den f"
    by (auto simp: add_def Let_def dest: ebind_simplify_den_pos)
next
  assume "subtract a b = Inr f" then show "0 < den f"
    by (auto simp: subtract_def Let_def dest: ebind_simplify_den_pos)
next
  assume "multiply a b = Inr f" then show "0 < den f"
    by (auto simp: multiply_def dest: ebind_simplify_den_pos)
next
  assume "divide a b = Inr f" then show "0 < den f"
    by (auto simp: divide_def dest: ebind_simplify_den_pos split: if_splits)
qed

lemma new_Fraction_eval_3_m4: "new_Fraction 3 (- 4) = Inr \<lparr>num = - 3, den = 4\<rparr>"
  by (simp add: new_Fraction_def)

lemma multiply_eval_6_8: 
  "multiply \<lparr>num = 6, den = - 8\<rparr> \<lparr>num = 1, den = 1\<rparr> = Inr \<lparr>num = - 3, den = 4\<rparr>"
  by code_simp

lemma add_eval_6_8: 
  "add \<lparr>num = 6, den = - 8\<rparr> \<lparr>num = 0, den = 1\<rparr> = Inr \<lparr>num = - 3, den = 4\<rparr>"
  by code_simp

lemma subtract_eval_6_8: 
  "subtract \<lparr>num = 6, den = - 8\<rparr> \<lparr>num = 0, den = 1\<rparr> = Inr \<lparr>num = - 3, den = 4\<rparr>"
  by code_simp

lemma divide_eval_6_8: 
  "divide \<lparr>num = 6, den = - 8\<rparr> \<lparr>num = 1, den = 1\<rparr> = Inr \<lparr>num = - 3, den = 4\<rparr>"
  by code_simp

theorem Fraction_fails_fast_and_denominator_positive_witness:
  "new_Fraction 3 0 = Inl (Error DenominatorIsZero)
   \<and> divide \<lparr>num = 1, den = 2\<rparr> \<lparr>num = 0, den = 5\<rparr> = Inl (Error DivideByZero)
   \<and> new_Fraction 3 (- 4) = Inr \<lparr>num = - 3, den = 4\<rparr>
   \<and> simplify \<lparr>num = 6, den = - 8\<rparr> = Inr \<lparr>num = - 3, den = 4\<rparr>
   \<and> add \<lparr>num = 6, den = - 8\<rparr> \<lparr>num = 0, den = 1\<rparr> = Inr \<lparr>num = - 3, den = 4\<rparr>
   \<and> subtract \<lparr>num = 6, den = - 8\<rparr> \<lparr>num = 0, den = 1\<rparr> = Inr \<lparr>num = - 3, den = 4\<rparr>
   \<and> multiply \<lparr>num = 6, den = - 8\<rparr> \<lparr>num = 1, den = 1\<rparr> = Inr \<lparr>num = - 3, den = 4\<rparr>
   \<and> divide \<lparr>num = 6, den = - 8\<rparr> \<lparr>num = 1, den = 1\<rparr> = Inr \<lparr>num = - 3, den = 4\<rparr>
   \<and> 0 < den \<lparr>num = - 3, den = 4\<rparr>"
  using Fraction_fails_fast_and_denominator_positive
    [where n = 3 and dividend = "\<lparr>num = 1, den = 2\<rparr>" and ?d0.0 = 5 and d = "- 4"
       and f = "\<lparr>num = - 3, den = 4\<rparr>" and a = "\<lparr>num = 6, den = - 8\<rparr>"
       and b = "\<lparr>num = 1, den = 1\<rparr>"]
    Fraction_fails_fast_and_denominator_positive
    [where n = 3 and dividend = "\<lparr>num = 1, den = 2\<rparr>" and ?d0.0 = 5 and d = "- 4"
       and f = "\<lparr>num = - 3, den = 4\<rparr>" and a = "\<lparr>num = 6, den = - 8\<rparr>"
       and b = "\<lparr>num = 0, den = 1\<rparr>"]
    new_Fraction_eval_3_m4 simplify_eval_6_8 add_eval_6_8 subtract_eval_6_8
    multiply_eval_6_8 divide_eval_6_8
  by simp

subsection \<open>Simplification is idempotent\<close>

text \<open>
  Claim C9. For every fraction with a nonzero denominator, \<open>simplify\<close> returns a
  fraction; simplifying that result again returns the same fraction, and \<open>equals\<close>
  (which compares the simplified forms) finds it equal to the original.
\<close>

theorem simplify_idempotent:
  "den f \<noteq> 0 \<Longrightarrow>
     \<exists>s. simplify f = Inr s \<and> simplify s = Inr s \<and> equals s f = Inr True"
  by (simp add: simplify_canon equals_def)

theorem simplify_idempotent_witness:
  "den \<lparr>num = 6, den = - 8\<rparr> \<noteq> 0
   \<and> simplify \<lparr>num = 6, den = - 8\<rparr> = Inr \<lparr>num = - 3, den = 4\<rparr>
   \<and> simplify \<lparr>num = - 3, den = 4\<rparr> = Inr \<lparr>num = - 3, den = 4\<rparr>
   \<and> equals \<lparr>num = - 3, den = 4\<rparr> \<lparr>num = 6, den = - 8\<rparr> = Inr True"
  using simplify_idempotent [of "\<lparr>num = 6, den = - 8\<rparr>"]
    simplify_eval_6_8 simplify_eval_3_4 equals_eval_3_4
  by simp

section \<open>The heir composition\<close>

text \<open>
  The \<open>heirs\<close> object of the engine. Presence flags are booleans and head counts are
  numbers; counts are modelled as integers (the source compares them with \<open>> 0\<close>,
  \<open>=== 0\<close>, \<open>=== 1\<close> and \<open>>= 2\<close>). The field \<open>wifeCount\<close> may be missing from the
  object (\<open>None\<close>). The four distant agnate counts are often absent from the object; an
  absent count and a zero count take the same branch at every use (\<open>!count\<close>,
  \<open>count > 0\<close>), so they are modelled as integers with 0 for absent.
\<close>

record heirs =
  husband :: bool
  wife :: bool
  wifeCount :: "int option"
  sons :: int
  daughters :: int
  grandsonsFromSon :: int
  granddaughtersFromSon :: int
  father :: bool
  mother :: bool
  paternalGrandfather :: bool
  paternalGrandmother :: bool
  maternalGrandmother :: bool
  fullBrothers :: int
  fullSisters :: int
  paternalBrothers :: int
  paternalSisters :: int
  maternalBrothers :: int
  maternalSisters :: int
  nephewsFullBrothers :: int
  nephewsPaternalBrothers :: int
  unclesFull :: int
  unclesPaternal :: int

text \<open>The composition with nobody present, from which examples are built by update.\<close>

definition noHeirs :: heirs where
  "noHeirs = \<lparr>husband = False, wife = False, wifeCount = Some 1, sons = 0, daughters = 0,
     grandsonsFromSon = 0, granddaughtersFromSon = 0, father = False, mother = False,
     paternalGrandfather = False, paternalGrandmother = False, maternalGrandmother = False,
     fullBrothers = 0, fullSisters = 0, paternalBrothers = 0, paternalSisters = 0,
     maternalBrothers = 0, maternalSisters = 0, nephewsFullBrothers = 0,
     nephewsPaternalBrothers = 0, unclesFull = 0, unclesPaternal = 0\<rparr>"

text \<open>The contract on the input (section 6 of the specification): husband and wife are
  not both present and every count is a non-negative integer.\<close>

definition validHeirs :: "heirs \<Rightarrow> bool" where
  "validHeirs h \<longleftrightarrow>
     \<not> (husband h \<and> wife h) \<and> (case wifeCount h of None \<Rightarrow> True | Some n \<Rightarrow> 0 \<le> n) \<and>
     0 \<le> sons h \<and> 0 \<le> daughters h \<and> 0 \<le> grandsonsFromSon h \<and>
     0 \<le> granddaughtersFromSon h \<and> 0 \<le> fullBrothers h \<and> 0 \<le> fullSisters h \<and>
     0 \<le> paternalBrothers h \<and> 0 \<le> paternalSisters h \<and> 0 \<le> maternalBrothers h \<and>
     0 \<le> maternalSisters h \<and> 0 \<le> nephewsFullBrothers h \<and>
     0 \<le> nephewsPaternalBrothers h \<and> 0 \<le> unclesFull h \<and> 0 \<le> unclesPaternal h"

section \<open>Blocking (blocking.js)\<close>

text \<open>\<open>BlockingRules\<close>: a dictionary from heir type to a predicate on the composition.
  A key that is not in the dictionary has no rule.\<close>

definition BlockingRules :: "(string \<times> (heirs \<Rightarrow> bool)) list" where
  "BlockingRules =
     [(''paternalGrandfather'', \<lambda>h. father h),
      (''paternalGrandmother'', \<lambda>h. mother h),
      (''grandsonsFromSon'', \<lambda>h. sons h > 0),
      (''granddaughtersFromSon'', \<lambda>h. sons h > 0),
      (''fullBrothers'', \<lambda>h. father h \<or> sons h > 0 \<or> grandsonsFromSon h > 0),
      (''fullSisters'', \<lambda>h. father h \<or> sons h > 0 \<or> grandsonsFromSon h > 0),
      (''paternalBrothers'',
         \<lambda>h. father h \<or> sons h > 0 \<or> grandsonsFromSon h > 0 \<or> fullBrothers h > 0),
      (''paternalSisters'',
         \<lambda>h. father h \<or> sons h > 0 \<or> grandsonsFromSon h > 0 \<or> fullBrothers h > 0)]"

text \<open>The five distinct message texts of \<open>BlockingReasons\<close>, kept as tags.\<close>

datatype reason =
  BlockedByFather | BlockedByMother | BlockedBySon | BlockedByGrandsonFromSon
  | BlockedByFullBrother

definition hasBlockingReasons :: "string \<Rightarrow> bool" where
  "hasBlockingReasons heirType \<longleftrightarrow>
     heirType \<in> set [''paternalGrandfather'', ''paternalGrandmother'', ''grandsonsFromSon'',
       ''granddaughtersFromSon'', ''fullBrothers'', ''fullSisters'', ''paternalBrothers'',
       ''paternalSisters'']"

definition getBlockingReason :: "string \<Rightarrow> heirs \<Rightarrow> reason option" where
  "getBlockingReason heirType h =
     (if \<not> hasBlockingReasons heirType then None
      else if heirType = ''paternalGrandfather'' \<and> father h then Some BlockedByFather
      else if heirType = ''paternalGrandmother'' \<and> mother h then Some BlockedByMother
      else if (heirType = ''grandsonsFromSon'' \<or> heirType = ''granddaughtersFromSon'')
              \<and> sons h > 0 then Some BlockedBySon
      else if (heirType = ''fullBrothers'' \<or> heirType = ''fullSisters'') \<and> father h
        then Some BlockedByFather
      else if (heirType = ''fullBrothers'' \<or> heirType = ''fullSisters'') \<and> sons h > 0
        then Some BlockedBySon
      else if (heirType = ''fullBrothers'' \<or> heirType = ''fullSisters'')
              \<and> grandsonsFromSon h > 0 then Some BlockedByGrandsonFromSon
      else if (heirType = ''paternalBrothers'' \<or> heirType = ''paternalSisters'') \<and> father h
        then Some BlockedByFather
      else if (heirType = ''paternalBrothers'' \<or> heirType = ''paternalSisters'') \<and> sons h > 0
        then Some BlockedBySon
      else if (heirType = ''paternalBrothers'' \<or> heirType = ''paternalSisters'')
              \<and> grandsonsFromSon h > 0 then Some BlockedByGrandsonFromSon
      else if (heirType = ''paternalBrothers'' \<or> heirType = ''paternalSisters'')
              \<and> fullBrothers h > 0 then Some BlockedByFullBrother
      else None)"

record blocking =
  blocked :: bool
  reason :: "reason option"

definition checkBlocking :: "string \<Rightarrow> heirs \<Rightarrow> blocking" where
  "checkBlocking heirType h =
     (case map_of BlockingRules heirType of
        None \<Rightarrow> \<lparr>blocked = False, reason = None\<rparr>
      | Some rule \<Rightarrow>
          if \<not> rule h then \<lparr>blocked = False, reason = None\<rparr>
          else \<lparr>blocked = True, reason = getBlockingReason heirType h\<rparr>)"

definition BlockableHeirTypes :: "string list" where
  "BlockableHeirTypes = map fst BlockingRules"

text \<open>\<open>getAllBlockings\<close>: the object built by the loop over the keys of
  \<open>BlockingRules\<close>, as a dictionary.\<close>

definition getAllBlockings :: "heirs \<Rightarrow> string \<Rightarrow> blocking option" where
  "getAllBlockings h = map_of (map (\<lambda>heirType. (heirType, checkBlocking heirType h)) BlockableHeirTypes)"

text \<open>
  Claim C5. For every composition, \<open>checkBlocking\<close> and \<open>getAllBlockings\<close> report the
  paternal grandfather blocked exactly when the father is present, the paternal
  grandmother blocked exactly when the mother is present, the son's sons and the son's
  daughters blocked exactly when there is a son, and the full brothers and full sisters
  blocked exactly when the father is present or there is a son or a son's son.
\<close>

theorem blocking_correctness:
  "blocked (checkBlocking ''paternalGrandfather'' h) = father h
   \<and> blocked (checkBlocking ''paternalGrandmother'' h) = mother h
   \<and> blocked (checkBlocking ''grandsonsFromSon'' h) = (sons h > 0)
   \<and> blocked (checkBlocking ''granddaughtersFromSon'' h) = (sons h > 0)
   \<and> blocked (checkBlocking ''fullBrothers'' h)
       = (father h \<or> sons h > 0 \<or> grandsonsFromSon h > 0)
   \<and> blocked (checkBlocking ''fullSisters'' h)
       = (father h \<or> sons h > 0 \<or> grandsonsFromSon h > 0)
   \<and> getAllBlockings h ''paternalGrandfather'' = Some (checkBlocking ''paternalGrandfather'' h)
   \<and> getAllBlockings h ''paternalGrandmother'' = Some (checkBlocking ''paternalGrandmother'' h)
   \<and> getAllBlockings h ''grandsonsFromSon'' = Some (checkBlocking ''grandsonsFromSon'' h)
   \<and> getAllBlockings h ''granddaughtersFromSon''
       = Some (checkBlocking ''granddaughtersFromSon'' h)
   \<and> getAllBlockings h ''fullBrothers'' = Some (checkBlocking ''fullBrothers'' h)
   \<and> getAllBlockings h ''fullSisters'' = Some (checkBlocking ''fullSisters'' h)"
  by (simp add: checkBlocking_def getAllBlockings_def BlockableHeirTypes_def BlockingRules_def)

section \<open>Fixed shares (shares.js)\<close>

definition hasChildren :: "heirs \<Rightarrow> bool" where
  "hasChildren h \<longleftrightarrow>
     sons h > 0 \<or> daughters h > 0 \<or> grandsonsFromSon h > 0 \<or> granddaughtersFromSon h > 0"

definition hasMaleDescendants :: "heirs \<Rightarrow> bool" where
  "hasMaleDescendants h \<longleftrightarrow> sons h > 0 \<or> grandsonsFromSon h > 0"

definition hasMultipleSiblings :: "heirs \<Rightarrow> bool" where
  "hasMultipleSiblings h \<longleftrightarrow>
     (let totalSiblings = fullBrothers h + fullSisters h + paternalBrothers h
        + paternalSisters h + maternalBrothers h + maternalSisters h
      in totalSiblings \<ge> 2)"

text \<open>A call that returns a fraction where the caller may also see \<open>null\<close>.\<close>

definition some :: "error + 'a \<Rightarrow> error + 'a option" where
  "some m = ebind m (\<lambda>x. Inr (Some x))"

subsection \<open>The \<open>getShare\<close> functions of \<open>HeirTypes\<close>\<close>

text \<open>Each returns a fraction or \<open>null\<close> (\<open>None\<close>: the heir is residuary). The
  functions of the purely residuary types (\<open>SON\<close>, \<open>GRANDSON_FROM_SON\<close>, the brothers and
  the distant agnates) return \<open>null\<close> always and are not called by the engine.\<close>

definition HUSBAND_getShare :: "heirs \<Rightarrow> error + fraction" where
  "HUSBAND_getShare h = (if hasChildren h then new_Fraction 1 4 else new_Fraction 1 2)"

definition WIFE_getShare :: "heirs \<Rightarrow> error + fraction" where
  "WIFE_getShare h = (if hasChildren h then new_Fraction 1 8 else new_Fraction 1 4)"

definition DAUGHTER_getShare :: "heirs \<Rightarrow> error + fraction option" where
  "DAUGHTER_getShare h =
     (if sons h > 0 then Inr None
      else if daughters h = 1 then some (new_Fraction 1 2)
      else some (new_Fraction 2 3))"

definition GRANDDAUGHTER_FROM_SON_getShare :: "heirs \<Rightarrow> error + fraction option" where
  "GRANDDAUGHTER_FROM_SON_getShare h =
     (if grandsonsFromSon h > 0 then Inr None
      else if daughters h = 1 then some (new_Fraction 1 6)
      else if daughters h \<ge> 2 then some (new_Fraction 0 1)
      else if granddaughtersFromSon h = 1 then some (new_Fraction 1 2)
      else some (new_Fraction 2 3))"

definition FATHER_getShare :: "heirs \<Rightarrow> error + fraction option" where
  "FATHER_getShare h =
     (if hasMaleDescendants h then some (new_Fraction 1 6)
      else if daughters h > 0 \<or> granddaughtersFromSon h > 0 then some (new_Fraction 1 6)
      else Inr None)"

definition MOTHER_getShare :: "heirs \<Rightarrow> error + fraction" where
  "MOTHER_getShare h =
     (if hasChildren h \<or> hasMultipleSiblings h then new_Fraction 1 6 else new_Fraction 1 3)"

definition PATERNAL_GRANDFATHER_getShare :: "heirs \<Rightarrow> error + fraction option" where
  "PATERNAL_GRANDFATHER_getShare h =
     (if hasMaleDescendants h then some (new_Fraction 1 6)
      else if daughters h > 0 \<or> granddaughtersFromSon h > 0 then some (new_Fraction 1 6)
      else Inr None)"

definition FULL_SISTER_getShare :: "heirs \<Rightarrow> error + fraction option" where
  "FULL_SISTER_getShare h =
     (if fullBrothers h > 0 then Inr None
      else if fullSisters h = 1 then some (new_Fraction 1 2)
      else some (new_Fraction 2 3))"

definition PATERNAL_SISTER_getShare :: "heirs \<Rightarrow> error + fraction option" where
  "PATERNAL_SISTER_getShare h =
     (if paternalBrothers h > 0 then Inr None
      else if fullSisters h = 1 then some (new_Fraction 1 6)
      else if fullSisters h \<ge> 2 then some (new_Fraction 0 1)
      else if paternalSisters h = 1 then some (new_Fraction 1 2)
      else some (new_Fraction 2 3))"

subsection \<open>Spouses\<close>

text \<open>The result objects below keep the fields that later code reads; the fields that
  only carry the heir descriptor (\<open>heirType\<close>) or repeat a presence flag are left out.
  Field names are global in a theory, so a field name that several result objects of
  the source share gets a distinguishing prefix or suffix here: \<open>wifeCount\<close>,
  \<open>totalShare\<close>, \<open>isAsaba\<close>, \<open>count\<close>, \<open>blocked\<close>, \<open>applied\<close>, \<open>remainder\<close>,
  \<open>recipients\<close>, \<open>asabaInfo\<close> and \<open>distribution\<close> appear as \<open>wifeCountUsed\<close>,
  \<open>gmTotalShare\<close>, \<open>isAsabaAsc\<close> and \<open>isAsabaDesc\<close>, \<open>headCount\<close>, \<open>blockedDesc\<close>,
  \<open>awlApplied\<close>, \<open>raddApplied\<close> and \<open>umariyyatanApplied\<close>, \<open>raddRemainder\<close> and
  \<open>resultRemainder\<close>, \<open>raddRecipients\<close>, \<open>resultInfo\<close> and \<open>resultDistribution\<close>.\<close>

definition calculateHusbandShare :: "heirs \<Rightarrow> error + fraction" where
  "calculateHusbandShare h = HUSBAND_getShare h"

record wifeResult =
  totalShare :: fraction
  perWifeShare :: fraction
  wifeCountUsed :: int

text \<open>\<open>heirs.wifeCount || 1\<close>: a missing or zero count becomes 1.\<close>

definition effectiveWifeCount :: "heirs \<Rightarrow> int" where
  "effectiveWifeCount h = (case wifeCount h of None \<Rightarrow> 1 | Some n \<Rightarrow> if n = 0 then 1 else n)"

definition calculateWifeShare :: "heirs \<Rightarrow> error + wifeResult" where
  "calculateWifeShare h =
     ebind (WIFE_getShare h) (\<lambda>total.
     let count = effectiveWifeCount h in
     ebind (ebind (new_Fraction count 1) (divide total)) (\<lambda>perWife.
       Inr \<lparr>totalShare = total, perWifeShare = perWife, wifeCountUsed = count\<rparr>))"

subsection \<open>Ascendants\<close>

definition calculateMotherShare :: "heirs \<Rightarrow> error + fraction" where
  "calculateMotherShare h = MOTHER_getShare h"

record ascendantResult =
  fixedShare :: "fraction option"
  isAsabaAsc :: bool
  asabaWithFixed :: bool

definition calculateFatherShare :: "heirs \<Rightarrow> error + ascendantResult" where
  "calculateFatherShare h =
     ebind (FATHER_getShare h) (\<lambda>fixed.
     let hasMaleDesc = hasMaleDescendants h;
         hasFemaleDesc = (daughters h > 0 \<or> granddaughtersFromSon h > 0)
     in Inr \<lparr>fixedShare = fixed, isAsabaAsc = \<not> hasMaleDesc,
             asabaWithFixed = (\<not> hasMaleDesc \<and> hasFemaleDesc)\<rparr>)"

definition calculateGrandfatherShare :: "heirs \<Rightarrow> error + ascendantResult" where
  "calculateGrandfatherShare h =
     ebind (PATERNAL_GRANDFATHER_getShare h) (\<lambda>fixed.
     let hasMaleDesc = hasMaleDescendants h;
         hasFemaleDesc = (daughters h > 0 \<or> granddaughtersFromSon h > 0)
     in Inr \<lparr>fixedShare = fixed, isAsabaAsc = \<not> hasMaleDesc,
             asabaWithFixed = (\<not> hasMaleDesc \<and> hasFemaleDesc)\<rparr>)"

record grandmotherResult =
  gmTotalShare :: fraction
  perGrandmotherShare :: fraction
  grandmotherCount :: int

definition calculateGrandmotherShare :: "heirs \<Rightarrow> error + grandmotherResult option" where
  "calculateGrandmotherShare h =
     (let c1 = (if paternalGrandmother h \<and> \<not> mother h then 1 else 0);
          c2 = (if maternalGrandmother h \<and> \<not> mother h then c1 + 1 else c1)
      in if c2 = 0 then Inr None
         else ebind (new_Fraction 1 6) (\<lambda>total.
              ebind (ebind (new_Fraction c2 1) (divide total)) (\<lambda>per.
                Inr (Some \<lparr>gmTotalShare = total, perGrandmotherShare = per,
                           grandmotherCount = c2\<rparr>))))"

subsection \<open>Descendants\<close>

record descendantResult =
  share :: "fraction option"
  headCount :: int
  isAsabaDesc :: bool
  perPersonShare :: "fraction option"
  blockedDesc :: bool

definition calculateDaughterShare :: "heirs \<Rightarrow> error + descendantResult option" where
  "calculateDaughterShare h =
     (if daughters h = 0 then Inr None
      else ebind (DAUGHTER_getShare h) (\<lambda>sh.
        case sh of
          None \<Rightarrow> Inr (Some \<lparr>share = None, headCount = daughters h, isAsabaDesc = True,
                            perPersonShare = None, blockedDesc = False\<rparr>)
        | Some s \<Rightarrow>
            ebind (ebind (new_Fraction (daughters h) 1) (divide s)) (\<lambda>per.
              Inr (Some \<lparr>share = Some s, headCount = daughters h, isAsabaDesc = False,
                         perPersonShare = Some per, blockedDesc = False\<rparr>))))"

definition calculateGranddaughterShare :: "heirs \<Rightarrow> error + descendantResult option" where
  "calculateGranddaughterShare h =
     (if sons h > 0 then Inr None
      else if granddaughtersFromSon h = 0 then Inr None
      else ebind (GRANDDAUGHTER_FROM_SON_getShare h) (\<lambda>sh.
        case sh of
          None \<Rightarrow> Inr (Some \<lparr>share = None, headCount = granddaughtersFromSon h,
                            isAsabaDesc = True, perPersonShare = None, blockedDesc = False\<rparr>)
        | Some s \<Rightarrow>
            if isZero s then
              ebind (new_Fraction 0 1) (\<lambda>z. ebind (new_Fraction 0 1) (\<lambda>z'.
                Inr (Some \<lparr>share = Some z, headCount = granddaughtersFromSon h,
                           isAsabaDesc = False, perPersonShare = Some z',
                           blockedDesc = True\<rparr>)))
            else
              ebind (ebind (new_Fraction (granddaughtersFromSon h) 1) (divide s)) (\<lambda>per.
                Inr (Some \<lparr>share = Some s, headCount = granddaughtersFromSon h,
                           isAsabaDesc = False, perPersonShare = Some per,
                           blockedDesc = False\<rparr>))))"

section \<open>Residuary heirs (shares.js)\<close>

text \<open>\<open>AsabaPriority\<close>: the key of each entry, the \<open>id\<close> of its heir type and the field
  of the composition that holds its count.\<close>

record asabaEntry =
  entryKey :: string
  entryType :: string
  countField :: string

definition AsabaPriority :: "asabaEntry list" where
  "AsabaPriority =
     [\<lparr>entryKey = ''sons'', entryType = ''son'', countField = ''sons''\<rparr>,
      \<lparr>entryKey = ''grandsonsFromSon'', entryType = ''grandsonsFromSon'',
        countField = ''grandsonsFromSon''\<rparr>,
      \<lparr>entryKey = ''father'', entryType = ''father'', countField = ''father''\<rparr>,
      \<lparr>entryKey = ''paternalGrandfather'', entryType = ''paternalGrandfather'',
        countField = ''paternalGrandfather''\<rparr>,
      \<lparr>entryKey = ''fullBrothers'', entryType = ''fullBrothers'',
        countField = ''fullBrothers''\<rparr>,
      \<lparr>entryKey = ''paternalBrothers'', entryType = ''paternalBrothers'',
        countField = ''paternalBrothers''\<rparr>,
      \<lparr>entryKey = ''nephewsFullBrothers'', entryType = ''nephewsFullBrothers'',
        countField = ''nephewsFullBrothers''\<rparr>,
      \<lparr>entryKey = ''nephewsPaternalBrothers'', entryType = ''nephewsPaternalBrothers'',
        countField = ''nephewsPaternalBrothers''\<rparr>,
      \<lparr>entryKey = ''unclesFull'', entryType = ''unclesFull'', countField = ''unclesFull''\<rparr>,
      \<lparr>entryKey = ''unclesPaternal'', entryType = ''unclesPaternal'',
        countField = ''unclesPaternal''\<rparr>]"

text \<open>\<open>heirs[countField]\<close>: a flag or a number (a field that does not exist reads as
  \<open>undefined\<close>, which the loop skips like a zero).\<close>

datatype jsCount = Flag bool | Number int

definition heirsField :: "heirs \<Rightarrow> string \<Rightarrow> jsCount" where
  "heirsField h field =
     (if field = ''sons'' then Number (sons h)
      else if field = ''grandsonsFromSon'' then Number (grandsonsFromSon h)
      else if field = ''father'' then Flag (father h)
      else if field = ''paternalGrandfather'' then Flag (paternalGrandfather h)
      else if field = ''fullBrothers'' then Number (fullBrothers h)
      else if field = ''paternalBrothers'' then Number (paternalBrothers h)
      else if field = ''nephewsFullBrothers'' then Number (nephewsFullBrothers h)
      else if field = ''nephewsPaternalBrothers'' then Number (nephewsPaternalBrothers h)
      else if field = ''unclesFull'' then Number (unclesFull h)
      else if field = ''unclesPaternal'' then Number (unclesPaternal h)
      else Number 0)"

text \<open>\<open>!count || count === 0 || count === false\<close>\<close>

definition absent :: "jsCount \<Rightarrow> bool" where
  "absent c = (case c of Flag b \<Rightarrow> \<not> b | Number n \<Rightarrow> n = 0)"

text \<open>\<open>count === true ? 1 : count\<close>, for a count that is not absent.\<close>

definition headCountOf :: "jsCount \<Rightarrow> int" where
  "headCountOf c = (case c of Flag b \<Rightarrow> 1 | Number n \<Rightarrow> n)"

record asabaInfo =
  maleType :: string
  maleCount :: int
  femaleType :: "string option"
  femaleCount :: int
  hasFemales :: bool
  key :: string

definition blockedByCloserAsaba :: "heirs \<Rightarrow> bool" where
  "blockedByCloserAsaba h \<longleftrightarrow>
     sons h > 0 \<or> grandsonsFromSon h > 0 \<or> father h \<or> paternalGrandfather h
     \<or> fullBrothers h > 0 \<or> paternalBrothers h > 0"

text \<open>The chain of \<open>continue\<close> tests of the loop body: the entry is passed over.\<close>

definition skipped :: "heirs \<Rightarrow> asabaEntry \<Rightarrow> bool" where
  "skipped h e \<longleftrightarrow>
     (if absent (heirsField h (countField e)) then True
      else if entryKey e = ''grandsonsFromSon'' \<and> sons h > 0 then True
      else if entryKey e = ''paternalGrandfather'' \<and> father h then True
      else if (entryKey e = ''fullBrothers'' \<or> entryKey e = ''paternalBrothers'')
              \<and> (father h \<or> sons h > 0 \<or> grandsonsFromSon h > 0) then True
      else if entryKey e = ''paternalBrothers'' \<and> fullBrothers h > 0 then True
      else if entryKey e = ''nephewsFullBrothers'' \<and> blockedByCloserAsaba h then True
      else if entryKey e = ''nephewsPaternalBrothers''
              \<and> (blockedByCloserAsaba h \<or> nephewsFullBrothers h > 0) then True
      else if entryKey e = ''unclesFull''
              \<and> (blockedByCloserAsaba h \<or> nephewsFullBrothers h > 0
                  \<or> nephewsPaternalBrothers h > 0) then True
      else if entryKey e = ''unclesPaternal''
              \<and> (blockedByCloserAsaba h \<or> nephewsFullBrothers h > 0
                  \<or> nephewsPaternalBrothers h > 0 \<or> unclesFull h > 0) then True
      else False)"

text \<open>The tail of the loop body: the record returned for the entry that is not
  passed over.\<close>

definition foundAsaba :: "heirs \<Rightarrow> asabaEntry \<Rightarrow> asabaInfo" where
  "foundAsaba h e =
     (let asabaCount = headCountOf (heirsField h (countField e));
          females =
            (if entryKey e = ''sons'' then (daughters h, Some ''daughter'')
             else if entryKey e = ''grandsonsFromSon''
               then (granddaughtersFromSon h, Some ''granddaughtersFromSon'')
             else if entryKey e = ''fullBrothers'' then (fullSisters h, Some ''fullSisters'')
             else if entryKey e = ''paternalBrothers''
               then (paternalSisters h, Some ''paternalSisters'')
             else (0, None))
      in \<lparr>maleType = entryType e, maleCount = asabaCount, femaleType = snd females,
           femaleCount = fst females, hasFemales = (fst females > 0), key = entryKey e\<rparr>)"

text \<open>The \<open>for ... of AsabaPriority\<close> loop: the first entry that is not passed over is
  returned; \<open>null\<close> when the list is exhausted.\<close>

fun determineAsaba_loop :: "heirs \<Rightarrow> asabaEntry list \<Rightarrow> asabaInfo option" where
  "determineAsaba_loop h [] = None"
| "determineAsaba_loop h (e # rest) =
     (if skipped h e then determineAsaba_loop h rest else Some (foundAsaba h e))"

definition determineAsaba :: "heirs \<Rightarrow> asabaInfo option" where
  "determineAsaba h = determineAsaba_loop h AsabaPriority"

record distribution =
  maleShare :: fraction
  femaleShare :: fraction
  perMaleShare :: fraction
  perFemaleShare :: fraction
  totalShares :: int

definition distributeAsaba :: "fraction \<Rightarrow> asabaInfo option \<Rightarrow> error + distribution" where
  "distributeAsaba remainder info =
     (case info of
        None \<Rightarrow>
          ebind (new_Fraction 0 1) (\<lambda>z.
            Inr \<lparr>maleShare = z, femaleShare = z, perMaleShare = z, perFemaleShare = z,
                 totalShares = 0\<rparr>)
      | Some a \<Rightarrow>
          if isZero remainder then
            ebind (new_Fraction 0 1) (\<lambda>z.
              Inr \<lparr>maleShare = z, femaleShare = z, perMaleShare = z, perFemaleShare = z,
                   totalShares = 0\<rparr>)
          else if \<not> hasFemales a then
            ebind (ebind (new_Fraction (maleCount a) 1) (divide remainder)) (\<lambda>perMale.
            ebind (new_Fraction 0 1) (\<lambda>z.
              Inr \<lparr>maleShare = remainder, femaleShare = z, perMaleShare = perMale,
                   perFemaleShare = z, totalShares = maleCount a\<rparr>))
          else
            (let total = maleCount a * 2 + femaleCount a in
             ebind (ebind (new_Fraction total 1) (divide remainder)) (\<lambda>shareUnit.
             ebind (ebind (new_Fraction 2 1) (multiply shareUnit)) (\<lambda>perMale.
             ebind (ebind (new_Fraction (maleCount a) 1) (multiply perMale)) (\<lambda>males.
             ebind (ebind (new_Fraction (femaleCount a) 1) (multiply shareUnit)) (\<lambda>females.
               Inr \<lparr>maleShare = males, femaleShare = females, perMaleShare = perMale,
                    perFemaleShare = shareUnit, totalShares = total\<rparr>))))))"

subsection \<open>The total of the fixed shares and the remainder\<close>

text \<open>\<open>total = total.add(share)\<close>, for a share that is a fraction (the running total
  \<open>total\<close> of the source is named \<open>acc\<close> here), and the same under
  the test \<open>if (share)\<close> for a share that may be \<open>null\<close>.\<close>

definition addShare :: "fraction \<Rightarrow> error + fraction \<Rightarrow> error + fraction" where
  "addShare acc m = ebind m (add acc)"

definition addIfShare :: "fraction \<Rightarrow> error + fraction option \<Rightarrow> error + fraction" where
  "addIfShare acc m =
     ebind m (\<lambda>sh. case sh of None \<Rightarrow> Inr acc | Some s \<Rightarrow> add acc s)"

definition calculateFixedSharesTotal :: "heirs \<Rightarrow> error + fraction" where
  "calculateFixedSharesTotal h =
     ebind (new_Fraction 0 1) (\<lambda>acc.
     ebind (if husband h then addShare acc (calculateHusbandShare h)
            else if wife h then
              ebind (calculateWifeShare h) (\<lambda>r. add acc (totalShare r))
            else Inr acc) (\<lambda>acc.
     ebind (if mother h then addShare acc (calculateMotherShare h) else Inr acc) (\<lambda>acc.
     ebind (if father h then
              ebind (calculateFatherShare h) (\<lambda>r. addIfShare acc (Inr (fixedShare r)))
            else Inr acc) (\<lambda>acc.
     ebind (if paternalGrandfather h \<and> \<not> father h then
              ebind (calculateGrandfatherShare h) (\<lambda>r. addIfShare acc (Inr (fixedShare r)))
            else Inr acc) (\<lambda>acc.
     ebind (if (paternalGrandmother h \<or> maternalGrandmother h) \<and> \<not> mother h then
              ebind (calculateGrandmotherShare h) (\<lambda>r.
                case r of None \<Rightarrow> Inr acc | Some g \<Rightarrow> add acc (gmTotalShare g))
            else Inr acc) (\<lambda>acc.
     ebind (if daughters h > 0 \<and> sons h = 0 then
              ebind (calculateDaughterShare h) (\<lambda>r.
                case r of
                  None \<Rightarrow> Inr acc
                | Some d \<Rightarrow>
                    if \<not> isAsabaDesc d then addIfShare acc (Inr (share d)) else Inr acc)
            else Inr acc) (\<lambda>acc.
     ebind (if granddaughtersFromSon h > 0 \<and> sons h = 0 then
              ebind (calculateGranddaughterShare h) (\<lambda>r.
                case r of
                  None \<Rightarrow> Inr acc
                | Some d \<Rightarrow>
                    if \<not> isAsabaDesc d then addIfShare acc (Inr (share d)) else Inr acc)
            else Inr acc) (\<lambda>acc.
     ebind (if fullSisters h > 0 \<and> fullBrothers h = 0 \<and> \<not> father h \<and> sons h = 0
               \<and> grandsonsFromSon h = 0 then
              addIfShare acc (FULL_SISTER_getShare h)
            else Inr acc) (\<lambda>acc.
     ebind (if paternalSisters h > 0 \<and> paternalBrothers h = 0 \<and> \<not> father h \<and> sons h = 0
               \<and> grandsonsFromSon h = 0 \<and> fullBrothers h = 0 then
              addIfShare acc (PATERNAL_SISTER_getShare h)
            else Inr acc) (\<lambda>acc.
     ebind (if \<not> father h \<and> \<not> hasChildren h then
              (let totalMaternal = maternalBrothers h + maternalSisters h in
               if totalMaternal > 0 then
                 addShare acc
                   (if totalMaternal = 1 then new_Fraction 1 6 else new_Fraction 1 3)
               else Inr acc)
            else Inr acc) (\<lambda>acc.
       Inr acc)))))))))))"

definition calculateRemainder :: "heirs \<Rightarrow> error + fraction" where
  "calculateRemainder h =
     ebind (calculateFixedSharesTotal h) (\<lambda>fixedTotal.
     ebind (new_Fraction 1 1) (\<lambda>one. subtract one fixedTotal))"

record asabaResult =
  hasAsaba :: bool
  resultInfo :: "asabaInfo option"
  resultRemainder :: fraction
  resultDistribution :: "distribution option"

text \<open>The test \<open>!asabaInfo || remainder.lessThan(new Fraction(0, 1)) || remainder.isZero()\<close>
  is evaluated from left to right.\<close>

definition calculateAsaba :: "heirs \<Rightarrow> error + asabaResult" where
  "calculateAsaba h =
     (let info = determineAsaba h in
      ebind (calculateRemainder h) (\<lambda>remainder.
        if info = None then
          Inr \<lparr>hasAsaba = False, resultInfo = None, resultRemainder = remainder,
               resultDistribution = None\<rparr>
        else
          ebind (new_Fraction 0 1) (\<lambda>zero.
            if lessThan remainder zero \<or> isZero remainder then
              Inr \<lparr>hasAsaba = False, resultInfo = None, resultRemainder = remainder,
                   resultDistribution = None\<rparr>
            else
              ebind (distributeAsaba remainder info) (\<lambda>d.
                Inr \<lparr>hasAsaba = True, resultInfo = info, resultRemainder = remainder,
                     resultDistribution = Some d\<rparr>))))"

section \<open>The corrective procedures (special-cases.js)\<close>

text \<open>The result objects of this module also carry a \<open>notification\<close> for display (an
  icon and a message text); it takes no part in the computation and is left out.\<close>

subsection \<open>Reduction (Awl)\<close>

definition needsAwl :: "heirs \<Rightarrow> error + bool" where
  "needsAwl h =
     ebind (calculateFixedSharesTotal h) (\<lambda>fixedTotal.
     ebind (new_Fraction 1 1) (\<lambda>one. Inr (greaterThan fixedTotal one)))"

definition calculateAwlRatio :: "heirs \<Rightarrow> error + fraction" where
  "calculateAwlRatio h =
     ebind (calculateFixedSharesTotal h) (\<lambda>fixedTotal.
     ebind (new_Fraction 1 1) (\<lambda>one.
       if \<not> greaterThan fixedTotal one then Inr one else divide one fixedTotal))"

text \<open>\<open>applyAwlToShare(share, awlRatio)\<close>; the share may be \<open>null\<close>.\<close>

definition applyAwlToShare :: "fraction option \<Rightarrow> fraction \<Rightarrow> error + fraction" where
  "applyAwlToShare sh awlRatio =
     (case sh of
        None \<Rightarrow> new_Fraction 0 1
      | Some s \<Rightarrow> if isZero s then new_Fraction 0 1 else multiply s awlRatio)"

record awlResult =
  awlApplied :: bool
  originalTotal :: fraction
  adjustedTotal :: fraction
  awlRatio :: fraction

definition applyAwl :: "heirs \<Rightarrow> error + awlResult" where
  "applyAwl h =
     ebind (calculateFixedSharesTotal h) (\<lambda>fixedTotal.
     ebind (new_Fraction 1 1) (\<lambda>one.
       if \<not> greaterThan fixedTotal one then
         Inr \<lparr>awlApplied = False, originalTotal = fixedTotal, adjustedTotal = fixedTotal,
              awlRatio = one\<rparr>
       else
         ebind (calculateAwlRatio h) (\<lambda>ratio.
           Inr \<lparr>awlApplied = True, originalTotal = fixedTotal, adjustedTotal = one,
                awlRatio = ratio\<rparr>)))"

subsection \<open>Redistribution (Radd)\<close>

definition needsRadd :: "heirs \<Rightarrow> error + bool" where
  "needsRadd h =
     ebind (calculateRemainder h) (\<lambda>remainder.
     let info = determineAsaba h in
     ebind (new_Fraction 0 1) (\<lambda>zero. Inr (greaterThan remainder zero \<and> info = None)))"

definition canDaughtersParticipateInRadd :: "heirs \<Rightarrow> bool" where
  "canDaughtersParticipateInRadd h \<longleftrightarrow> daughters h > 0 \<and> sons h = 0"

definition canGranddaughtersParticipateInRadd :: "heirs \<Rightarrow> bool" where
  "canGranddaughtersParticipateInRadd h \<longleftrightarrow> granddaughtersFromSon h > 0 \<and> sons h = 0"

definition canGrandmothersParticipateInRadd :: "heirs \<Rightarrow> bool" where
  "canGrandmothersParticipateInRadd h \<longleftrightarrow>
     (paternalGrandmother h \<or> maternalGrandmother h) \<and> \<not> mother h"

definition areSistersBlockedFromRadd :: "heirs \<Rightarrow> bool" where
  "areSistersBlockedFromRadd h \<longleftrightarrow> father h \<or> sons h > 0 \<or> grandsonsFromSon h > 0"

definition canFullSistersParticipateInRadd :: "heirs \<Rightarrow> bool" where
  "canFullSistersParticipateInRadd h \<longleftrightarrow>
     fullSisters h > 0 \<and> fullBrothers h = 0 \<and> \<not> areSistersBlockedFromRadd h"

definition canPaternalSistersParticipateInRadd :: "heirs \<Rightarrow> bool" where
  "canPaternalSistersParticipateInRadd h \<longleftrightarrow>
     paternalSisters h > 0 \<and> paternalBrothers h = 0 \<and> fullBrothers h = 0
     \<and> \<not> areSistersBlockedFromRadd h"

definition isKalalahCondition :: "heirs \<Rightarrow> bool" where
  "isKalalahCondition h \<longleftrightarrow> \<not> father h \<and> \<not> hasChildren h"

text \<open>\<open>getRaddRecipients\<close>: the pushes onto \<open>recipients\<close>, in order.\<close>

definition getRaddRecipients :: "heirs \<Rightarrow> string list" where
  "getRaddRecipients h =
     (if mother h then [''mother''] else [])
     @ (if canDaughtersParticipateInRadd h then [''daughters''] else [])
     @ (if canGranddaughtersParticipateInRadd h then [''granddaughtersFromSon''] else [])
     @ (if canGrandmothersParticipateInRadd h then [''grandmothers''] else [])
     @ (if canFullSistersParticipateInRadd h then [''fullSisters''] else [])
     @ (if canPaternalSistersParticipateInRadd h then [''paternalSisters''] else [])
     @ (if isKalalahCondition h then
          (if maternalBrothers h > 0 then [''maternalBrothers''] else [])
          @ (if maternalSisters h > 0 then [''maternalSisters''] else [])
        else [])"

definition calculateDaughtersRaddShare :: "heirs \<Rightarrow> error + fraction" where
  "calculateDaughtersRaddShare h =
     (if daughters h = 1 then new_Fraction 1 2 else new_Fraction 2 3)"

definition calculateGranddaughtersRaddShare :: "heirs \<Rightarrow> error + fraction" where
  "calculateGranddaughtersRaddShare h =
     (if daughters h = 1 then new_Fraction 1 6
      else if daughters h = 0 then
        (if granddaughtersFromSon h = 1 then new_Fraction 1 2 else new_Fraction 2 3)
      else new_Fraction 0 1)"

definition calculateFullSistersRaddShare :: "heirs \<Rightarrow> error + fraction" where
  "calculateFullSistersRaddShare h =
     (if fullSisters h = 1 then new_Fraction 1 2 else new_Fraction 2 3)"

definition calculatePaternalSistersRaddShare :: "heirs \<Rightarrow> error + fraction" where
  "calculatePaternalSistersRaddShare h =
     (if fullSisters h = 1 then new_Fraction 1 6
      else if fullSisters h = 0 then
        (if paternalSisters h = 1 then new_Fraction 1 2 else new_Fraction 2 3)
      else new_Fraction 0 1)"

definition calculateMaternalSiblingsRaddShare :: "heirs \<Rightarrow> error + fraction" where
  "calculateMaternalSiblingsRaddShare h =
     (let totalMaternal = maternalBrothers h + maternalSisters h in
      if totalMaternal = 1 then new_Fraction 1 6 else new_Fraction 1 3)"

definition shouldAddMaternalSiblingsShare :: "string \<Rightarrow> string list \<Rightarrow> bool" where
  "shouldAddMaternalSiblingsShare recipient recipients =
     (let hasBrothers = ''maternalBrothers'' \<in> set recipients;
          hasSisters = ''maternalSisters'' \<in> set recipients
      in if recipient = ''maternalBrothers'' \<and> \<not> hasSisters then True
         else if recipient = ''maternalSisters'' \<and> \<not> hasBrothers then True
         else if recipient = ''maternalBrothers'' \<and> hasSisters then True
         else False)"

definition getRecipientRaddShare :: "string \<Rightarrow> heirs \<Rightarrow> string list \<Rightarrow> error + fraction" where
  "getRecipientRaddShare recipient h recipients =
     (if recipient = ''mother'' then calculateMotherShare h
      else if recipient = ''daughters'' then calculateDaughtersRaddShare h
      else if recipient = ''granddaughtersFromSon'' then calculateGranddaughtersRaddShare h
      else if recipient = ''grandmothers'' then new_Fraction 1 6
      else if recipient = ''fullSisters'' then calculateFullSistersRaddShare h
      else if recipient = ''paternalSisters'' then calculatePaternalSistersRaddShare h
      else if recipient = ''maternalBrothers'' \<or> recipient = ''maternalSisters'' then
        (if shouldAddMaternalSiblingsShare recipient recipients
         then calculateMaternalSiblingsRaddShare h else new_Fraction 0 1)
      else new_Fraction 0 1)"

text \<open>The loop of \<open>calculateRaddRecipientsTotal\<close> over \<open>recipients\<close>; every call of
  \<open>getRecipientRaddShare\<close> in it receives the whole list \<open>all\<close>.\<close>

fun raddTotal_loop :: "heirs \<Rightarrow> string list \<Rightarrow> fraction \<Rightarrow> string list \<Rightarrow> error + fraction" where
  "raddTotal_loop h all acc [] = Inr acc"
| "raddTotal_loop h all acc (recipient # rest) =
     ebind (getRecipientRaddShare recipient h all) (\<lambda>sh.
     ebind (add acc sh) (\<lambda>acc'. raddTotal_loop h all acc' rest))"

definition calculateRaddRecipientsTotal :: "heirs \<Rightarrow> string list \<Rightarrow> error + fraction" where
  "calculateRaddRecipientsTotal h recipients =
     ebind (new_Fraction 0 1) (\<lambda>zero. raddTotal_loop h recipients zero recipients)"

text \<open>\<open>calculateRaddShareForRecipient\<close>: the base share is asked for with the one-element
  list \<open>[recipient]\<close>.\<close>

definition calculateRaddShareForRecipient ::
  "string \<Rightarrow> heirs \<Rightarrow> fraction \<Rightarrow> fraction \<Rightarrow> error + fraction" where
  "calculateRaddShareForRecipient recipient h remainder recipientsTotal =
     ebind (getRecipientRaddShare recipient h [recipient]) (\<lambda>baseShare.
     ebind (divide baseShare recipientsTotal) (\<lambda>proportion.
       multiply remainder proportion))"

text \<open>\<open>calculateAllRaddShares\<close>: the object \<open>raddShares\<close>, one entry per recipient, in
  the order of the assignments.\<close>

fun calculateAllRaddShares ::
  "string list \<Rightarrow> heirs \<Rightarrow> fraction \<Rightarrow> fraction \<Rightarrow> error + (string \<times> fraction) list" where
  "calculateAllRaddShares [] h remainder recipientsTotal = Inr []"
| "calculateAllRaddShares (recipient # rest) h remainder recipientsTotal =
     ebind (calculateRaddShareForRecipient recipient h remainder recipientsTotal) (\<lambda>sh.
     ebind (calculateAllRaddShares rest h remainder recipientsTotal) (\<lambda>shares.
       Inr ((recipient, sh) # shares)))"

record raddResult =
  raddApplied :: bool
  raddRemainder :: fraction
  raddRecipients :: "string list"
  raddShares :: "(string \<times> fraction) list"

definition createRaddNotAppliedResult :: "fraction \<Rightarrow> raddResult" where
  "createRaddNotAppliedResult remainder =
     \<lparr>raddApplied = False, raddRemainder = remainder, raddRecipients = [], raddShares = []\<rparr>"

definition applyRadd :: "heirs \<Rightarrow> error + raddResult" where
  "applyRadd h =
     ebind (calculateRemainder h) (\<lambda>remainder.
     let info = determineAsaba h in
     ebind (new_Fraction 0 1) (\<lambda>zero.
       if \<not> greaterThan remainder zero \<or> info \<noteq> None then
         Inr (createRaddNotAppliedResult remainder)
       else
         (let recipients = getRaddRecipients h in
          if length recipients = 0 then Inr (createRaddNotAppliedResult remainder)
          else
            ebind (calculateRaddRecipientsTotal h recipients) (\<lambda>recipientsTotal.
            ebind (calculateAllRaddShares recipients h remainder recipientsTotal) (\<lambda>shares.
              Inr \<lparr>raddApplied = True, raddRemainder = remainder,
                   raddRecipients = recipients, raddShares = shares\<rparr>)))))"

subsection \<open>The exception for a spouse and both parents (Umariyyatan)\<close>

text \<open>\<open>checkUmariyyatan\<close> returns \<open>null\<close> or an object with \<open>applies: true\<close>, the case number
  (1 with the husband, 2 with the wife) and a description text; the model returns the
  case number.\<close>

definition checkUmariyyatan :: "heirs \<Rightarrow> int option" where
  "checkUmariyyatan h =
     (if \<not> (husband h \<or> wife h) then None
      else if \<not> father h \<or> \<not> mother h then None
      else if sons h > 0 \<or> daughters h > 0 \<or> grandsonsFromSon h > 0
              \<or> granddaughtersFromSon h > 0 then None
      else if fullBrothers h > 0 \<or> fullSisters h > 0 \<or> paternalBrothers h > 0
              \<or> paternalSisters h > 0 \<or> maternalBrothers h > 0 \<or> maternalSisters h > 0
        then None
      else if paternalGrandfather h \<or> paternalGrandmother h \<or> maternalGrandmother h
        then None
      else Some (if husband h then 1 else 2))"

record umariyyatanShares =
  spouseType :: string
  spouseShare :: fraction
  motherShare :: fraction
  fatherShare :: fraction
  normalMotherShare :: fraction

definition calculateUmariyyatanShares :: "heirs \<Rightarrow> error + umariyyatanShares option" where
  "calculateUmariyyatanShares h =
     (case checkUmariyyatan h of
        None \<Rightarrow> Inr None
      | Some caseNumber \<Rightarrow>
          ebind (new_Fraction 1 1) (\<lambda>one.
          ebind (if husband h then new_Fraction 1 2 else new_Fraction 1 4) (\<lambda>spouse.
          let spouseT = (if husband h then ''husband'' else ''wife'') in
          ebind (subtract one spouse) (\<lambda>remainderAfterSpouse.
          ebind (ebind (new_Fraction 3 1) (divide remainderAfterSpouse)) (\<lambda>mothers.
          ebind (subtract remainderAfterSpouse mothers) (\<lambda>fathers.
          ebind (new_Fraction 1 3) (\<lambda>normal.
            Inr (Some \<lparr>spouseType = spouseT, spouseShare = spouse, motherShare = mothers,
                       fatherShare = fathers, normalMotherShare = normal\<rparr>))))))))"

record umariyyatanResult =
  umariyyatanApplied :: bool
  caseNumber :: "int option"
  shares :: "umariyyatanShares option"

definition applyUmariyyatan :: "heirs \<Rightarrow> error + umariyyatanResult" where
  "applyUmariyyatan h =
     (case checkUmariyyatan h of
        None \<Rightarrow> Inr \<lparr>umariyyatanApplied = False, caseNumber = None, shares = None\<rparr>
      | Some n \<Rightarrow>
          ebind (calculateUmariyyatanShares h) (\<lambda>sh.
            Inr \<lparr>umariyyatanApplied = True, caseNumber = Some n, shares = sh\<rparr>))"

subsection \<open>The three procedures in their order of priority\<close>

record specialCases =
  umariyyatan :: umariyyatanResult
  awl :: "awlResult option"
  radd :: "raddResult option"

definition applySpecialCases :: "heirs \<Rightarrow> error + specialCases" where
  "applySpecialCases h =
     ebind (applyUmariyyatan h) (\<lambda>u.
       if umariyyatanApplied u then Inr \<lparr>umariyyatan = u, awl = None, radd = None\<rparr>
       else
         ebind (applyAwl h) (\<lambda>a.
           if awlApplied a then Inr \<lparr>umariyyatan = u, awl = Some a, radd = None\<rparr>
           else
             ebind (applyRadd h) (\<lambda>r.
               Inr \<lparr>umariyyatan = u, awl = Some a, radd = Some r\<rparr>)))"

section \<open>Facts about the model\<close>

subsection \<open>Fractions as rational numbers\<close>

lemma new_Fraction_lit [simp]: "0 < d \<Longrightarrow> new_Fraction n d = Inr \<lparr>num = n, den = d\<rparr>"
  by (simp add: new_Fraction_def)

lemma some_Inr [simp]: "some (Inr x) = Inr (Some x)"
  by (simp add: some_def)

lemma ratOf_lit [simp]: "ratOf \<lparr>num = a, den = b\<rparr> = of_int a / of_int b"
  by (simp add: ratOf_def Fract_of_int_quotient)

lemma den_canon_neq0 [simp]: "den (canon q) \<noteq> 0"
  by (rule less_imp_neq [THEN not_sym]) (rule den_canon_pos)

lemma canon_0: "canon 0 = \<lparr>num = 0, den = 1\<rparr>"
  by (simp add: canon_def)

lemma canon_1: "canon 1 = \<lparr>num = 1, den = 1\<rparr>"
  by (simp add: canon_def)

lemma canon_lit:
  "0 < b \<Longrightarrow> coprime a b \<Longrightarrow> canon (of_int a / of_int b) = \<lparr>num = a, den = b\<rparr>"
  by (simp add: canon_def Fract_of_int_quotient [symmetric] quotient_of_Fract)

lemma ratOf_eq_divide: "ratOf f = of_int (num f) / of_int (den f)"
  by (simp add: ratOf_def Fract_of_int_quotient)

lemma greaterThan_iff:
  assumes "0 < den a" "0 < den b"
  shows "greaterThan a b \<longleftrightarrow> ratOf b < ratOf a"
proof -
  have "ratOf b < ratOf a \<longleftrightarrow>
      (of_int (num b * den a) :: rat) < of_int (num a * den b)"
    using assms by (simp add: ratOf_eq_divide field_simps)
  also have "\<dots> \<longleftrightarrow> num b * den a < num a * den b"
    by (simp only: of_int_less_iff)
  finally show ?thesis by (simp add: greaterThan_def)
qed

lemma lessThan_iff:
  assumes "0 < den a" "0 < den b"
  shows "lessThan a b \<longleftrightarrow> ratOf a < ratOf b"
proof -
  have "ratOf a < ratOf b \<longleftrightarrow>
      (of_int (num a * den b) :: rat) < of_int (num b * den a)"
    using assms by (simp add: ratOf_eq_divide field_simps)
  also have "\<dots> \<longleftrightarrow> num a * den b < num b * den a"
    by (simp only: of_int_less_iff)
  finally show ?thesis by (simp add: lessThan_def)
qed

lemma isZero_iff: "den a \<noteq> 0 \<Longrightarrow> isZero a \<longleftrightarrow> ratOf a = 0"
  by (simp add: isZero_def ratOf_eq_divide)

lemma greaterThan_canon_0 [simp]: "greaterThan (canon q) \<lparr>num = 0, den = 1\<rparr> \<longleftrightarrow> 0 < q"
  by (simp add: greaterThan_iff)

lemma greaterThan_canon_1 [simp]: "greaterThan (canon q) \<lparr>num = 1, den = 1\<rparr> \<longleftrightarrow> 1 < q"
  by (simp add: greaterThan_iff)

lemma lessThan_canon_0 [simp]: "lessThan (canon q) \<lparr>num = 0, den = 1\<rparr> \<longleftrightarrow> q < 0"
  by (simp add: lessThan_iff)

lemma isZero_canon [simp]: "isZero (canon q) \<longleftrightarrow> q = 0"
  by (simp add: isZero_iff)

lemma canon_ratOf: "0 < den f \<Longrightarrow> coprime (num f) (den f) \<Longrightarrow> canon (ratOf f) = f"
  by (simp add: ratOf_eq_divide canon_lit)

subsection \<open>The shares that the fixed-share total adds up\<close>

text \<open>
  \<open>calculateFixedSharesTotal\<close> adds at most one share in each of its steps. The list
  \<open>fixedShares\<close> names these shares, step by step and in the order of the source; lemma
  \<open>calculateFixedSharesTotal_canon\<close> proves that the function returns their sum. The
  maternal brothers and sisters share one pooled entry, as in the source.
\<close>

definition spouseFixed :: "heirs \<Rightarrow> (string \<times> fraction) list" where
  "spouseFixed h =
     (if husband h then
        [(''husband'', if hasChildren h then \<lparr>num = 1, den = 4\<rparr> else \<lparr>num = 1, den = 2\<rparr>)]
      else if wife h then
        [(''wife'', if hasChildren h then \<lparr>num = 1, den = 8\<rparr> else \<lparr>num = 1, den = 4\<rparr>)]
      else [])"

definition motherFixed :: "heirs \<Rightarrow> (string \<times> fraction) list" where
  "motherFixed h =
     (if mother h then
        [(''mother'', if hasChildren h \<or> hasMultipleSiblings h
                      then \<lparr>num = 1, den = 6\<rparr> else \<lparr>num = 1, den = 3\<rparr>)]
      else [])"

definition hasDescendantForSixth :: "heirs \<Rightarrow> bool" where
  "hasDescendantForSixth h \<longleftrightarrow>
     hasMaleDescendants h \<or> daughters h > 0 \<or> granddaughtersFromSon h > 0"

definition fatherFixed :: "heirs \<Rightarrow> (string \<times> fraction) list" where
  "fatherFixed h =
     (if father h \<and> hasDescendantForSixth h then [(''father'', \<lparr>num = 1, den = 6\<rparr>)] else [])"

definition grandfatherFixed :: "heirs \<Rightarrow> (string \<times> fraction) list" where
  "grandfatherFixed h =
     (if paternalGrandfather h \<and> \<not> father h \<and> hasDescendantForSixth h
      then [(''paternalGrandfather'', \<lparr>num = 1, den = 6\<rparr>)] else [])"

definition grandmothersFixed :: "heirs \<Rightarrow> (string \<times> fraction) list" where
  "grandmothersFixed h =
     (if (paternalGrandmother h \<or> maternalGrandmother h) \<and> \<not> mother h
      then [(''grandmothers'', \<lparr>num = 1, den = 6\<rparr>)] else [])"

definition daughtersFixed :: "heirs \<Rightarrow> (string \<times> fraction) list" where
  "daughtersFixed h =
     (if daughters h > 0 \<and> sons h = 0 then
        [(''daughters'', if daughters h = 1 then \<lparr>num = 1, den = 2\<rparr> else \<lparr>num = 2, den = 3\<rparr>)]
      else [])"

definition granddaughtersFixed :: "heirs \<Rightarrow> (string \<times> fraction) list" where
  "granddaughtersFixed h =
     (if granddaughtersFromSon h > 0 \<and> sons h = 0 \<and> \<not> grandsonsFromSon h > 0 then
        [(''granddaughtersFromSon'',
          if daughters h = 1 then \<lparr>num = 1, den = 6\<rparr>
          else if daughters h \<ge> 2 then \<lparr>num = 0, den = 1\<rparr>
          else if granddaughtersFromSon h = 1 then \<lparr>num = 1, den = 2\<rparr>
          else \<lparr>num = 2, den = 3\<rparr>)]
      else [])"

definition fullSistersFixed :: "heirs \<Rightarrow> (string \<times> fraction) list" where
  "fullSistersFixed h =
     (if fullSisters h > 0 \<and> fullBrothers h = 0 \<and> \<not> father h \<and> sons h = 0
         \<and> grandsonsFromSon h = 0 then
        [(''fullSisters'',
          if fullSisters h = 1 then \<lparr>num = 1, den = 2\<rparr> else \<lparr>num = 2, den = 3\<rparr>)]
      else [])"

definition paternalSistersFixed :: "heirs \<Rightarrow> (string \<times> fraction) list" where
  "paternalSistersFixed h =
     (if paternalSisters h > 0 \<and> paternalBrothers h = 0 \<and> \<not> father h \<and> sons h = 0
         \<and> grandsonsFromSon h = 0 \<and> fullBrothers h = 0 then
        [(''paternalSisters'',
          if fullSisters h = 1 then \<lparr>num = 1, den = 6\<rparr>
          else if fullSisters h \<ge> 2 then \<lparr>num = 0, den = 1\<rparr>
          else if paternalSisters h = 1 then \<lparr>num = 1, den = 2\<rparr>
          else \<lparr>num = 2, den = 3\<rparr>)]
      else [])"

definition maternalFixed :: "heirs \<Rightarrow> (string \<times> fraction) list" where
  "maternalFixed h =
     (if \<not> father h \<and> \<not> hasChildren h \<and> maternalBrothers h + maternalSisters h > 0 then
        [(''maternalSiblings'',
          if maternalBrothers h + maternalSisters h = 1
          then \<lparr>num = 1, den = 6\<rparr> else \<lparr>num = 1, den = 3\<rparr>)]
      else [])"

definition fixedShares :: "heirs \<Rightarrow> (string \<times> fraction) list" where
  "fixedShares h =
     spouseFixed h @ motherFixed h @ fatherFixed h @ grandfatherFixed h @ grandmothersFixed h
     @ daughtersFixed h @ granddaughtersFixed h @ fullSistersFixed h @ paternalSistersFixed h
     @ maternalFixed h"

definition ratSum :: "(string \<times> fraction) list \<Rightarrow> rat" where
  "ratSum xs = sum_list (map (\<lambda>x. ratOf (snd x)) xs)"

lemma ratSum_append [simp]: "ratSum (xs @ ys) = ratSum xs + ratSum ys"
  by (simp add: ratSum_def)

lemma ratSum_Nil [simp]: "ratSum [] = 0"
  by (simp add: ratSum_def)

lemma ratSum_Cons [simp]: "ratSum (x # xs) = ratOf (snd x) + ratSum xs"
  by (simp add: ratSum_def)

lemma add_canon_lit [simp]:
  "b \<noteq> 0 \<Longrightarrow> add (canon q) \<lparr>num = a, den = b\<rparr> = Inr (canon (q + of_int a / of_int b))"
  by (simp add: add_canon)

lemma effectiveWifeCount_neq0 [simp]: "effectiveWifeCount h \<noteq> 0"
  by (simp add: effectiveWifeCount_def split: option.splits)

lemma step_spouse:
  "(if husband h then addShare (canon q) (calculateHusbandShare h)
    else if wife h then ebind (calculateWifeShare h) (\<lambda>r. add (canon q) (totalShare r))
    else Inr (canon q))
   = Inr (canon (q + ratSum (spouseFixed h)))"
  by (simp add: addShare_def calculateHusbandShare_def HUSBAND_getShare_def
      calculateWifeShare_def WIFE_getShare_def spouseFixed_def divide_canon Let_def)

lemma step_mother:
  "(if mother h then addShare (canon q) (calculateMotherShare h) else Inr (canon q))
   = Inr (canon (q + ratSum (motherFixed h)))"
  by (simp add: addShare_def calculateMotherShare_def MOTHER_getShare_def motherFixed_def)

lemma step_father:
  "(if father h then
      ebind (calculateFatherShare h) (\<lambda>r. addIfShare (canon q) (Inr (fixedShare r)))
    else Inr (canon q))
   = Inr (canon (q + ratSum (fatherFixed h)))"
  by (simp add: addIfShare_def calculateFatherShare_def FATHER_getShare_def fatherFixed_def
      hasDescendantForSixth_def Let_def)

lemma step_grandfather:
  "(if paternalGrandfather h \<and> \<not> father h then
      ebind (calculateGrandfatherShare h) (\<lambda>r. addIfShare (canon q) (Inr (fixedShare r)))
    else Inr (canon q))
   = Inr (canon (q + ratSum (grandfatherFixed h)))"
  by (simp add: addIfShare_def calculateGrandfatherShare_def PATERNAL_GRANDFATHER_getShare_def
      grandfatherFixed_def hasDescendantForSixth_def Let_def)

lemma step_grandmothers:
  "(if (paternalGrandmother h \<or> maternalGrandmother h) \<and> \<not> mother h then
      ebind (calculateGrandmotherShare h) (\<lambda>r.
        case r of None \<Rightarrow> Inr (canon q) | Some g \<Rightarrow> add (canon q) (gmTotalShare g))
    else Inr (canon q))
   = Inr (canon (q + ratSum (grandmothersFixed h)))"
  by (auto simp add: calculateGrandmotherShare_def grandmothersFixed_def divide_canon Let_def)

lemma step_daughters:
  "(if daughters h > 0 \<and> sons h = 0 then
      ebind (calculateDaughterShare h) (\<lambda>r.
        case r of
          None \<Rightarrow> Inr (canon q)
        | Some d \<Rightarrow>
            if \<not> isAsabaDesc d then addIfShare (canon q) (Inr (share d)) else Inr (canon q))
    else Inr (canon q))
   = Inr (canon (q + ratSum (daughtersFixed h)))"
  by (auto simp add: calculateDaughterShare_def DAUGHTER_getShare_def daughtersFixed_def
      addIfShare_def divide_canon)

lemma step_granddaughters:
  "(if granddaughtersFromSon h > 0 \<and> sons h = 0 then
      ebind (calculateGranddaughterShare h) (\<lambda>r.
        case r of
          None \<Rightarrow> Inr (canon q)
        | Some d \<Rightarrow>
            if \<not> isAsabaDesc d then addIfShare (canon q) (Inr (share d)) else Inr (canon q))
    else Inr (canon q))
   = Inr (canon (q + ratSum (granddaughtersFixed h)))"
  by (auto simp add: calculateGranddaughterShare_def GRANDDAUGHTER_FROM_SON_getShare_def
      granddaughtersFixed_def addIfShare_def divide_canon isZero_def)

lemma step_fullSisters:
  "(if fullSisters h > 0 \<and> fullBrothers h = 0 \<and> \<not> father h \<and> sons h = 0
       \<and> grandsonsFromSon h = 0 then
      addIfShare (canon q) (FULL_SISTER_getShare h)
    else Inr (canon q))
   = Inr (canon (q + ratSum (fullSistersFixed h)))"
  by (auto simp add: FULL_SISTER_getShare_def fullSistersFixed_def addIfShare_def)

lemma step_paternalSisters:
  "(if paternalSisters h > 0 \<and> paternalBrothers h = 0 \<and> \<not> father h \<and> sons h = 0
       \<and> grandsonsFromSon h = 0 \<and> fullBrothers h = 0 then
      addIfShare (canon q) (PATERNAL_SISTER_getShare h)
    else Inr (canon q))
   = Inr (canon (q + ratSum (paternalSistersFixed h)))"
  by (auto simp add: PATERNAL_SISTER_getShare_def paternalSistersFixed_def addIfShare_def)

lemma step_maternal:
  "(if \<not> father h \<and> \<not> hasChildren h then
      (let totalMaternal = maternalBrothers h + maternalSisters h in
       if totalMaternal > 0 then
         addShare (canon q)
           (if totalMaternal = 1 then new_Fraction 1 6 else new_Fraction 1 3)
       else Inr (canon q))
    else Inr (canon q))
   = Inr (canon (q + ratSum (maternalFixed h)))"
  by (auto simp add: maternalFixed_def addShare_def Let_def)

lemma new_Fraction_0_1: "new_Fraction 0 1 = Inr (canon 0)"
  by (simp add: canon_0)

lemma calculateFixedSharesTotal_canon:
  "calculateFixedSharesTotal h = Inr (canon (ratSum (fixedShares h)))"
  unfolding calculateFixedSharesTotal_def
  apply (simp only: new_Fraction_0_1 ebind_Inr step_spouse step_mother step_father
      step_grandfather step_grandmothers step_daughters step_granddaughters step_fullSisters
      step_paternalSisters step_maternal)
  apply (simp add: fixedShares_def add.assoc)
  done


lemma calculateRemainder_canon:
  "calculateRemainder h = Inr (canon (1 - ratSum (fixedShares h)))"
  by (simp add: calculateRemainder_def calculateFixedSharesTotal_canon subtract_canon)

section \<open>The exception for a spouse and both parents\<close>

lemma eval_1_minus_half:
  "subtract \<lparr>num = 1, den = 1\<rparr> \<lparr>num = 1, den = 2\<rparr> = Inr \<lparr>num = 1, den = 2\<rparr>"
  by code_simp

lemma eval_half_div_3:
  "divide \<lparr>num = 1, den = 2\<rparr> \<lparr>num = 3, den = 1\<rparr> = Inr \<lparr>num = 1, den = 6\<rparr>"
  by code_simp

lemma eval_half_minus_sixth:
  "subtract \<lparr>num = 1, den = 2\<rparr> \<lparr>num = 1, den = 6\<rparr> = Inr \<lparr>num = 1, den = 3\<rparr>"
  by code_simp

lemma eval_1_minus_quarter:
  "subtract \<lparr>num = 1, den = 1\<rparr> \<lparr>num = 1, den = 4\<rparr> = Inr \<lparr>num = 3, den = 4\<rparr>"
  by code_simp

lemma eval_3_quarters_div_3:
  "divide \<lparr>num = 3, den = 4\<rparr> \<lparr>num = 3, den = 1\<rparr> = Inr \<lparr>num = 1, den = 4\<rparr>"
  by code_simp

lemma eval_3_quarters_minus_quarter:
  "subtract \<lparr>num = 3, den = 4\<rparr> \<lparr>num = 1, den = 4\<rparr> = Inr \<lparr>num = 1, den = 2\<rparr>"
  by code_simp

lemma eval_husband_sum:
  "ebind (add \<lparr>num = 1, den = 2\<rparr> \<lparr>num = 1, den = 6\<rparr>) (\<lambda>s. add s \<lparr>num = 1, den = 3\<rparr>)
     = Inr \<lparr>num = 1, den = 1\<rparr>"
  by code_simp

lemma eval_wife_sum:
  "ebind (add \<lparr>num = 1, den = 4\<rparr> \<lparr>num = 1, den = 4\<rparr>) (\<lambda>s. add s \<lparr>num = 1, den = 2\<rparr>)
     = Inr \<lparr>num = 1, den = 1\<rparr>"
  by code_simp

lemmas umariyyatan_evals = eval_1_minus_half eval_half_div_3 eval_half_minus_sixth
  eval_1_minus_quarter eval_3_quarters_div_3 eval_3_quarters_minus_quarter
  eval_husband_sum eval_wife_sum

text \<open>The compositions of the exception: exactly one spouse, both parents, and nobody
  else.\<close>

definition onlySpouseAndParents :: "heirs \<Rightarrow> bool" where
  "onlySpouseAndParents h \<longleftrightarrow>
     (husband h \<noteq> wife h) \<and> father h \<and> mother h
     \<and> sons h = 0 \<and> daughters h = 0 \<and> grandsonsFromSon h = 0 \<and> granddaughtersFromSon h = 0
     \<and> fullBrothers h = 0 \<and> fullSisters h = 0 \<and> paternalBrothers h = 0
     \<and> paternalSisters h = 0 \<and> maternalBrothers h = 0 \<and> maternalSisters h = 0
     \<and> \<not> paternalGrandfather h \<and> \<not> paternalGrandmother h \<and> \<not> maternalGrandmother h"

text \<open>
  Claim C3. For every composition of exactly one spouse and both parents, with no
  descendants, siblings or grandparents, \<open>calculateUmariyyatanShares\<close> returns the
  spouse's share 1/2 (husband) or 1/4 (wife), a mother's share that is one third of what
  is left after the spouse, and a father's share that is the rest of it; the three shares
  add up to exactly 1/1. With the husband the shares are 1/2, 1/6 and 1/3, with the wife
  1/4, 1/4 and 1/2.
\<close>

theorem umariyyatan_shares:
  assumes "onlySpouseAndParents h"
  shows "\<exists>r. calculateUmariyyatanShares h = Inr (Some r)
     \<and> spouseType r = (if husband h then ''husband'' else ''wife'')
     \<and> spouseShare r = (if husband h then \<lparr>num = 1, den = 2\<rparr> else \<lparr>num = 1, den = 4\<rparr>)
     \<and> ratOf (motherShare r) = (1 - ratOf (spouseShare r)) / 3
     \<and> ratOf (fatherShare r) = (1 - ratOf (spouseShare r)) - ratOf (motherShare r)
     \<and> motherShare r = (if husband h then \<lparr>num = 1, den = 6\<rparr> else \<lparr>num = 1, den = 4\<rparr>)
     \<and> fatherShare r = (if husband h then \<lparr>num = 1, den = 3\<rparr> else \<lparr>num = 1, den = 2\<rparr>)
     \<and> ebind (add (spouseShare r) (motherShare r)) (\<lambda>s. add s (fatherShare r))
         = Inr \<lparr>num = 1, den = 1\<rparr>"
proof (cases "husband h")
  case True
  with assms have c: "checkUmariyyatan h = Some 1"
    by (simp add: onlySpouseAndParents_def checkUmariyyatan_def)
  show ?thesis using True
    by (simp add: calculateUmariyyatanShares_def c umariyyatan_evals)
next
  case False
  with assms have c: "checkUmariyyatan h = Some 2"
    by (simp add: onlySpouseAndParents_def checkUmariyyatan_def)
  show ?thesis using False
    by (simp add: calculateUmariyyatanShares_def c umariyyatan_evals)
qed

lemma onlySpouseAndParents_wife:
  "onlySpouseAndParents (noHeirs\<lparr>wife := True, father := True, mother := True\<rparr>)"
  by (simp add: onlySpouseAndParents_def noHeirs_def)

lemma onlySpouseAndParents_husband:
  "onlySpouseAndParents (noHeirs\<lparr>husband := True, father := True, mother := True\<rparr>)"
  by (simp add: onlySpouseAndParents_def noHeirs_def)

theorem umariyyatan_shares_witness:
  "onlySpouseAndParents (noHeirs\<lparr>wife := True, father := True, mother := True\<rparr>)
   \<and> (\<exists>r. calculateUmariyyatanShares (noHeirs\<lparr>wife := True, father := True, mother := True\<rparr>)
            = Inr (Some r)
        \<and> spouseShare r = \<lparr>num = 1, den = 4\<rparr> \<and> motherShare r = \<lparr>num = 1, den = 4\<rparr>
        \<and> fatherShare r = \<lparr>num = 1, den = 2\<rparr>)
   \<and> onlySpouseAndParents (noHeirs\<lparr>husband := True, father := True, mother := True\<rparr>)
   \<and> (\<exists>r. calculateUmariyyatanShares (noHeirs\<lparr>husband := True, father := True, mother := True\<rparr>)
            = Inr (Some r)
        \<and> spouseShare r = \<lparr>num = 1, den = 2\<rparr> \<and> motherShare r = \<lparr>num = 1, den = 6\<rparr>
        \<and> fatherShare r = \<lparr>num = 1, den = 3\<rparr>)"
  using umariyyatan_shares [OF onlySpouseAndParents_wife]
    umariyyatan_shares [OF onlySpouseAndParents_husband]
    onlySpouseAndParents_wife onlySpouseAndParents_husband
  by (auto simp add: noHeirs_def)

section \<open>The wife's share\<close>

text \<open>
  Claim C10. For every composition, \<open>calculateWifeShare\<close> returns a result and never
  divides by zero: the count it divides by is the \<open>wifeCount\<close> field, replaced by 1 when
  the field is missing or zero, so it is never zero (and at least 1 whenever the field
  is not negative); the share of each wife is the total share of the wives divided by
  that count.
\<close>

theorem wife_share_defined:
  "\<exists>r. calculateWifeShare h = Inr r
     \<and> wifeCountUsed r = (case wifeCount h of None \<Rightarrow> 1 | Some n \<Rightarrow> if n = 0 then 1 else n)
     \<and> wifeCountUsed r \<noteq> 0
     \<and> totalShare r = (if hasChildren h then \<lparr>num = 1, den = 8\<rparr> else \<lparr>num = 1, den = 4\<rparr>)
     \<and> divide (totalShare r) \<lparr>num = wifeCountUsed r, den = 1\<rparr> = Inr (perWifeShare r)
     \<and> ratOf (perWifeShare r) = ratOf (totalShare r) / of_int (wifeCountUsed r)
     \<and> ((case wifeCount h of None \<Rightarrow> True | Some n \<Rightarrow> 0 \<le> n) \<longrightarrow> 1 \<le> wifeCountUsed r)"
  by (auto simp add: calculateWifeShare_def WIFE_getShare_def Let_def divide_canon
      effectiveWifeCount_def split: option.splits)

lemma calculateWifeShare_eval_missing:
  "calculateWifeShare (noHeirs\<lparr>wife := True, wifeCount := None\<rparr>) =
     Inr \<lparr>totalShare = \<lparr>num = 1, den = 4\<rparr>, perWifeShare = \<lparr>num = 1, den = 4\<rparr>,
          wifeCountUsed = 1\<rparr>"
  by code_simp

lemma calculateWifeShare_eval_zero:
  "calculateWifeShare (noHeirs\<lparr>wife := True, wifeCount := Some 0\<rparr>) =
     Inr \<lparr>totalShare = \<lparr>num = 1, den = 4\<rparr>, perWifeShare = \<lparr>num = 1, den = 4\<rparr>,
          wifeCountUsed = 1\<rparr>"
  by code_simp

lemma calculateWifeShare_eval_two:
  "calculateWifeShare (noHeirs\<lparr>wife := True, wifeCount := Some 2, sons := 1\<rparr>) =
     Inr \<lparr>totalShare = \<lparr>num = 1, den = 8\<rparr>, perWifeShare = \<lparr>num = 1, den = 16\<rparr>,
          wifeCountUsed = 2\<rparr>"
  by code_simp

theorem wife_share_defined_witness:
  "(case wifeCount (noHeirs\<lparr>wife := True, wifeCount := Some 0\<rparr>) of
      None \<Rightarrow> True | Some n \<Rightarrow> 0 \<le> n)
   \<and> calculateWifeShare (noHeirs\<lparr>wife := True, wifeCount := Some 0\<rparr>) =
       Inr \<lparr>totalShare = \<lparr>num = 1, den = 4\<rparr>, perWifeShare = \<lparr>num = 1, den = 4\<rparr>,
            wifeCountUsed = 1\<rparr>
   \<and> (case wifeCount (noHeirs\<lparr>wife := True, wifeCount := None\<rparr>) of
      None \<Rightarrow> True | Some n \<Rightarrow> 0 \<le> n)
   \<and> calculateWifeShare (noHeirs\<lparr>wife := True, wifeCount := None\<rparr>) =
       Inr \<lparr>totalShare = \<lparr>num = 1, den = 4\<rparr>, perWifeShare = \<lparr>num = 1, den = 4\<rparr>,
            wifeCountUsed = 1\<rparr>
   \<and> (case wifeCount (noHeirs\<lparr>wife := True, wifeCount := Some 2, sons := 1\<rparr>) of
      None \<Rightarrow> True | Some n \<Rightarrow> 0 \<le> n)
   \<and> calculateWifeShare (noHeirs\<lparr>wife := True, wifeCount := Some 2, sons := 1\<rparr>) =
       Inr \<lparr>totalShare = \<lparr>num = 1, den = 8\<rparr>, perWifeShare = \<lparr>num = 1, den = 16\<rparr>,
            wifeCountUsed = 2\<rparr>
   \<and> (1::int) \<le> 2"
  using wife_share_defined [of "noHeirs\<lparr>wife := True, wifeCount := Some 0\<rparr>"]
    wife_share_defined [of "noHeirs\<lparr>wife := True, wifeCount := None\<rparr>"]
    wife_share_defined [of "noHeirs\<lparr>wife := True, wifeCount := Some 2, sons := 1\<rparr>"]
    calculateWifeShare_eval_zero calculateWifeShare_eval_missing calculateWifeShare_eval_two
  by simp

section \<open>The residuary distribution\<close>

lemma distributeAsaba_females:
  assumes r: "0 < den remainder" "\<not> isZero remainder"
    and a: "hasFemales a" "maleCount a * 2 + femaleCount a \<noteq> 0"
  shows "distributeAsaba remainder (Some a) =
     Inr \<lparr>maleShare = canon (ratOf remainder / of_int (maleCount a * 2 + femaleCount a) * 2
                          * of_int (maleCount a)),
          femaleShare = canon (ratOf remainder / of_int (maleCount a * 2 + femaleCount a)
                          * of_int (femaleCount a)),
          perMaleShare = canon (ratOf remainder / of_int (maleCount a * 2 + femaleCount a) * 2),
          perFemaleShare = canon (ratOf remainder / of_int (maleCount a * 2 + femaleCount a)),
          totalShares = maleCount a * 2 + femaleCount a\<rparr>"
  using assms
  by (simp add: distributeAsaba_def Let_def divide_canon multiply_canon)

lemma distributeAsaba_males:
  assumes r: "0 < den remainder" "\<not> isZero remainder"
    and a: "\<not> hasFemales a" "maleCount a \<noteq> 0"
  shows "distributeAsaba remainder (Some a) =
     Inr \<lparr>maleShare = remainder, femaleShare = \<lparr>num = 0, den = 1\<rparr>,
          perMaleShare = canon (ratOf remainder / of_int (maleCount a)),
          perFemaleShare = \<lparr>num = 0, den = 1\<rparr>, totalShares = maleCount a\<rparr>"
  using assms
  by (simp add: distributeAsaba_def Let_def divide_canon)

text \<open>
  Claim C6. For every positive remainder and every residuary tier (at least one male,
  no negative number of females, \<open>hasFemales\<close> set when there is a female):
  when females are present, \<open>distributeAsaba\<close> splits the remainder into
  \<open>2 * males + females\<close> units, a female takes one unit and a male exactly two, and the
  male and female totals add up to exactly the remainder; when no female is present,
  the males take the whole remainder and each of them the remainder divided by their
  number.
\<close>

theorem distributeAsaba_two_to_one:
  assumes "0 < den remainder" "greaterThan remainder \<lparr>num = 0, den = 1\<rparr>"
    and "0 < maleCount a" "0 \<le> femaleCount a" "hasFemales a = (femaleCount a > 0)"
  shows "\<exists>d. distributeAsaba remainder (Some a) = Inr d
     \<and> (hasFemales a \<longrightarrow>
          totalShares d = maleCount a * 2 + femaleCount a
        \<and> ratOf (perFemaleShare d) = ratOf remainder / of_int (totalShares d)
        \<and> ratOf (perMaleShare d) = 2 * ratOf (perFemaleShare d)
        \<and> ratOf (maleShare d) = of_int (maleCount a) * ratOf (perMaleShare d)
        \<and> ratOf (femaleShare d) = of_int (femaleCount a) * ratOf (perFemaleShare d)
        \<and> ratOf (maleShare d) + ratOf (femaleShare d) = ratOf remainder
        \<and> add (maleShare d) (femaleShare d) = simplify remainder)
     \<and> (\<not> hasFemales a \<longrightarrow>
          totalShares d = maleCount a
        \<and> ratOf (perMaleShare d) = ratOf remainder / of_int (maleCount a)
        \<and> maleShare d = remainder
        \<and> femaleShare d = \<lparr>num = 0, den = 1\<rparr>
        \<and> perFemaleShare d = \<lparr>num = 0, den = 1\<rparr>)"
proof -
  from assms(1,2) have nz: "\<not> isZero remainder"
    by (simp add: greaterThan_def isZero_def)
  show ?thesis
  proof (cases "hasFemales a")
    case True
    with assms have pos: "0 < maleCount a * 2 + femaleCount a" by simp
    then have nz': "maleCount a * 2 + femaleCount a \<noteq> 0" by simp
    define T :: rat where "T = of_int (maleCount a * 2 + femaleCount a)"
    have T: "T \<noteq> 0" using nz' unfolding T_def by (simp del: of_int_add of_int_mult)
    have "ratOf remainder / T * 2 * of_int (maleCount a)
        + ratOf remainder / T * of_int (femaleCount a)
        = ratOf remainder / T * (of_int (maleCount a) * 2 + of_int (femaleCount a))"
      by (simp add: algebra_simps)
    also have "of_int (maleCount a) * 2 + of_int (femaleCount a) = T"
      by (simp add: T_def)
    also have "ratOf remainder / T * T = ratOf remainder"
      using T by simp
    finally have sum: "ratOf remainder / of_int (maleCount a * 2 + femaleCount a) * 2 * of_int (maleCount a)
        + ratOf remainder / of_int (maleCount a * 2 + femaleCount a) * of_int (femaleCount a)
        = ratOf remainder"
      unfolding T_def .
    show ?thesis
      using True assms(1) sum nz'
      by (simp add: distributeAsaba_females [OF assms(1) nz True nz'] add_canon
          simplify_canon)
  next
    case False
    with assms have "maleCount a \<noteq> 0" by simp
    with False show ?thesis
      by (simp add: distributeAsaba_males [OF assms(1) nz False])
  qed
qed

lemma distributeAsaba_eval_son_daughter:
  "distributeAsaba \<lparr>num = 1, den = 1\<rparr>
     (Some \<lparr>maleType = ''son'', maleCount = 1, femaleType = Some ''daughter'',
            femaleCount = 1, hasFemales = True, key = ''sons''\<rparr>) =
     Inr \<lparr>maleShare = \<lparr>num = 2, den = 3\<rparr>, femaleShare = \<lparr>num = 1, den = 3\<rparr>,
          perMaleShare = \<lparr>num = 2, den = 3\<rparr>, perFemaleShare = \<lparr>num = 1, den = 3\<rparr>,
          totalShares = 3\<rparr>"
  by code_simp

lemma distributeAsaba_eval_two_sons:
  "distributeAsaba \<lparr>num = 3, den = 4\<rparr>
     (Some \<lparr>maleType = ''son'', maleCount = 2, femaleType = Some ''daughter'',
            femaleCount = 0, hasFemales = False, key = ''sons''\<rparr>) =
     Inr \<lparr>maleShare = \<lparr>num = 3, den = 4\<rparr>, femaleShare = \<lparr>num = 0, den = 1\<rparr>,
          perMaleShare = \<lparr>num = 3, den = 8\<rparr>, perFemaleShare = \<lparr>num = 0, den = 1\<rparr>,
          totalShares = 2\<rparr>"
  by code_simp

theorem distributeAsaba_two_to_one_witness:
  "0 < den \<lparr>num = 1, den = 1\<rparr> \<and> greaterThan \<lparr>num = 1, den = 1\<rparr> \<lparr>num = 0, den = 1\<rparr>
   \<and> distributeAsaba \<lparr>num = 1, den = 1\<rparr>
     (Some \<lparr>maleType = ''son'', maleCount = 1, femaleType = Some ''daughter'',
            femaleCount = 1, hasFemales = True, key = ''sons''\<rparr>) =
     Inr \<lparr>maleShare = \<lparr>num = 2, den = 3\<rparr>, femaleShare = \<lparr>num = 1, den = 3\<rparr>,
          perMaleShare = \<lparr>num = 2, den = 3\<rparr>, perFemaleShare = \<lparr>num = 1, den = 3\<rparr>,
          totalShares = 3\<rparr>
   \<and> ratOf \<lparr>num = 2, den = 3\<rparr> = 2 * ratOf \<lparr>num = 1, den = 3\<rparr>
   \<and> 0 < den \<lparr>num = 3, den = 4\<rparr> \<and> greaterThan \<lparr>num = 3, den = 4\<rparr> \<lparr>num = 0, den = 1\<rparr>
   \<and> distributeAsaba \<lparr>num = 3, den = 4\<rparr>
     (Some \<lparr>maleType = ''son'', maleCount = 2, femaleType = Some ''daughter'',
            femaleCount = 0, hasFemales = False, key = ''sons''\<rparr>) =
     Inr \<lparr>maleShare = \<lparr>num = 3, den = 4\<rparr>, femaleShare = \<lparr>num = 0, den = 1\<rparr>,
          perMaleShare = \<lparr>num = 3, den = 8\<rparr>, perFemaleShare = \<lparr>num = 0, den = 1\<rparr>,
          totalShares = 2\<rparr>
   \<and> ratOf \<lparr>num = 3, den = 8\<rparr> = ratOf \<lparr>num = 3, den = 4\<rparr> / 2"
  using distributeAsaba_two_to_one [of "\<lparr>num = 1, den = 1\<rparr>"
      "\<lparr>maleType = ''son'', maleCount = 1, femaleType = Some ''daughter'',
        femaleCount = 1, hasFemales = True, key = ''sons''\<rparr>"]
    distributeAsaba_two_to_one [of "\<lparr>num = 3, den = 4\<rparr>"
      "\<lparr>maleType = ''son'', maleCount = 2, femaleType = Some ''daughter'',
        femaleCount = 0, hasFemales = False, key = ''sons''\<rparr>"]
    distributeAsaba_eval_son_daughter distributeAsaba_eval_two_sons
  by (simp add: greaterThan_def)

section \<open>The residuary resolver\<close>

text \<open>An entry of the priority list is present when its count field is neither zero nor
  false.\<close>

definition present :: "heirs \<Rightarrow> asabaEntry \<Rightarrow> bool" where
  "present h e \<longleftrightarrow> \<not> absent (heirsField h (countField e))"

lemma determineAsaba_loop_find:
  "determineAsaba_loop h es =
     (case find (\<lambda>e. \<not> skipped h e) es of None \<Rightarrow> None | Some e \<Rightarrow> Some (foundAsaba h e))"
  by (induction es) simp_all

lemma take6: "take 6 AsabaPriority = 
     [\<lparr>entryKey = ''sons'', entryType = ''son'', countField = ''sons''\<rparr>,
      \<lparr>entryKey = ''grandsonsFromSon'', entryType = ''grandsonsFromSon'',
        countField = ''grandsonsFromSon''\<rparr>,
      \<lparr>entryKey = ''father'', entryType = ''father'', countField = ''father''\<rparr>,
      \<lparr>entryKey = ''paternalGrandfather'', entryType = ''paternalGrandfather'',
        countField = ''paternalGrandfather''\<rparr>,
      \<lparr>entryKey = ''fullBrothers'', entryType = ''fullBrothers'',
        countField = ''fullBrothers''\<rparr>,
      \<lparr>entryKey = ''paternalBrothers'', entryType = ''paternalBrothers'',
        countField = ''paternalBrothers''\<rparr>]"
  by (simp add: AsabaPriority_def)

lemma calculateAsaba_none:
  "determineAsaba h = None \<or> ratSum (fixedShares h) \<ge> 1 \<Longrightarrow>
   calculateAsaba h = Inr \<lparr>hasAsaba = False, resultInfo = None,
      resultRemainder = canon (1 - ratSum (fixedShares h)), resultDistribution = None\<rparr>"
  by (auto simp add: calculateAsaba_def calculateRemainder_canon Let_def less_le)

lemma skipped_sons:
  "skipped h \<lparr>entryKey = ''sons'', entryType = ''son'', countField = ''sons''\<rparr> \<longleftrightarrow>
     sons h = 0"
  by (simp add: skipped_def heirsField_def absent_def blockedByCloserAsaba_def)

lemma skipped_grandsonsFromSon:
  "skipped h \<lparr>entryKey = ''grandsonsFromSon'', entryType = ''grandsonsFromSon'', countField = ''grandsonsFromSon''\<rparr> \<longleftrightarrow>
     grandsonsFromSon h = 0 \<or> sons h > 0"
  by (simp add: skipped_def heirsField_def absent_def blockedByCloserAsaba_def)

lemma skipped_father:
  "skipped h \<lparr>entryKey = ''father'', entryType = ''father'', countField = ''father''\<rparr> \<longleftrightarrow>
     \<not> father h"
  by (simp add: skipped_def heirsField_def absent_def blockedByCloserAsaba_def)

lemma skipped_paternalGrandfather:
  "skipped h \<lparr>entryKey = ''paternalGrandfather'', entryType = ''paternalGrandfather'', countField = ''paternalGrandfather''\<rparr> \<longleftrightarrow>
     \<not> paternalGrandfather h \<or> father h"
  by (simp add: skipped_def heirsField_def absent_def blockedByCloserAsaba_def)

lemma skipped_fullBrothers:
  "skipped h \<lparr>entryKey = ''fullBrothers'', entryType = ''fullBrothers'', countField = ''fullBrothers''\<rparr> \<longleftrightarrow>
     fullBrothers h = 0 \<or> father h \<or> sons h > 0 \<or> grandsonsFromSon h > 0"
  by (simp add: skipped_def heirsField_def absent_def blockedByCloserAsaba_def)

lemma skipped_paternalBrothers:
  "skipped h \<lparr>entryKey = ''paternalBrothers'', entryType = ''paternalBrothers'', countField = ''paternalBrothers''\<rparr> \<longleftrightarrow>
     paternalBrothers h = 0 \<or> father h \<or> sons h > 0 \<or> grandsonsFromSon h > 0 \<or> fullBrothers h > 0"
  by (simp add: skipped_def heirsField_def absent_def blockedByCloserAsaba_def)

lemma skipped_nephewsFullBrothers:
  "skipped h \<lparr>entryKey = ''nephewsFullBrothers'', entryType = ''nephewsFullBrothers'', countField = ''nephewsFullBrothers''\<rparr> \<longleftrightarrow>
     nephewsFullBrothers h = 0 \<or> sons h > 0 \<or> grandsonsFromSon h > 0 \<or> father h \<or> paternalGrandfather h \<or> fullBrothers h > 0 \<or> paternalBrothers h > 0"
  by (simp add: skipped_def heirsField_def absent_def blockedByCloserAsaba_def)

lemma skipped_nephewsPaternalBrothers:
  "skipped h \<lparr>entryKey = ''nephewsPaternalBrothers'', entryType = ''nephewsPaternalBrothers'', countField = ''nephewsPaternalBrothers''\<rparr> \<longleftrightarrow>
     nephewsPaternalBrothers h = 0 \<or> sons h > 0 \<or> grandsonsFromSon h > 0 \<or> father h \<or> paternalGrandfather h \<or> fullBrothers h > 0 \<or> paternalBrothers h > 0 \<or> nephewsFullBrothers h > 0"
  by (simp add: skipped_def heirsField_def absent_def blockedByCloserAsaba_def)

lemma skipped_unclesFull:
  "skipped h \<lparr>entryKey = ''unclesFull'', entryType = ''unclesFull'', countField = ''unclesFull''\<rparr> \<longleftrightarrow>
     unclesFull h = 0 \<or> sons h > 0 \<or> grandsonsFromSon h > 0 \<or> father h \<or> paternalGrandfather h \<or> fullBrothers h > 0 \<or> paternalBrothers h > 0 \<or> nephewsFullBrothers h > 0 \<or> nephewsPaternalBrothers h > 0"
  by (simp add: skipped_def heirsField_def absent_def blockedByCloserAsaba_def)

lemma skipped_unclesPaternal:
  "skipped h \<lparr>entryKey = ''unclesPaternal'', entryType = ''unclesPaternal'', countField = ''unclesPaternal''\<rparr> \<longleftrightarrow>
     unclesPaternal h = 0 \<or> sons h > 0 \<or> grandsonsFromSon h > 0 \<or> father h \<or> paternalGrandfather h \<or> fullBrothers h > 0 \<or> paternalBrothers h > 0 \<or> nephewsFullBrothers h > 0 \<or> nephewsPaternalBrothers h > 0 \<or> unclesFull h > 0"
  by (simp add: skipped_def heirsField_def absent_def blockedByCloserAsaba_def)


lemmas skipped_entries = skipped_sons skipped_grandsonsFromSon skipped_father
  skipped_paternalGrandfather skipped_fullBrothers skipped_paternalBrothers
  skipped_nephewsFullBrothers skipped_nephewsPaternalBrothers skipped_unclesFull
  skipped_unclesPaternal

lemma blocked_paternalGrandfather [simp]:
  "blocked (checkBlocking ''paternalGrandfather'' h) = father h"
  by (simp add: checkBlocking_def BlockingRules_def)

lemma blocked_grandsonsFromSon [simp]:
  "blocked (checkBlocking ''grandsonsFromSon'' h) = (sons h > 0)"
  by (simp add: checkBlocking_def BlockingRules_def)

lemma blocked_fullBrothers [simp]:
  "blocked (checkBlocking ''fullBrothers'' h)
     = (father h \<or> sons h > 0 \<or> grandsonsFromSon h > 0)"
  by (simp add: checkBlocking_def BlockingRules_def)

lemma blocked_paternalBrothers [simp]:
  "blocked (checkBlocking ''paternalBrothers'' h)
     = (father h \<or> sons h > 0 \<or> grandsonsFromSon h > 0 \<or> fullBrothers h > 0)"
  by (simp add: checkBlocking_def BlockingRules_def)

lemma blocked_sons [simp]: "blocked (checkBlocking ''sons'' h) = False"
  by (simp add: checkBlocking_def BlockingRules_def)

lemma blocked_father [simp]: "blocked (checkBlocking ''father'' h) = False"
  by (simp add: checkBlocking_def BlockingRules_def)

lemma present_simps:
  "present h \<lparr>entryKey = k, entryType = t, countField = ''sons''\<rparr> \<longleftrightarrow> sons h \<noteq> 0"
  "present h \<lparr>entryKey = k, entryType = t, countField = ''grandsonsFromSon''\<rparr>
     \<longleftrightarrow> grandsonsFromSon h \<noteq> 0"
  "present h \<lparr>entryKey = k, entryType = t, countField = ''father''\<rparr> \<longleftrightarrow> father h"
  "present h \<lparr>entryKey = k, entryType = t, countField = ''paternalGrandfather''\<rparr>
     \<longleftrightarrow> paternalGrandfather h"
  "present h \<lparr>entryKey = k, entryType = t, countField = ''fullBrothers''\<rparr>
     \<longleftrightarrow> fullBrothers h \<noteq> 0"
  "present h \<lparr>entryKey = k, entryType = t, countField = ''paternalBrothers''\<rparr>
     \<longleftrightarrow> paternalBrothers h \<noteq> 0"
  "present h \<lparr>entryKey = k, entryType = t, countField = ''nephewsFullBrothers''\<rparr>
     \<longleftrightarrow> nephewsFullBrothers h \<noteq> 0"
  "present h \<lparr>entryKey = k, entryType = t, countField = ''nephewsPaternalBrothers''\<rparr>
     \<longleftrightarrow> nephewsPaternalBrothers h \<noteq> 0"
  "present h \<lparr>entryKey = k, entryType = t, countField = ''unclesFull''\<rparr>
     \<longleftrightarrow> unclesFull h \<noteq> 0"
  "present h \<lparr>entryKey = k, entryType = t, countField = ''unclesPaternal''\<rparr>
     \<longleftrightarrow> unclesPaternal h \<noteq> 0"
  by (simp_all add: present_def heirsField_def absent_def)

lemma skipped_first_six:
  "\<forall>e \<in> set (take 6 AsabaPriority).
     skipped h e \<longleftrightarrow> \<not> present h e \<or> blocked (checkBlocking (entryKey e) h)"
  by (simp add: take6 skipped_entries present_simps) blast


lemma drop6: "drop 6 AsabaPriority =
     [\<lparr>entryKey = ''nephewsFullBrothers'', entryType = ''nephewsFullBrothers'',
        countField = ''nephewsFullBrothers''\<rparr>,
      \<lparr>entryKey = ''nephewsPaternalBrothers'', entryType = ''nephewsPaternalBrothers'',
        countField = ''nephewsPaternalBrothers''\<rparr>,
      \<lparr>entryKey = ''unclesFull'', entryType = ''unclesFull'', countField = ''unclesFull''\<rparr>,
      \<lparr>entryKey = ''unclesPaternal'', entryType = ''unclesPaternal'',
        countField = ''unclesPaternal''\<rparr>]"
  by (simp add: AsabaPriority_def)

lemma earlier_nephewsFullBrothers:
  "takeWhile (\<lambda>x. x \<noteq> \<lparr>entryKey = ''nephewsFullBrothers'', entryType = ''nephewsFullBrothers'',
        countField = ''nephewsFullBrothers''\<rparr>) AsabaPriority = take 6 AsabaPriority"
  by (simp add: AsabaPriority_def)

lemma earlier_nephewsPaternalBrothers:
  "takeWhile (\<lambda>x. x \<noteq> \<lparr>entryKey = ''nephewsPaternalBrothers'',
        entryType = ''nephewsPaternalBrothers'', countField = ''nephewsPaternalBrothers''\<rparr>)
     AsabaPriority = take 7 AsabaPriority"
  by (simp add: AsabaPriority_def)

lemma earlier_unclesFull:
  "takeWhile (\<lambda>x. x \<noteq> \<lparr>entryKey = ''unclesFull'', entryType = ''unclesFull'',
        countField = ''unclesFull''\<rparr>) AsabaPriority = take 8 AsabaPriority"
  by (simp add: AsabaPriority_def)

lemma earlier_unclesPaternal:
  "takeWhile (\<lambda>x. x \<noteq> \<lparr>entryKey = ''unclesPaternal'', entryType = ''unclesPaternal'',
        countField = ''unclesPaternal''\<rparr>) AsabaPriority = take 9 AsabaPriority"
  by (simp add: AsabaPriority_def)

lemma skipped_last_four:
  assumes "validHeirs h"
  shows "\<forall>e \<in> set (drop 6 AsabaPriority).
     skipped h e \<longleftrightarrow>
       \<not> present h e \<or> (\<exists>c \<in> set (takeWhile (\<lambda>x. x \<noteq> e) AsabaPriority). present h c)"
proof -
  have nn: "0 \<le> sons h" "0 \<le> grandsonsFromSon h" "0 \<le> fullBrothers h"
    "0 \<le> paternalBrothers h" "0 \<le> nephewsFullBrothers h" "0 \<le> nephewsPaternalBrothers h"
    "0 \<le> unclesFull h"
    using assms by (simp_all add: validHeirs_def)
  have pos: "\<And>n::int. 0 \<le> n \<Longrightarrow> (n \<noteq> 0) = (0 < n)" by auto
  show ?thesis
    unfolding drop6
    apply (simp add: earlier_nephewsFullBrothers earlier_nephewsPaternalBrothers
        earlier_unclesFull earlier_unclesPaternal skipped_entries)
    apply (simp add: AsabaPriority_def present_simps pos [OF nn(1)] pos [OF nn(2)]
        pos [OF nn(3)] pos [OF nn(4)] pos [OF nn(5)] pos [OF nn(6)] pos [OF nn(7)])
    apply (insert nn(5-7))
    apply auto
    done
qed

lemma found_sons:
  "foundAsaba h \<lparr>entryKey = ''sons'', entryType = ''son'', countField = ''sons''\<rparr> =
     \<lparr>maleType = ''son'', maleCount = sons h, femaleType = Some ''daughter'',
      femaleCount = daughters h, hasFemales = (0 < daughters h), key = ''sons''\<rparr>"
  by (simp add: foundAsaba_def heirsField_def headCountOf_def)

lemma found_grandsonsFromSon:
  "foundAsaba h \<lparr>entryKey = ''grandsonsFromSon'', entryType = ''grandsonsFromSon'',
       countField = ''grandsonsFromSon''\<rparr> =
     \<lparr>maleType = ''grandsonsFromSon'', maleCount = grandsonsFromSon h,
      femaleType = Some ''granddaughtersFromSon'', femaleCount = granddaughtersFromSon h,
      hasFemales = (0 < granddaughtersFromSon h), key = ''grandsonsFromSon''\<rparr>"
  by (simp add: foundAsaba_def heirsField_def headCountOf_def)

lemma found_father:
  "foundAsaba h \<lparr>entryKey = ''father'', entryType = ''father'', countField = ''father''\<rparr> =
     \<lparr>maleType = ''father'', maleCount = 1, femaleType = None, femaleCount = 0,
      hasFemales = False, key = ''father''\<rparr>"
  by (simp add: foundAsaba_def heirsField_def headCountOf_def)

lemma found_paternalGrandfather:
  "foundAsaba h \<lparr>entryKey = ''paternalGrandfather'', entryType = ''paternalGrandfather'',
       countField = ''paternalGrandfather''\<rparr> =
     \<lparr>maleType = ''paternalGrandfather'', maleCount = 1, femaleType = None, femaleCount = 0,
      hasFemales = False, key = ''paternalGrandfather''\<rparr>"
  by (simp add: foundAsaba_def heirsField_def headCountOf_def)

lemma found_fullBrothers:
  "foundAsaba h \<lparr>entryKey = ''fullBrothers'', entryType = ''fullBrothers'',
       countField = ''fullBrothers''\<rparr> =
     \<lparr>maleType = ''fullBrothers'', maleCount = fullBrothers h,
      femaleType = Some ''fullSisters'', femaleCount = fullSisters h,
      hasFemales = (0 < fullSisters h), key = ''fullBrothers''\<rparr>"
  by (simp add: foundAsaba_def heirsField_def headCountOf_def)

lemma found_paternalBrothers:
  "foundAsaba h \<lparr>entryKey = ''paternalBrothers'', entryType = ''paternalBrothers'',
       countField = ''paternalBrothers''\<rparr> =
     \<lparr>maleType = ''paternalBrothers'', maleCount = paternalBrothers h,
      femaleType = Some ''paternalSisters'', femaleCount = paternalSisters h,
      hasFemales = (0 < paternalSisters h), key = ''paternalBrothers''\<rparr>"
  by (simp add: foundAsaba_def heirsField_def headCountOf_def)

lemma found_nephewsFullBrothers:
  "foundAsaba h \<lparr>entryKey = ''nephewsFullBrothers'', entryType = ''nephewsFullBrothers'',
       countField = ''nephewsFullBrothers''\<rparr> =
     \<lparr>maleType = ''nephewsFullBrothers'', maleCount = nephewsFullBrothers h,
      femaleType = None, femaleCount = 0, hasFemales = False, key = ''nephewsFullBrothers''\<rparr>"
  by (simp add: foundAsaba_def heirsField_def headCountOf_def)

lemma found_nephewsPaternalBrothers:
  "foundAsaba h \<lparr>entryKey = ''nephewsPaternalBrothers'',
       entryType = ''nephewsPaternalBrothers'', countField = ''nephewsPaternalBrothers''\<rparr> =
     \<lparr>maleType = ''nephewsPaternalBrothers'', maleCount = nephewsPaternalBrothers h,
      femaleType = None, femaleCount = 0, hasFemales = False,
      key = ''nephewsPaternalBrothers''\<rparr>"
  by (simp add: foundAsaba_def heirsField_def headCountOf_def)

lemma found_unclesFull:
  "foundAsaba h \<lparr>entryKey = ''unclesFull'', entryType = ''unclesFull'',
       countField = ''unclesFull''\<rparr> =
     \<lparr>maleType = ''unclesFull'', maleCount = unclesFull h,
      femaleType = None, femaleCount = 0, hasFemales = False, key = ''unclesFull''\<rparr>"
  by (simp add: foundAsaba_def heirsField_def headCountOf_def)

lemma found_unclesPaternal:
  "foundAsaba h \<lparr>entryKey = ''unclesPaternal'', entryType = ''unclesPaternal'',
       countField = ''unclesPaternal''\<rparr> =
     \<lparr>maleType = ''unclesPaternal'', maleCount = unclesPaternal h,
      femaleType = None, femaleCount = 0, hasFemales = False, key = ''unclesPaternal''\<rparr>"
  by (simp add: foundAsaba_def heirsField_def headCountOf_def)

lemmas found_entries = found_sons found_grandsonsFromSon found_father
  found_paternalGrandfather found_fullBrothers found_paternalBrothers
  found_nephewsFullBrothers found_nephewsPaternalBrothers found_unclesFull
  found_unclesPaternal

lemma determineAsaba_first_unblocked:
  "determineAsaba h =
       (if sons h \<noteq> 0 then
          Some \<lparr>maleType = ''son'', maleCount = sons h, femaleType = Some ''daughter'',
                femaleCount = daughters h, hasFemales = (0 < daughters h), key = ''sons''\<rparr>
        else if grandsonsFromSon h \<noteq> 0 \<and> \<not> 0 < sons h then
          Some \<lparr>maleType = ''grandsonsFromSon'', maleCount = grandsonsFromSon h,
                femaleType = Some ''granddaughtersFromSon'',
                femaleCount = granddaughtersFromSon h,
                hasFemales = (0 < granddaughtersFromSon h), key = ''grandsonsFromSon''\<rparr>
        else if father h then
          Some \<lparr>maleType = ''father'', maleCount = 1, femaleType = None, femaleCount = 0,
                hasFemales = False, key = ''father''\<rparr>
        else if paternalGrandfather h \<and> \<not> father h then
          Some \<lparr>maleType = ''paternalGrandfather'', maleCount = 1, femaleType = None,
                femaleCount = 0, hasFemales = False, key = ''paternalGrandfather''\<rparr>
        else if fullBrothers h \<noteq> 0
                \<and> \<not> (father h \<or> 0 < sons h \<or> 0 < grandsonsFromSon h) then
          Some \<lparr>maleType = ''fullBrothers'', maleCount = fullBrothers h,
                femaleType = Some ''fullSisters'', femaleCount = fullSisters h,
                hasFemales = (0 < fullSisters h), key = ''fullBrothers''\<rparr>
        else if paternalBrothers h \<noteq> 0
                \<and> \<not> (father h \<or> 0 < sons h \<or> 0 < grandsonsFromSon h
                       \<or> 0 < fullBrothers h) then
          Some \<lparr>maleType = ''paternalBrothers'', maleCount = paternalBrothers h,
                femaleType = Some ''paternalSisters'', femaleCount = paternalSisters h,
                hasFemales = (0 < paternalSisters h), key = ''paternalBrothers''\<rparr>
        else if nephewsFullBrothers h \<noteq> 0 \<and> \<not> blockedByCloserAsaba h then
          Some \<lparr>maleType = ''nephewsFullBrothers'', maleCount = nephewsFullBrothers h,
                femaleType = None, femaleCount = 0, hasFemales = False,
                key = ''nephewsFullBrothers''\<rparr>
        else if nephewsPaternalBrothers h \<noteq> 0
                \<and> \<not> (blockedByCloserAsaba h \<or> 0 < nephewsFullBrothers h) then
          Some \<lparr>maleType = ''nephewsPaternalBrothers'',
                maleCount = nephewsPaternalBrothers h, femaleType = None, femaleCount = 0,
                hasFemales = False, key = ''nephewsPaternalBrothers''\<rparr>
        else if unclesFull h \<noteq> 0
                \<and> \<not> (blockedByCloserAsaba h \<or> 0 < nephewsFullBrothers h
                       \<or> 0 < nephewsPaternalBrothers h) then
          Some \<lparr>maleType = ''unclesFull'', maleCount = unclesFull h, femaleType = None,
                femaleCount = 0, hasFemales = False, key = ''unclesFull''\<rparr>
        else if unclesPaternal h \<noteq> 0
                \<and> \<not> (blockedByCloserAsaba h \<or> 0 < nephewsFullBrothers h
                       \<or> 0 < nephewsPaternalBrothers h \<or> 0 < unclesFull h) then
          Some \<lparr>maleType = ''unclesPaternal'', maleCount = unclesPaternal h,
                femaleType = None, femaleCount = 0, hasFemales = False,
                key = ''unclesPaternal''\<rparr>
        else None)"
  unfolding determineAsaba_def AsabaPriority_def determineAsaba_loop.simps
  by (simp only: skipped_entries found_entries) (simp add: blockedByCloserAsaba_def)

text \<open>
  Claim C7. \<open>AsabaPriority\<close> lists sons, son's sons, father, paternal grandfather, full
  brothers, paternal brothers, the two kinds of nephews and the two kinds of uncles, in
  this order, and \<open>determineAsaba\<close> returns the record of the first entry of the list
  that the loop does not pass over, \<open>null\<close> when it passes over all of them: the first
  category in the order of the list that is present and not blocked is the one
  returned, with its key, the id of its heir type, its head count (1 for the father and
  the grandfather) and the count and type of the females of the same level (daughters
  with sons, son's daughters with son's sons, full sisters with full brothers, paternal
  sisters with paternal brothers, none for the other categories). An entry
  among the first six is passed over exactly when it is absent or \<open>checkBlocking\<close>
  reports it blocked; a nephew or uncle entry is passed over (for non-negative counts)
  exactly when it is absent or an entry before it in the list is present. Whenever
  \<open>determineAsaba\<close> returns \<open>null\<close> or the remainder is negative or zero,
  \<open>calculateAsaba\<close> reports \<open>hasAsaba = false\<close> and no distribution.
\<close>

theorem residuary_resolver:
  "map entryKey AsabaPriority =
     [''sons'', ''grandsonsFromSon'', ''father'', ''paternalGrandfather'', ''fullBrothers'',
      ''paternalBrothers'', ''nephewsFullBrothers'', ''nephewsPaternalBrothers'',
      ''unclesFull'', ''unclesPaternal'']
   \<and> determineAsaba h =
       (case find (\<lambda>e. \<not> skipped h e) AsabaPriority of
          None \<Rightarrow> None | Some e \<Rightarrow> Some (foundAsaba h e))
   \<and> determineAsaba h =
       (if sons h \<noteq> 0 then
          Some \<lparr>maleType = ''son'', maleCount = sons h, femaleType = Some ''daughter'',
                femaleCount = daughters h, hasFemales = (0 < daughters h), key = ''sons''\<rparr>
        else if grandsonsFromSon h \<noteq> 0 \<and> \<not> 0 < sons h then
          Some \<lparr>maleType = ''grandsonsFromSon'', maleCount = grandsonsFromSon h,
                femaleType = Some ''granddaughtersFromSon'',
                femaleCount = granddaughtersFromSon h,
                hasFemales = (0 < granddaughtersFromSon h), key = ''grandsonsFromSon''\<rparr>
        else if father h then
          Some \<lparr>maleType = ''father'', maleCount = 1, femaleType = None, femaleCount = 0,
                hasFemales = False, key = ''father''\<rparr>
        else if paternalGrandfather h \<and> \<not> father h then
          Some \<lparr>maleType = ''paternalGrandfather'', maleCount = 1, femaleType = None,
                femaleCount = 0, hasFemales = False, key = ''paternalGrandfather''\<rparr>
        else if fullBrothers h \<noteq> 0
                \<and> \<not> (father h \<or> 0 < sons h \<or> 0 < grandsonsFromSon h) then
          Some \<lparr>maleType = ''fullBrothers'', maleCount = fullBrothers h,
                femaleType = Some ''fullSisters'', femaleCount = fullSisters h,
                hasFemales = (0 < fullSisters h), key = ''fullBrothers''\<rparr>
        else if paternalBrothers h \<noteq> 0
                \<and> \<not> (father h \<or> 0 < sons h \<or> 0 < grandsonsFromSon h
                       \<or> 0 < fullBrothers h) then
          Some \<lparr>maleType = ''paternalBrothers'', maleCount = paternalBrothers h,
                femaleType = Some ''paternalSisters'', femaleCount = paternalSisters h,
                hasFemales = (0 < paternalSisters h), key = ''paternalBrothers''\<rparr>
        else if nephewsFullBrothers h \<noteq> 0 \<and> \<not> blockedByCloserAsaba h then
          Some \<lparr>maleType = ''nephewsFullBrothers'', maleCount = nephewsFullBrothers h,
                femaleType = None, femaleCount = 0, hasFemales = False,
                key = ''nephewsFullBrothers''\<rparr>
        else if nephewsPaternalBrothers h \<noteq> 0
                \<and> \<not> (blockedByCloserAsaba h \<or> 0 < nephewsFullBrothers h) then
          Some \<lparr>maleType = ''nephewsPaternalBrothers'',
                maleCount = nephewsPaternalBrothers h, femaleType = None, femaleCount = 0,
                hasFemales = False, key = ''nephewsPaternalBrothers''\<rparr>
        else if unclesFull h \<noteq> 0
                \<and> \<not> (blockedByCloserAsaba h \<or> 0 < nephewsFullBrothers h
                       \<or> 0 < nephewsPaternalBrothers h) then
          Some \<lparr>maleType = ''unclesFull'', maleCount = unclesFull h, femaleType = None,
                femaleCount = 0, hasFemales = False, key = ''unclesFull''\<rparr>
        else if unclesPaternal h \<noteq> 0
                \<and> \<not> (blockedByCloserAsaba h \<or> 0 < nephewsFullBrothers h
                       \<or> 0 < nephewsPaternalBrothers h \<or> 0 < unclesFull h) then
          Some \<lparr>maleType = ''unclesPaternal'', maleCount = unclesPaternal h,
                femaleType = None, femaleCount = 0, hasFemales = False,
                key = ''unclesPaternal''\<rparr>
        else None)
   \<and> (\<forall>e \<in> set (take 6 AsabaPriority).
         skipped h e \<longleftrightarrow> \<not> present h e \<or> blocked (checkBlocking (entryKey e) h))
   \<and> (validHeirs h \<longrightarrow>
        (\<forall>e \<in> set (drop 6 AsabaPriority).
           skipped h e \<longleftrightarrow>
             \<not> present h e
             \<or> (\<exists>c \<in> set (takeWhile (\<lambda>x. x \<noteq> e) AsabaPriority). present h c)))
   \<and> (\<exists>remainder. calculateRemainder h = Inr remainder
        \<and> (determineAsaba h = None \<or> lessThan remainder \<lparr>num = 0, den = 1\<rparr>
             \<or> isZero remainder \<longrightarrow>
            calculateAsaba h = Inr \<lparr>hasAsaba = False, resultInfo = None,
              resultRemainder = remainder, resultDistribution = None\<rparr>))"
proof (intro conjI)
  show "map entryKey AsabaPriority =
     [''sons'', ''grandsonsFromSon'', ''father'', ''paternalGrandfather'', ''fullBrothers'',
      ''paternalBrothers'', ''nephewsFullBrothers'', ''nephewsPaternalBrothers'',
      ''unclesFull'', ''unclesPaternal'']"
    by (simp add: AsabaPriority_def)
  show "determineAsaba h =
       (case find (\<lambda>e. \<not> skipped h e) AsabaPriority of
          None \<Rightarrow> None | Some e \<Rightarrow> Some (foundAsaba h e))"
    by (simp add: determineAsaba_def determineAsaba_loop_find)
  show "determineAsaba h =
       (if sons h \<noteq> 0 then
          Some \<lparr>maleType = ''son'', maleCount = sons h, femaleType = Some ''daughter'',
                femaleCount = daughters h, hasFemales = (0 < daughters h), key = ''sons''\<rparr>
        else if grandsonsFromSon h \<noteq> 0 \<and> \<not> 0 < sons h then
          Some \<lparr>maleType = ''grandsonsFromSon'', maleCount = grandsonsFromSon h,
                femaleType = Some ''granddaughtersFromSon'',
                femaleCount = granddaughtersFromSon h,
                hasFemales = (0 < granddaughtersFromSon h), key = ''grandsonsFromSon''\<rparr>
        else if father h then
          Some \<lparr>maleType = ''father'', maleCount = 1, femaleType = None, femaleCount = 0,
                hasFemales = False, key = ''father''\<rparr>
        else if paternalGrandfather h \<and> \<not> father h then
          Some \<lparr>maleType = ''paternalGrandfather'', maleCount = 1, femaleType = None,
                femaleCount = 0, hasFemales = False, key = ''paternalGrandfather''\<rparr>
        else if fullBrothers h \<noteq> 0
                \<and> \<not> (father h \<or> 0 < sons h \<or> 0 < grandsonsFromSon h) then
          Some \<lparr>maleType = ''fullBrothers'', maleCount = fullBrothers h,
                femaleType = Some ''fullSisters'', femaleCount = fullSisters h,
                hasFemales = (0 < fullSisters h), key = ''fullBrothers''\<rparr>
        else if paternalBrothers h \<noteq> 0
                \<and> \<not> (father h \<or> 0 < sons h \<or> 0 < grandsonsFromSon h
                       \<or> 0 < fullBrothers h) then
          Some \<lparr>maleType = ''paternalBrothers'', maleCount = paternalBrothers h,
                femaleType = Some ''paternalSisters'', femaleCount = paternalSisters h,
                hasFemales = (0 < paternalSisters h), key = ''paternalBrothers''\<rparr>
        else if nephewsFullBrothers h \<noteq> 0 \<and> \<not> blockedByCloserAsaba h then
          Some \<lparr>maleType = ''nephewsFullBrothers'', maleCount = nephewsFullBrothers h,
                femaleType = None, femaleCount = 0, hasFemales = False,
                key = ''nephewsFullBrothers''\<rparr>
        else if nephewsPaternalBrothers h \<noteq> 0
                \<and> \<not> (blockedByCloserAsaba h \<or> 0 < nephewsFullBrothers h) then
          Some \<lparr>maleType = ''nephewsPaternalBrothers'',
                maleCount = nephewsPaternalBrothers h, femaleType = None, femaleCount = 0,
                hasFemales = False, key = ''nephewsPaternalBrothers''\<rparr>
        else if unclesFull h \<noteq> 0
                \<and> \<not> (blockedByCloserAsaba h \<or> 0 < nephewsFullBrothers h
                       \<or> 0 < nephewsPaternalBrothers h) then
          Some \<lparr>maleType = ''unclesFull'', maleCount = unclesFull h, femaleType = None,
                femaleCount = 0, hasFemales = False, key = ''unclesFull''\<rparr>
        else if unclesPaternal h \<noteq> 0
                \<and> \<not> (blockedByCloserAsaba h \<or> 0 < nephewsFullBrothers h
                       \<or> 0 < nephewsPaternalBrothers h \<or> 0 < unclesFull h) then
          Some \<lparr>maleType = ''unclesPaternal'', maleCount = unclesPaternal h,
                femaleType = None, femaleCount = 0, hasFemales = False,
                key = ''unclesPaternal''\<rparr>
        else None)"
    by (rule determineAsaba_first_unblocked)
  show "\<forall>e \<in> set (take 6 AsabaPriority).
         skipped h e \<longleftrightarrow> \<not> present h e \<or> blocked (checkBlocking (entryKey e) h)"
    by (rule skipped_first_six)
  show "validHeirs h \<longrightarrow>
        (\<forall>e \<in> set (drop 6 AsabaPriority).
           skipped h e \<longleftrightarrow>
             \<not> present h e
             \<or> (\<exists>c \<in> set (takeWhile (\<lambda>x. x \<noteq> e) AsabaPriority). present h c))"
    using skipped_last_four by blast
  show "\<exists>remainder. calculateRemainder h = Inr remainder
        \<and> (determineAsaba h = None \<or> lessThan remainder \<lparr>num = 0, den = 1\<rparr>
             \<or> isZero remainder \<longrightarrow>
            calculateAsaba h = Inr \<lparr>hasAsaba = False, resultInfo = None,
              resultRemainder = remainder, resultDistribution = None\<rparr>)"
    by (auto simp add: calculateRemainder_canon calculateAsaba_none)
qed

lemma validHeirs_witness_C7:
  "validHeirs (noHeirs\<lparr>husband := True, father := True, mother := True, daughters := 2,
     unclesFull := 1\<rparr>)"
  by (simp add: validHeirs_def noHeirs_def)

lemma determineAsaba_eval_C7:
  "determineAsaba (noHeirs\<lparr>husband := True, father := True, mother := True, daughters := 2,
     unclesFull := 1\<rparr>) =
   Some \<lparr>maleType = ''father'', maleCount = 1, femaleType = None, femaleCount = 0,
         hasFemales = False, key = ''father''\<rparr>"
  by code_simp

lemma calculateRemainder_eval_C7:
  "calculateRemainder (noHeirs\<lparr>husband := True, father := True, mother := True, daughters := 2,
     unclesFull := 1\<rparr>) = Inr \<lparr>num = - 1, den = 4\<rparr>"
  by code_simp

lemma calculateAsaba_eval_C7:
  "calculateAsaba (noHeirs\<lparr>husband := True, father := True, mother := True, daughters := 2,
     unclesFull := 1\<rparr>) =
   Inr \<lparr>hasAsaba = False, resultInfo = None, resultRemainder = \<lparr>num = - 1, den = 4\<rparr>,
        resultDistribution = None\<rparr>"
  by code_simp

lemma skipped_eval_C7:
  "skipped (noHeirs\<lparr>husband := True, father := True, mother := True, daughters := 2,
     unclesFull := 1\<rparr>)
     \<lparr>entryKey = ''unclesFull'', entryType = ''unclesFull'', countField = ''unclesFull''\<rparr>"
  by code_simp

theorem residuary_resolver_witness:
  "validHeirs (noHeirs\<lparr>husband := True, father := True, mother := True, daughters := 2,
     unclesFull := 1\<rparr>)
   \<and> \<lparr>entryKey = ''unclesFull'', entryType = ''unclesFull'', countField = ''unclesFull''\<rparr>
       \<in> set (drop 6 AsabaPriority)
   \<and> skipped (noHeirs\<lparr>husband := True, father := True, mother := True, daughters := 2,
       unclesFull := 1\<rparr>)
       \<lparr>entryKey = ''unclesFull'', entryType = ''unclesFull'', countField = ''unclesFull''\<rparr>
   \<and> determineAsaba (noHeirs\<lparr>husband := True, father := True, mother := True, daughters := 2,
       unclesFull := 1\<rparr>) =
       Some \<lparr>maleType = ''father'', maleCount = 1, femaleType = None, femaleCount = 0,
         hasFemales = False, key = ''father''\<rparr>
   \<and> calculateRemainder (noHeirs\<lparr>husband := True, father := True, mother := True,
       daughters := 2, unclesFull := 1\<rparr>) = Inr \<lparr>num = - 1, den = 4\<rparr>
   \<and> lessThan \<lparr>num = - 1, den = 4\<rparr> \<lparr>num = 0, den = 1\<rparr>
   \<and> calculateAsaba (noHeirs\<lparr>husband := True, father := True, mother := True, daughters := 2,
       unclesFull := 1\<rparr>) =
       Inr \<lparr>hasAsaba = False, resultInfo = None, resultRemainder = \<lparr>num = - 1, den = 4\<rparr>,
        resultDistribution = None\<rparr>"
proof -
  let ?h = "noHeirs\<lparr>husband := True, father := True, mother := True, daughters := 2,
     unclesFull := 1\<rparr>"
  from residuary_resolver [of ?h]
  have "\<exists>remainder. calculateRemainder ?h = Inr remainder
        \<and> (determineAsaba ?h = None \<or> lessThan remainder \<lparr>num = 0, den = 1\<rparr>
             \<or> isZero remainder \<longrightarrow>
            calculateAsaba ?h = Inr \<lparr>hasAsaba = False, resultInfo = None,
              resultRemainder = remainder, resultDistribution = None\<rparr>)"
    by (elim conjE)
  then have "calculateAsaba ?h = Inr \<lparr>hasAsaba = False, resultInfo = None,
      resultRemainder = \<lparr>num = - 1, den = 4\<rparr>, resultDistribution = None\<rparr>"
    by (simp add: calculateRemainder_eval_C7 lessThan_def)
  then show ?thesis
    using validHeirs_witness_C7 determineAsaba_eval_C7 calculateRemainder_eval_C7
      skipped_eval_C7
    by (simp add: drop6 lessThan_def)
qed

section \<open>Reduction (Awl)\<close>

text \<open>
  Two ways of reading a list of fractions, used to state the laws below: applying a
  function that may throw to every element, in order, and adding the elements up with
  \<open>add\<close> from \<open>new Fraction(0, 1)\<close>, as the loops
  \<open>total = total.add(share)\<close> of the source and of its tests do.
\<close>

fun mapE :: "('a \<Rightarrow> error + 'b) \<Rightarrow> 'a list \<Rightarrow> error + 'b list" where
  "mapE f [] = Inr []"
| "mapE f (x # xs) = ebind (f x) (\<lambda>y. ebind (mapE f xs) (\<lambda>ys. Inr (y # ys)))"

fun sumFractions_loop :: "fraction \<Rightarrow> fraction list \<Rightarrow> error + fraction" where
  "sumFractions_loop acc [] = Inr acc"
| "sumFractions_loop acc (x # xs) = ebind (add acc x) (\<lambda>acc'. sumFractions_loop acc' xs)"

definition sumFractions :: "fraction list \<Rightarrow> error + fraction" where
  "sumFractions xs = ebind (new_Fraction 0 1) (\<lambda>zero. sumFractions_loop zero xs)"

lemma sumFractions_loop_canon:
  "\<forall>x \<in> set xs. den x \<noteq> 0 \<Longrightarrow>
   sumFractions_loop (canon q) xs = Inr (canon (q + sum_list (map ratOf xs)))"
  by (induction xs arbitrary: q) (simp_all add: add_canon add.assoc)

lemma sumFractions_canon:
  "\<forall>x \<in> set xs. den x \<noteq> 0 \<Longrightarrow> sumFractions xs = Inr (canon (sum_list (map ratOf xs)))"
  using sumFractions_loop_canon [of xs 0] by (simp add: sumFractions_def canon_0)

lemma segment_den:
  "x \<in> set (spouseFixed h) \<Longrightarrow> 0 < den (snd x)"
  "x \<in> set (motherFixed h) \<Longrightarrow> 0 < den (snd x)"
  "x \<in> set (fatherFixed h) \<Longrightarrow> 0 < den (snd x)"
  "x \<in> set (grandfatherFixed h) \<Longrightarrow> 0 < den (snd x)"
  "x \<in> set (grandmothersFixed h) \<Longrightarrow> 0 < den (snd x)"
  "x \<in> set (daughtersFixed h) \<Longrightarrow> 0 < den (snd x)"
  "x \<in> set (granddaughtersFixed h) \<Longrightarrow> 0 < den (snd x)"
  "x \<in> set (fullSistersFixed h) \<Longrightarrow> 0 < den (snd x)"
  "x \<in> set (paternalSistersFixed h) \<Longrightarrow> 0 < den (snd x)"
  "x \<in> set (maternalFixed h) \<Longrightarrow> 0 < den (snd x)"
  by (auto simp: spouseFixed_def motherFixed_def fatherFixed_def grandfatherFixed_def grandmothersFixed_def daughtersFixed_def granddaughtersFixed_def fullSistersFixed_def paternalSistersFixed_def maternalFixed_def split: if_splits)

lemma fixedShares_den: "x \<in> set (fixedShares h) \<Longrightarrow> 0 < den (snd x)"
  unfolding fixedShares_def set_append Un_iff by (elim disjE) (rule segment_den, assumption)+

lemma ratSum_sum_list: "sum_list (map ratOf (map snd xs)) = ratSum xs"
  by (simp add: ratSum_def comp_def)

lemma ratSum_sum_list_comp: "sum_list (map (ratOf \<circ> snd) xs) = ratSum xs"
  by (simp add: ratSum_def comp_def)

lemma sumFractions_fixedShares:
  "sumFractions (map snd (fixedShares h)) = Inr (canon (ratSum (fixedShares h)))"
  by (subst sumFractions_canon) (auto simp: ratSum_sum_list_comp dest: fixedShares_den)

lemma num_canon_eq0 [simp]: "num (canon q) = 0 \<longleftrightarrow> q = 0"
  using isZero_canon [of q] by (simp add: isZero_def)

lemma divide_canon_canon [simp]:
  "q \<noteq> 0 \<Longrightarrow> divide (canon p) (canon q) = Inr (canon (p / q))"
  by (simp add: divide_canon)

lemma multiply_canon_canon [simp]:
  "multiply (canon p) (canon q) = Inr (canon (p * q))"
  by (simp add: multiply_canon)

lemma applyAwlToShare_canon:
  "den s \<noteq> 0 \<Longrightarrow> applyAwlToShare (Some s) (canon r) = Inr (canon (ratOf s * r))"
  by (simp add: applyAwlToShare_def multiply_canon isZero_iff canon_0)

lemma mapE_Inr:
  "\<forall>x \<in> set xs. f x = Inr (g x) \<Longrightarrow> mapE f xs = Inr (map g xs)"
  by (induction xs) simp_all

lemma calculateAwlRatio_canon:
  "calculateAwlRatio h =
     Inr (if 1 < ratSum (fixedShares h) then canon (1 / ratSum (fixedShares h))
          else \<lparr>num = 1, den = 1\<rparr>)"
proof -
  have "num (canon (ratSum (fixedShares h))) \<noteq> 0" if "1 < ratSum (fixedShares h)"
    using that isZero_canon [of "ratSum (fixedShares h)"] by (simp add: isZero_def)
  then show ?thesis
    by (simp add: calculateAwlRatio_def calculateFixedSharesTotal_canon divide_canon)
qed

text \<open>
  Claim C4. For every composition whose fixed-share total exceeds one: the fixed shares
  (the shares of \<open>fixedShares\<close>) add up to that total; \<open>calculateAwlRatio\<close> returns the
  reciprocal of the total, and the product of the two is exactly 1/1; applying
  \<open>applyAwlToShare\<close> with this ratio to every fixed share gives shares that add up to
  exactly 1/1; and for any two nonzero shares the quotient of the adjusted shares is the
  quotient of the original shares.
\<close>

theorem awl_reduction_law:
  assumes total: "calculateFixedSharesTotal h = Inr fixedTotal"
    and gt: "greaterThan fixedTotal \<lparr>num = 1, den = 1\<rparr>"
  shows "\<exists>ratio adjusted.
       sumFractions (map snd (fixedShares h)) = Inr fixedTotal
     \<and> calculateAwlRatio h = Inr ratio
     \<and> ratOf ratio = 1 / ratOf fixedTotal
     \<and> multiply ratio fixedTotal = Inr \<lparr>num = 1, den = 1\<rparr>
     \<and> mapE (\<lambda>s. applyAwlToShare (Some s) ratio) (map snd (fixedShares h)) = Inr adjusted
     \<and> sumFractions adjusted = Inr \<lparr>num = 1, den = 1\<rparr>
     \<and> (\<forall>a b. 0 < den a \<and> 0 < den b \<and> \<not> isZero a \<and> \<not> isZero b \<longrightarrow>
          (\<exists>a' b'. applyAwlToShare (Some a) ratio = Inr a'
             \<and> applyAwlToShare (Some b) ratio = Inr b'
             \<and> ratOf a' / ratOf b' = ratOf a / ratOf b
             \<and> divide a' b' = divide a b))"
proof -
  let ?T = "ratSum (fixedShares h)"
  from total have ft: "fixedTotal = canon ?T"
    by (simp add: calculateFixedSharesTotal_canon)
  with gt have T: "1 < ?T" by simp
  then have T0: "?T \<noteq> 0" by simp
  let ?ratio = "canon (1 / ?T)"
  let ?adjusted = "map (\<lambda>s. canon (ratOf s * (1 / ?T))) (map snd (fixedShares h))"
  have r: "calculateAwlRatio h = Inr ?ratio"
    using T by (simp add: calculateAwlRatio_canon)
  have m: "mapE (\<lambda>s. applyAwlToShare (Some s) ?ratio) (map snd (fixedShares h)) = Inr ?adjusted"
  proof (rule mapE_Inr, rule ballI)
    fix s assume "s \<in> set (map snd (fixedShares h))"
    then have "den s \<noteq> 0" by (auto dest: fixedShares_den)
    then show "applyAwlToShare (Some s) ?ratio = Inr (canon (ratOf s * (1 / ?T)))"
      by (rule applyAwlToShare_canon)
  qed
  have "sum_list (map ratOf ?adjusted) = sum_list (map (\<lambda>s. ratOf s * (1 / ?T)) (map snd (fixedShares h)))"
    by (simp add: comp_def)
  also have "\<dots> = sum_list (map ratOf (map snd (fixedShares h))) * (1 / ?T)"
    by (simp only: sum_list_mult_const)
  also have "sum_list (map ratOf (map snd (fixedShares h))) = ?T"
    by (simp add: ratSum_def comp_def)
  also have "?T * (1 / ?T) = 1"
    using T0 by simp
  finally have one: "sum_list (map ratOf ?adjusted) = 1" .
  have dens: "\<forall>x \<in> set ?adjusted. den x \<noteq> 0" by simp
  have s: "sumFractions ?adjusted = Inr \<lparr>num = 1, den = 1\<rparr>"
    using sumFractions_canon [OF dens] by (simp only: one canon_1)
  have p: "multiply ?ratio fixedTotal = Inr \<lparr>num = 1, den = 1\<rparr>"
    using T0 by (simp add: ft multiply_canon canon_1)
  have pair: "\<exists>a' b'. applyAwlToShare (Some a) ?ratio = Inr a'
             \<and> applyAwlToShare (Some b) ?ratio = Inr b'
             \<and> ratOf a' / ratOf b' = ratOf a / ratOf b
             \<and> divide a' b' = divide a b"
    if ab: "0 < den a \<and> 0 < den b \<and> \<not> isZero a \<and> \<not> isZero b" for a b
  proof -
    from ab have da: "den a \<noteq> 0" and db: "den b \<noteq> 0" by simp_all
    from ab db have rb: "ratOf b \<noteq> 0" by (simp add: isZero_iff)
    from ab have nb: "num b \<noteq> 0" by (simp add: isZero_def)
    show ?thesis
      using T0 rb
      by (simp add: applyAwlToShare_canon [OF da] applyAwlToShare_canon [OF db]
          divide_canon [OF da nb])
  qed
  show ?thesis
    using r m s p pair ft
    by (intro exI [of _ ?ratio] exI [of _ ?adjusted]) (simp add: sumFractions_fixedShares)
qed

lemma calculateFixedSharesTotal_eval_C4:
  "calculateFixedSharesTotal (noHeirs\<lparr>husband := True, daughters := 2, mother := True\<rparr>)
     = Inr \<lparr>num = 13, den = 12\<rparr>"
  by code_simp

lemma calculateAwlRatio_eval_C4:
  "calculateAwlRatio (noHeirs\<lparr>husband := True, daughters := 2, mother := True\<rparr>)
     = Inr \<lparr>num = 12, den = 13\<rparr>"
  by code_simp

lemma greaterThan_eval_C4: "greaterThan \<lparr>num = 13, den = 12\<rparr> \<lparr>num = 1, den = 1\<rparr>"
  by (simp add: greaterThan_def)

theorem awl_reduction_law_witness:
  "calculateFixedSharesTotal (noHeirs\<lparr>husband := True, daughters := 2, mother := True\<rparr>)
     = Inr \<lparr>num = 13, den = 12\<rparr>
   \<and> greaterThan \<lparr>num = 13, den = 12\<rparr> \<lparr>num = 1, den = 1\<rparr>
   \<and> calculateAwlRatio (noHeirs\<lparr>husband := True, daughters := 2, mother := True\<rparr>)
     = Inr \<lparr>num = 12, den = 13\<rparr>
   \<and> multiply \<lparr>num = 12, den = 13\<rparr> \<lparr>num = 13, den = 12\<rparr> = Inr \<lparr>num = 1, den = 1\<rparr>
   \<and> (\<exists>adjusted.
        mapE (\<lambda>s. applyAwlToShare (Some s) \<lparr>num = 12, den = 13\<rparr>)
          (map snd (fixedShares (noHeirs\<lparr>husband := True, daughters := 2, mother := True\<rparr>)))
          = Inr adjusted
        \<and> sumFractions adjusted = Inr \<lparr>num = 1, den = 1\<rparr>)"
proof -
  let ?h = "noHeirs\<lparr>husband := True, daughters := 2, mother := True\<rparr>"
  from awl_reduction_law [OF calculateFixedSharesTotal_eval_C4 greaterThan_eval_C4]
  obtain ratio adjusted where
    r: "calculateAwlRatio ?h = Inr ratio"
    and p: "multiply ratio \<lparr>num = 13, den = 12\<rparr> = Inr \<lparr>num = 1, den = 1\<rparr>"
    and m: "mapE (\<lambda>s. applyAwlToShare (Some s) ratio) (map snd (fixedShares ?h)) = Inr adjusted"
    and s: "sumFractions adjusted = Inr \<lparr>num = 1, den = 1\<rparr>"
    by blast
  from r have "ratio = \<lparr>num = 12, den = 13\<rparr>"
    by (simp add: calculateAwlRatio_eval_C4)
  with p m s show ?thesis
    using calculateFixedSharesTotal_eval_C4 greaterThan_eval_C4 calculateAwlRatio_eval_C4
    by blast
qed

section \<open>Redistribution (Radd)\<close>

lemma getRecipientRaddShare_ok:
  "\<exists>f. getRecipientRaddShare x h rs = Inr f \<and> 0 < den f \<and> 0 \<le> ratOf f"
  by (simp add: getRecipientRaddShare_def calculateMotherShare_def MOTHER_getShare_def
      calculateDaughtersRaddShare_def calculateGranddaughtersRaddShare_def
      calculateFullSistersRaddShare_def calculatePaternalSistersRaddShare_def
      calculateMaternalSiblingsRaddShare_def Let_def)

text \<open>\<open>getRecipientRaddShare\<close> never throws; \<open>baseOf\<close> names the fraction it returns.\<close>

definition baseOf :: "string \<Rightarrow> heirs \<Rightarrow> string list \<Rightarrow> fraction" where
  "baseOf x h rs = projr (getRecipientRaddShare x h rs)"

lemma getRecipientRaddShare_baseOf:
  "getRecipientRaddShare x h rs = Inr (baseOf x h rs)"
  using getRecipientRaddShare_ok [of x h rs] by (auto simp: baseOf_def)

lemma baseOf_den [simp]: "den (baseOf x h rs) \<noteq> 0"
  using getRecipientRaddShare_ok [of x h rs] by (auto simp: baseOf_def)

lemma baseOf_nonneg [simp]: "0 \<le> ratOf (baseOf x h rs)"
  using getRecipientRaddShare_ok [of x h rs] by (auto simp: baseOf_def)

lemma raddTotal_loop_canon:
  "raddTotal_loop h all (canon q) xs =
     Inr (canon (q + sum_list (map (\<lambda>x. ratOf (baseOf x h all)) xs)))"
  by (induction xs arbitrary: q)
    (simp_all add: getRecipientRaddShare_baseOf add_canon add.assoc)

lemma calculateRaddRecipientsTotal_canon:
  "calculateRaddRecipientsTotal h rs =
     Inr (canon (sum_list (map (\<lambda>x. ratOf (baseOf x h rs)) rs)))"
  using raddTotal_loop_canon [of h rs 0 rs]
  by (simp add: calculateRaddRecipientsTotal_def canon_0)

lemma calculateRaddShareForRecipient_canon:
  "t \<noteq> 0 \<Longrightarrow>
   calculateRaddShareForRecipient x h (canon r) (canon t) =
     Inr (canon (r * (ratOf (baseOf x h [x]) / t)))"
  by (simp add: calculateRaddShareForRecipient_def getRecipientRaddShare_baseOf divide_canon)

lemma calculateAllRaddShares_canon:
  "t \<noteq> 0 \<Longrightarrow>
   calculateAllRaddShares rs h (canon r) (canon t) =
     Inr (map (\<lambda>x. (x, canon (r * (ratOf (baseOf x h [x]) / t)))) rs)"
  by (induction rs) (simp_all add: calculateRaddShareForRecipient_canon)

lemma baseOf_single:
  assumes "x \<in> set rs"
    and "\<not> (''maternalBrothers'' \<in> set rs \<and> ''maternalSisters'' \<in> set rs)"
  shows "baseOf x h [x] = baseOf x h rs"
proof -
  have "getRecipientRaddShare x h [x] = getRecipientRaddShare x h rs"
    using assms
    by (auto simp add: getRecipientRaddShare_def shouldAddMaternalSiblingsShare_def Let_def)
  then show ?thesis by (simp add: baseOf_def)
qed


lemma recipients_mem:
  "''mother'' \<in> set (getRaddRecipients h) \<longleftrightarrow> mother h"
  "''daughters'' \<in> set (getRaddRecipients h) \<longleftrightarrow> canDaughtersParticipateInRadd h"
  "''granddaughtersFromSon'' \<in> set (getRaddRecipients h)
     \<longleftrightarrow> canGranddaughtersParticipateInRadd h"
  "''grandmothers'' \<in> set (getRaddRecipients h) \<longleftrightarrow> canGrandmothersParticipateInRadd h"
  "''fullSisters'' \<in> set (getRaddRecipients h) \<longleftrightarrow> canFullSistersParticipateInRadd h"
  "''paternalSisters'' \<in> set (getRaddRecipients h)
     \<longleftrightarrow> canPaternalSistersParticipateInRadd h"
  "''maternalBrothers'' \<in> set (getRaddRecipients h)
     \<longleftrightarrow> isKalalahCondition h \<and> maternalBrothers h > 0"
  "''maternalSisters'' \<in> set (getRaddRecipients h)
     \<longleftrightarrow> isKalalahCondition h \<and> maternalSisters h > 0"
  by (simp_all add: getRaddRecipients_def)

lemma recipients_names:
  "set (getRaddRecipients h) \<subseteq>
     {''mother'', ''daughters'', ''granddaughtersFromSon'', ''grandmothers'', ''fullSisters'',
      ''paternalSisters'', ''maternalBrothers'', ''maternalSisters''}"
  by (auto simp add: getRaddRecipients_def split: if_splits)

lemma recipients_cases:
  "x \<in> set (getRaddRecipients h) \<Longrightarrow>
     x = ''mother'' \<or> x = ''daughters'' \<or> x = ''granddaughtersFromSon''
     \<or> x = ''grandmothers'' \<or> x = ''fullSisters'' \<or> x = ''paternalSisters''
     \<or> x = ''maternalBrothers'' \<or> x = ''maternalSisters''"
  by (auto simp add: getRaddRecipients_def split: if_splits)

lemma no_spouse_recipient:
  "''husband'' \<notin> set (getRaddRecipients h) \<and> ''wife'' \<notin> set (getRaddRecipients h)"
  by (simp add: getRaddRecipients_def)

lemma base_values:
  "ratOf (baseOf ''mother'' h rs) = (if hasChildren h \<or> hasMultipleSiblings h then 1/6 else 1/3)"
  "ratOf (baseOf ''daughters'' h rs) = (if daughters h = 1 then 1/2 else 2/3)"
  "ratOf (baseOf ''granddaughtersFromSon'' h rs) =
     (if daughters h = 1 then 1/6 else if daughters h = 0
      then (if granddaughtersFromSon h = 1 then 1/2 else 2/3) else 0)"
  "ratOf (baseOf ''grandmothers'' h rs) = 1/6"
  "ratOf (baseOf ''fullSisters'' h rs) = (if fullSisters h = 1 then 1/2 else 2/3)"
  "ratOf (baseOf ''paternalSisters'' h rs) =
     (if fullSisters h = 1 then 1/6 else if fullSisters h = 0
      then (if paternalSisters h = 1 then 1/2 else 2/3) else 0)"
  "ratOf (baseOf ''maternalBrothers'' h rs) =
     (if maternalBrothers h + maternalSisters h = 1 then 1/6 else 1/3)"
  "ratOf (baseOf ''maternalSisters'' h rs) =
     (if ''maternalBrothers'' \<in> set rs then 0
      else if maternalBrothers h + maternalSisters h = 1 then 1/6 else 1/3)"
  by (simp_all add: baseOf_def getRecipientRaddShare_def calculateMotherShare_def
      MOTHER_getShare_def calculateDaughtersRaddShare_def calculateGranddaughtersRaddShare_def
      calculateFullSistersRaddShare_def calculatePaternalSistersRaddShare_def
      calculateMaternalSiblingsRaddShare_def shouldAddMaternalSiblingsShare_def Let_def)

lemma some_base_positive:
  assumes v: "validHeirs h" and ne: "getRaddRecipients h \<noteq> []"
  shows "\<exists>x \<in> set (getRaddRecipients h). 0 < ratOf (baseOf x h (getRaddRecipients h))"
proof -
  let ?rs = "getRaddRecipients h"
  from v have d: "0 \<le> daughters h" and f: "0 \<le> fullSisters h"
    by (simp_all add: validHeirs_def)
  from ne obtain x where x: "x \<in> set ?rs" by (cases ?rs) auto
  from recipients_cases [OF x] show ?thesis
  proof (elim disjE, goal_cases)
    case 1 with x show ?thesis by (intro bexI [of _ "''mother''"]) (simp_all add: base_values)
  next
    case 2 with x show ?thesis by (intro bexI [of _ "''daughters''"]) (simp_all add: base_values)
  next
    case 3
    show ?thesis
    proof (cases "daughters h \<ge> 2")
      case True
      with 3 x have "''daughters'' \<in> set ?rs"
        by (simp add: recipients_mem canDaughtersParticipateInRadd_def
            canGranddaughtersParticipateInRadd_def)
      then show ?thesis by (intro bexI [of _ "''daughters''"]) (simp_all add: base_values)
    next
      case False
      with d have "daughters h = 0 \<or> daughters h = 1" by auto
      with 3 x show ?thesis
        by (intro bexI [of _ "''granddaughtersFromSon''"]) (auto simp add: base_values)
    qed
  next
    case 4 with x show ?thesis
      by (intro bexI [of _ "''grandmothers''"]) (simp_all add: base_values)
  next
    case 5 with x show ?thesis
      by (intro bexI [of _ "''fullSisters''"]) (simp_all add: base_values)
  next
    case 6
    show ?thesis
    proof (cases "fullSisters h \<ge> 2")
      case True
      with 6 x have "''fullSisters'' \<in> set ?rs"
        by (simp add: recipients_mem canFullSistersParticipateInRadd_def
            canPaternalSistersParticipateInRadd_def)
      then show ?thesis by (intro bexI [of _ "''fullSisters''"]) (simp_all add: base_values)
    next
      case False
      with f have "fullSisters h = 0 \<or> fullSisters h = 1" by auto
      with 6 x show ?thesis
        by (intro bexI [of _ "''paternalSisters''"]) (auto simp add: base_values)
    qed
  next
    case 7 with x show ?thesis
      by (intro bexI [of _ "''maternalBrothers''"]) (simp_all add: base_values)
  next
    case 8
    show ?thesis
    proof (cases "''maternalBrothers'' \<in> set ?rs")
      case True
      then show ?thesis
        by (intro bexI [of _ "''maternalBrothers''"]) (simp_all add: base_values)
    next
      case False
      with 8 x show ?thesis
        by (intro bexI [of _ "''maternalSisters''"]) (simp_all add: base_values)
    qed
  qed
qed

lemma sum_list_pos_rat:
  fixes f :: "'a \<Rightarrow> rat"
  assumes "\<forall>x \<in> set xs. 0 \<le> f x" "\<exists>x \<in> set xs. 0 < f x"
  shows "0 < sum_list (map f xs)"
  using assms
proof (induction xs)
  case Nil then show ?case by simp
next
  case (Cons a xs)
  have nn: "0 \<le> sum_list (map f xs)"
    using Cons.prems(1) by (intro sum_list_nonneg) auto
  show ?case
  proof (cases "0 < f a")
    case True with nn show ?thesis by simp
  next
    case False
    with Cons.prems have "\<exists>x \<in> set xs. 0 < f x" by auto
    with Cons.IH Cons.prems(1) have "0 < sum_list (map f xs)" by simp
    moreover have "0 \<le> f a" using Cons.prems(1) by simp
    ultimately show ?thesis by simp
  qed
qed

lemma recipientsTotal_pos:
  assumes "validHeirs h" "getRaddRecipients h \<noteq> []"
  shows "0 < sum_list (map (\<lambda>x. ratOf (baseOf x h (getRaddRecipients h))) (getRaddRecipients h))"
  by (rule sum_list_pos_rat) (use some_base_positive [OF assms] in simp_all)


text \<open>The rational number that \<open>calculateRaddRecipientsTotal\<close> returns for the
  recipients of a composition (lemma \<open>calculateRaddRecipientsTotal_canon\<close>).\<close>

definition recipientsTotalRat :: "heirs \<Rightarrow> rat" where
  "recipientsTotalRat h =
     sum_list (map (\<lambda>x. ratOf (baseOf x h (getRaddRecipients h))) (getRaddRecipients h))"

lemma applyRadd_not_applied:
  "\<not> 0 < 1 - ratSum (fixedShares h) \<or> determineAsaba h \<noteq> None \<or> getRaddRecipients h = [] \<Longrightarrow>
   applyRadd h = Inr (createRaddNotAppliedResult (canon (1 - ratSum (fixedShares h))))"
  by (auto simp add: applyRadd_def calculateRemainder_canon Let_def)

lemma applyRadd_applied:
  assumes "validHeirs h" "0 < 1 - ratSum (fixedShares h)" "determineAsaba h = None"
    "getRaddRecipients h \<noteq> []"
  shows "applyRadd h =
     Inr \<lparr>raddApplied = True, raddRemainder = canon (1 - ratSum (fixedShares h)),
          raddRecipients = getRaddRecipients h,
          raddShares = map (\<lambda>x. (x, canon ((1 - ratSum (fixedShares h))
                         * (ratOf (baseOf x h [x]) / recipientsTotalRat h))))
                         (getRaddRecipients h)\<rparr>"
proof -
  have "recipientsTotalRat h \<noteq> 0"
    using recipientsTotal_pos [OF assms(1,4)] by (simp add: recipientsTotalRat_def)
  then show ?thesis
    using assms(2-4)
    by (simp add: applyRadd_def calculateRemainder_canon Let_def
        calculateRaddRecipientsTotal_canon calculateAllRaddShares_canon
        recipientsTotalRat_def [symmetric])
qed

lemma radd_addends_sum:
  assumes "validHeirs h" "getRaddRecipients h \<noteq> []"
    and "\<not> (''maternalBrothers'' \<in> set (getRaddRecipients h)
           \<and> ''maternalSisters'' \<in> set (getRaddRecipients h))"
  shows "sum_list (map (\<lambda>x. r * (ratOf (baseOf x h [x]) / recipientsTotalRat h))
           (getRaddRecipients h)) = r"
proof -
  let ?rs = "getRaddRecipients h"
  have t: "recipientsTotalRat h \<noteq> 0"
    using recipientsTotal_pos [OF assms(1,2)] by (simp add: recipientsTotalRat_def)
  have "map (\<lambda>x. r * (ratOf (baseOf x h [x]) / recipientsTotalRat h)) ?rs
      = map (\<lambda>x. ratOf (baseOf x h ?rs) * (r / recipientsTotalRat h)) ?rs"
    by (rule map_cong) (simp_all add: baseOf_single [OF _ assms(3)])
  then have "sum_list (map (\<lambda>x. r * (ratOf (baseOf x h [x]) / recipientsTotalRat h)) ?rs)
      = sum_list (map (\<lambda>x. ratOf (baseOf x h ?rs)) ?rs) * (r / recipientsTotalRat h)"
    by (simp only: sum_list_mult_const)
  also have "\<dots> = recipientsTotalRat h * (r / recipientsTotalRat h)"
    by (simp only: recipientsTotalRat_def)
  also have "\<dots> = r" using t by simp
  finally show ?thesis .
qed

text \<open>
  Outside the pooled pair of maternal siblings the redistribution does what its
  documentation says. For every valid composition with a positive remainder, no
  residuary category present and unblocked, at least one recipient, and not both the
  maternal brothers and the maternal sisters among the recipients: \<open>applyRadd\<close> applies
  the redistribution to the recipients of \<open>getRaddRecipients\<close>, the husband and the wife
  are not among them, every addend is the remainder times the recipient's base share
  divided by the total that \<open>calculateRaddRecipientsTotal\<close> returns, and the addends add
  up to exactly the remainder.
\<close>

lemma applyRadd_outside_pooled_pair:
  assumes valid: "validHeirs h"
    and rem: "calculateRemainder h = Inr remainder"
    and pos: "greaterThan remainder \<lparr>num = 0, den = 1\<rparr>"
    and noAsaba: "determineAsaba h = None"
    and ne: "getRaddRecipients h \<noteq> []"
    and notBoth: "\<not> (''maternalBrothers'' \<in> set (getRaddRecipients h)
                    \<and> ''maternalSisters'' \<in> set (getRaddRecipients h))"
  shows "\<exists>r recipientsTotal.
       applyRadd h = Inr r
     \<and> raddApplied r
     \<and> raddRemainder r = remainder
     \<and> raddRecipients r = getRaddRecipients h
     \<and> map fst (raddShares r) = getRaddRecipients h
     \<and> ''husband'' \<notin> set (raddRecipients r) \<and> ''wife'' \<notin> set (raddRecipients r)
     \<and> calculateRaddRecipientsTotal h (raddRecipients r) = Inr recipientsTotal
     \<and> (\<forall>x \<in> set (raddShares r).
          \<exists>base. getRecipientRaddShare (fst x) h (raddRecipients r) = Inr base
            \<and> ratOf (snd x) = ratOf remainder * (ratOf base / ratOf recipientsTotal))
     \<and> sum_list (map (\<lambda>x. ratOf (snd x)) (raddShares r)) = ratOf remainder
     \<and> sumFractions (map snd (raddShares r)) = Inr remainder"
proof -
  let ?R = "1 - ratSum (fixedShares h)"
  let ?rs = "getRaddRecipients h"
  let ?shares = "map (\<lambda>x. (x, canon (?R * (ratOf (baseOf x h [x]) / recipientsTotalRat h)))) ?rs"
  from rem have remainder: "remainder = canon ?R"
    by (simp add: calculateRemainder_canon)
  with pos have R: "0 < ?R" by simp
  have a: "applyRadd h = Inr \<lparr>raddApplied = True, raddRemainder = canon ?R,
      raddRecipients = ?rs, raddShares = ?shares\<rparr>"
    by (rule applyRadd_applied [OF valid R noAsaba ne])
  have t: "calculateRaddRecipientsTotal h ?rs = Inr (canon (recipientsTotalRat h))"
    by (simp add: calculateRaddRecipientsTotal_canon recipientsTotalRat_def)
  have each: "\<forall>x \<in> set ?shares.
      \<exists>base. getRecipientRaddShare (fst x) h ?rs = Inr base
        \<and> ratOf (snd x) = ratOf (canon ?R) * (ratOf base / ratOf (canon (recipientsTotalRat h)))"
    by (auto simp add: getRecipientRaddShare_baseOf baseOf_single [OF _ notBoth])
  have sum: "sum_list (map (\<lambda>x. ratOf (snd x)) ?shares) = ?R"
    using radd_addends_sum [OF valid ne notBoth, of ?R] by (simp add: comp_def)
  have "sumFractions (map snd ?shares)
      = Inr (canon (sum_list (map ratOf (map snd ?shares))))"
    by (rule sumFractions_canon) simp
  also have "sum_list (map ratOf (map snd ?shares)) = ?R"
    using sum by (simp add: comp_def)
  finally have total: "sumFractions (map snd ?shares) = Inr (canon ?R)" .
  let ?res = "\<lparr>raddApplied = True, raddRemainder = canon ?R,
      raddRecipients = ?rs, raddShares = ?shares\<rparr>"
  show ?thesis
  proof (intro exI [of _ ?res] exI [of _ "canon (recipientsTotalRat h)"] conjI)
    show "applyRadd h = Inr ?res" by (rule a)
    show "raddApplied ?res" by simp
    show "raddRemainder ?res = remainder" by (simp add: remainder)
    show "raddRecipients ?res = ?rs" by simp
    show "map fst (raddShares ?res) = ?rs" by (simp add: comp_def)
    show "''husband'' \<notin> set (raddRecipients ?res)" by (simp add: no_spouse_recipient)
    show "''wife'' \<notin> set (raddRecipients ?res)" by (simp add: no_spouse_recipient)
    show "calculateRaddRecipientsTotal h (raddRecipients ?res)
        = Inr (canon (recipientsTotalRat h))"
      using t by simp
    show "\<forall>x \<in> set (raddShares ?res).
          \<exists>base. getRecipientRaddShare (fst x) h (raddRecipients ?res) = Inr base
            \<and> ratOf (snd x) = ratOf remainder * (ratOf base / ratOf (canon (recipientsTotalRat h)))"
      using each unfolding remainder by simp
    show "sum_list (map (\<lambda>x. ratOf (snd x)) (raddShares ?res)) = ratOf remainder"
      using sum unfolding remainder by simp
    show "sumFractions (map snd (raddShares ?res)) = Inr remainder"
      using total unfolding remainder by simp
  qed
qed

lemma sumFractions_eval_maternal:
  "sumFractions [\<lparr>num = 2, den = 3\<rparr>, \<lparr>num = 2, den = 3\<rparr>] = Inr \<lparr>num = 4, den = 3\<rparr>"
  by code_simp

lemma radd_eval_husband:
  "calculateRemainder (noHeirs\<lparr>husband := True\<rparr>) = Inr \<lparr>num = 1, den = 2\<rparr>"
  "determineAsaba (noHeirs\<lparr>husband := True\<rparr>) = None"
  "applyRadd (noHeirs\<lparr>husband := True\<rparr>) =
     Inr \<lparr>raddApplied = False, raddRemainder = \<lparr>num = 1, den = 2\<rparr>, raddRecipients = [],
          raddShares = []\<rparr>"
  by code_simp+

lemma radd_eval_maternal:
  "calculateRemainder (noHeirs\<lparr>maternalBrothers := 1, maternalSisters := 1\<rparr>)
     = Inr \<lparr>num = 2, den = 3\<rparr>"
  "determineAsaba (noHeirs\<lparr>maternalBrothers := 1, maternalSisters := 1\<rparr>) = None"
  "applyRadd (noHeirs\<lparr>maternalBrothers := 1, maternalSisters := 1\<rparr>) =
     Inr \<lparr>raddApplied = True, raddRemainder = \<lparr>num = 2, den = 3\<rparr>,
          raddRecipients = [''maternalBrothers'', ''maternalSisters''],
          raddShares = [(''maternalBrothers'', \<lparr>num = 2, den = 3\<rparr>),
                        (''maternalSisters'', \<lparr>num = 2, den = 3\<rparr>)]\<rparr>"
  by code_simp+

lemma base_eval_maternal:
  "calculateFixedSharesTotal (noHeirs\<lparr>maternalBrothers := 1, maternalSisters := 1\<rparr>)
     = Inr \<lparr>num = 1, den = 3\<rparr>"
  "getRaddRecipients (noHeirs\<lparr>maternalBrothers := 1, maternalSisters := 1\<rparr>)
     = [''maternalBrothers'', ''maternalSisters'']"
  "calculateRaddRecipientsTotal (noHeirs\<lparr>maternalBrothers := 1, maternalSisters := 1\<rparr>)
     [''maternalBrothers'', ''maternalSisters''] = Inr \<lparr>num = 1, den = 3\<rparr>"
  "getRecipientRaddShare ''maternalBrothers''
     (noHeirs\<lparr>maternalBrothers := 1, maternalSisters := 1\<rparr>)
     [''maternalBrothers'', ''maternalSisters''] = Inr \<lparr>num = 1, den = 3\<rparr>"
  "getRecipientRaddShare ''maternalSisters''
     (noHeirs\<lparr>maternalBrothers := 1, maternalSisters := 1\<rparr>)
     [''maternalBrothers'', ''maternalSisters''] = Inr \<lparr>num = 0, den = 1\<rparr>"
  "getRecipientRaddShare ''maternalSisters''
     (noHeirs\<lparr>maternalBrothers := 1, maternalSisters := 1\<rparr>)
     [''maternalSisters''] = Inr \<lparr>num = 1, den = 3\<rparr>"
  "calculateRaddShareForRecipient ''maternalSisters''
     (noHeirs\<lparr>maternalBrothers := 1, maternalSisters := 1\<rparr>)
     \<lparr>num = 2, den = 3\<rparr> \<lparr>num = 1, den = 3\<rparr> = Inr \<lparr>num = 2, den = 3\<rparr>"
  by code_simp+

lemma validHeirs_husband_only: "validHeirs (noHeirs\<lparr>husband := True\<rparr>)"
  by (simp add: validHeirs_def noHeirs_def)

lemma validHeirs_maternal_pair:
  "validHeirs (noHeirs\<lparr>maternalBrothers := 1, maternalSisters := 1\<rparr>)"
  by (simp add: validHeirs_def noHeirs_def)

text \<open>
  Claim C2. With a positive remainder and no residuary category the addends of the
  redistribution should add up to exactly the remainder, each being the remainder times
  the recipient's base share over the sum of the base shares. The code does not do so
  for the composition of one maternal brother and one maternal sister and nobody else.
  Their pooled fixed share is 1/3 and the remainder 2/3. \<open>calculateRaddRecipientsTotal\<close>
  asks \<open>getRecipientRaddShare\<close> with the whole list of recipients, where
  \<open>shouldAddMaternalSiblingsShare\<close> counts the pooled share once (1/3 under
  \<open>maternalBrothers\<close>, 0 under \<open>maternalSisters\<close>): the total is 1/3. But
  \<open>calculateRaddShareForRecipient\<close> asks with the one-element list \<open>[recipient]\<close>, where
  the base share under \<open>maternalSisters\<close> is 1/3 again, so both keys get the addend 2/3
  and the addends add up to 4/3, twice the remainder.
\<close>

theorem radd_maternal_pair_double_count:
  "validHeirs (noHeirs\<lparr>maternalBrothers := 1, maternalSisters := 1\<rparr>)
   \<and> calculateFixedSharesTotal (noHeirs\<lparr>maternalBrothers := 1, maternalSisters := 1\<rparr>)
       = Inr \<lparr>num = 1, den = 3\<rparr>
   \<and> calculateRemainder (noHeirs\<lparr>maternalBrothers := 1, maternalSisters := 1\<rparr>)
       = Inr \<lparr>num = 2, den = 3\<rparr>
   \<and> greaterThan \<lparr>num = 2, den = 3\<rparr> \<lparr>num = 0, den = 1\<rparr>
   \<and> determineAsaba (noHeirs\<lparr>maternalBrothers := 1, maternalSisters := 1\<rparr>) = None
   \<and> getRaddRecipients (noHeirs\<lparr>maternalBrothers := 1, maternalSisters := 1\<rparr>)
       = [''maternalBrothers'', ''maternalSisters'']
   \<and> calculateRaddRecipientsTotal (noHeirs\<lparr>maternalBrothers := 1, maternalSisters := 1\<rparr>)
       [''maternalBrothers'', ''maternalSisters''] = Inr \<lparr>num = 1, den = 3\<rparr>
   \<and> getRecipientRaddShare ''maternalBrothers''
       (noHeirs\<lparr>maternalBrothers := 1, maternalSisters := 1\<rparr>)
       [''maternalBrothers'', ''maternalSisters''] = Inr \<lparr>num = 1, den = 3\<rparr>
   \<and> getRecipientRaddShare ''maternalSisters''
       (noHeirs\<lparr>maternalBrothers := 1, maternalSisters := 1\<rparr>)
       [''maternalBrothers'', ''maternalSisters''] = Inr \<lparr>num = 0, den = 1\<rparr>
   \<and> getRecipientRaddShare ''maternalSisters''
       (noHeirs\<lparr>maternalBrothers := 1, maternalSisters := 1\<rparr>)
       [''maternalSisters''] = Inr \<lparr>num = 1, den = 3\<rparr>
   \<and> calculateRaddShareForRecipient ''maternalSisters''
       (noHeirs\<lparr>maternalBrothers := 1, maternalSisters := 1\<rparr>)
       \<lparr>num = 2, den = 3\<rparr> \<lparr>num = 1, den = 3\<rparr> = Inr \<lparr>num = 2, den = 3\<rparr>
   \<and> applyRadd (noHeirs\<lparr>maternalBrothers := 1, maternalSisters := 1\<rparr>) =
       Inr \<lparr>raddApplied = True, raddRemainder = \<lparr>num = 2, den = 3\<rparr>,
            raddRecipients = [''maternalBrothers'', ''maternalSisters''],
            raddShares = [(''maternalBrothers'', \<lparr>num = 2, den = 3\<rparr>),
                          (''maternalSisters'', \<lparr>num = 2, den = 3\<rparr>)]\<rparr>
   \<and> sumFractions (map snd [(''maternalBrothers'', \<lparr>num = 2, den = 3\<rparr>),
                          (''maternalSisters'', \<lparr>num = 2, den = 3\<rparr>)])
       = Inr \<lparr>num = 4, den = 3\<rparr>
   \<and> \<lparr>num = 4, den = 3\<rparr> \<noteq> \<lparr>num = 2, den = 3\<rparr>"
  by (simp add: radd_eval_maternal base_eval_maternal sumFractions_eval_maternal
      greaterThan_def validHeirs_maternal_pair)

theorem radd_maternal_pair_double_count_witness:
  "\<exists>r addends.
       applyRadd (noHeirs\<lparr>maternalBrothers := 1, maternalSisters := 1\<rparr>) = Inr r
     \<and> raddApplied r
     \<and> raddRemainder r = \<lparr>num = 2, den = 3\<rparr>
     \<and> sumFractions (map snd (raddShares r)) = Inr addends
     \<and> addends = \<lparr>num = 4, den = 3\<rparr>
     \<and> addends \<noteq> raddRemainder r"
  using radd_maternal_pair_double_count by simp

section \<open>The complete distribution\<close>

text \<open>
  Modelled from the spec: the orchestrator of section 4.6 (\<open>computeDistribution\<close>), which
  is not among the source files; the module functions it calls are, and are used as
  they are. Following the specification, the exception is evaluated first and, when it
  applies, exactly its three shares are emitted; otherwise the fixed shares, the
  residuary distribution, the reduction and the redistribution are computed and folded
  into the final fractions of the present, unblocked categories (a blocked category
  carries zero). The final fraction of a category is the sum of its parts: its fixed
  share (passed through \<open>applyAwlToShare\<close> when the reduction applies), its part of the
  residuary distribution, and its redistribution addend. \<open>finalFractions\<close> lists these
  parts, so the sum of the list is the sum of the final fractions over the non-blocked
  entries. The maternal brothers and sisters are one pooled category (section 9 of the
  specification: a single logical recipient), with one fixed share in \<open>fixedShares\<close>;
  \<open>foldedAddends\<close> gives that category one addend, the one recorded under
  \<open>maternalBrothers\<close> when there is one and otherwise the one under \<open>maternalSisters\<close>,
  as the repository's test helper \<open>calculateCompleteInheritance\<close> does.
\<close>

definition foldedAddends :: "(string \<times> fraction) list \<Rightarrow> fraction list" where
  "foldedAddends entries =
     map snd (if ''maternalBrothers'' \<in> set (map fst entries)
              then filter (\<lambda>x. fst x \<noteq> ''maternalSisters'') entries else entries)"

definition finalFractions :: "heirs \<Rightarrow> error + fraction list" where
  "finalFractions h =
     ebind (applySpecialCases h) (\<lambda>sc.
       if umariyyatanApplied (umariyyatan sc) then
         (case shares (umariyyatan sc) of
            None \<Rightarrow> Inr []
          | Some u \<Rightarrow> Inr [spouseShare u, motherShare u, fatherShare u])
       else
         ebind (case awl sc of
                  None \<Rightarrow> Inr (map snd (fixedShares h))
                | Some a \<Rightarrow>
                    if awlApplied a then
                      mapE (\<lambda>s. applyAwlToShare (Some s) (awlRatio a)) (map snd (fixedShares h))
                    else Inr (map snd (fixedShares h))) (\<lambda>fixed.
         ebind (calculateAsaba h) (\<lambda>residuary.
           Inr (fixed
                @ (case resultDistribution residuary of
                     None \<Rightarrow> [] | Some d \<Rightarrow> [maleShare d, femaleShare d])
                @ (case radd sc of None \<Rightarrow> [] | Some r \<Rightarrow> foldedAddends (raddShares r))))))"

lemma foldedAddends_Nil [simp]: "foldedAddends [] = []"
  by (simp add: foldedAddends_def)

lemma calculateUmariyyatanShares_applies:
  "checkUmariyyatan h = Some n \<Longrightarrow>
   calculateUmariyyatanShares h =
     Inr (Some (if husband h
        then \<lparr>spouseType = ''husband'', spouseShare = \<lparr>num = 1, den = 2\<rparr>,
              motherShare = \<lparr>num = 1, den = 6\<rparr>, fatherShare = \<lparr>num = 1, den = 3\<rparr>,
              normalMotherShare = \<lparr>num = 1, den = 3\<rparr>\<rparr>
        else \<lparr>spouseType = ''wife'', spouseShare = \<lparr>num = 1, den = 4\<rparr>,
              motherShare = \<lparr>num = 1, den = 4\<rparr>, fatherShare = \<lparr>num = 1, den = 2\<rparr>,
              normalMotherShare = \<lparr>num = 1, den = 3\<rparr>\<rparr>))"
  by (simp add: calculateUmariyyatanShares_def umariyyatan_evals)

lemma sumFractions_eval_husband:
  "sumFractions [\<lparr>num = 1, den = 2\<rparr>, \<lparr>num = 1, den = 6\<rparr>, \<lparr>num = 1, den = 3\<rparr>]
     = Inr \<lparr>num = 1, den = 1\<rparr>"
  by code_simp

lemma sumFractions_eval_wife:
  "sumFractions [\<lparr>num = 1, den = 4\<rparr>, \<lparr>num = 1, den = 4\<rparr>, \<lparr>num = 1, den = 2\<rparr>]
     = Inr \<lparr>num = 1, den = 1\<rparr>"
  by code_simp

lemma final_umariyyatan:
  assumes "checkUmariyyatan h = Some n"
  shows "\<exists>fs. finalFractions h = Inr fs \<and> sumFractions fs = Inr \<lparr>num = 1, den = 1\<rparr>"
  using assms
  by (simp add: finalFractions_def applySpecialCases_def applyUmariyyatan_def
      calculateUmariyyatanShares_applies sumFractions_eval_husband sumFractions_eval_wife)

lemma applyAwl_canon:
  "applyAwl h =
     Inr \<lparr>awlApplied = (1 < ratSum (fixedShares h)),
          originalTotal = canon (ratSum (fixedShares h)),
          adjustedTotal = (if 1 < ratSum (fixedShares h) then \<lparr>num = 1, den = 1\<rparr>
                           else canon (ratSum (fixedShares h))),
          awlRatio = (if 1 < ratSum (fixedShares h) then canon (1 / ratSum (fixedShares h))
                      else \<lparr>num = 1, den = 1\<rparr>)\<rparr>"
  by (simp add: applyAwl_def calculateFixedSharesTotal_canon calculateAwlRatio_canon)

lemma adjusted_sum:
  assumes T: "1 < ratSum (fixedShares h)"
  shows "\<exists>adj. mapE (\<lambda>s. applyAwlToShare (Some s) (canon (1 / ratSum (fixedShares h))))
            (map snd (fixedShares h)) = Inr adj
          \<and> (\<forall>x \<in> set adj. den x \<noteq> 0) \<and> sum_list (map ratOf adj) = 1"
proof -
  let ?T = "ratSum (fixedShares h)"
  let ?adj = "map (\<lambda>s. canon (ratOf s * (1 / ?T))) (map snd (fixedShares h))"
  from T have T0: "?T \<noteq> 0" by simp
  have m: "mapE (\<lambda>s. applyAwlToShare (Some s) (canon (1 / ?T))) (map snd (fixedShares h))
      = Inr ?adj"
  proof (rule mapE_Inr, rule ballI)
    fix s assume "s \<in> set (map snd (fixedShares h))"
    then have "den s \<noteq> 0" by (auto dest: fixedShares_den)
    then show "applyAwlToShare (Some s) (canon (1 / ?T)) = Inr (canon (ratOf s * (1 / ?T)))"
      by (rule applyAwlToShare_canon)
  qed
  have "sum_list (map ratOf ?adj)
      = sum_list (map (\<lambda>s. ratOf s * (1 / ?T)) (map snd (fixedShares h)))"
    by (simp add: comp_def)
  also have "\<dots> = sum_list (map ratOf (map snd (fixedShares h))) * (1 / ?T)"
    by (simp only: sum_list_mult_const)
  also have "sum_list (map ratOf (map snd (fixedShares h))) = ?T"
    by (simp add: ratSum_def comp_def)
  also have "?T * (1 / ?T) = 1"
    using T0 by simp
  finally have one: "sum_list (map ratOf ?adj) = 1" .
  have "\<forall>x \<in> set ?adj. den x \<noteq> 0" by simp
  with m one show ?thesis by blast
qed

lemma final_awl:
  assumes u: "checkUmariyyatan h = None" and T: "1 < ratSum (fixedShares h)"
  shows "\<exists>fs. finalFractions h = Inr fs \<and> sumFractions fs = Inr \<lparr>num = 1, den = 1\<rparr>"
proof -
  from adjusted_sum [OF T] obtain adj where
    m: "mapE (\<lambda>s. applyAwlToShare (Some s) (canon (1 / ratSum (fixedShares h))))
            (map snd (fixedShares h)) = Inr adj"
    and d: "\<forall>x \<in> set adj. den x \<noteq> 0" and one: "sum_list (map ratOf adj) = 1"
    by blast
  have as: "calculateAsaba h = Inr \<lparr>hasAsaba = False, resultInfo = None,
      resultRemainder = canon (1 - ratSum (fixedShares h)), resultDistribution = None\<rparr>"
    using T by (intro calculateAsaba_none) simp
  have "finalFractions h = Inr adj"
    using u T
    by (simp add: finalFractions_def applySpecialCases_def applyUmariyyatan_def
        applyAwl_canon m as)
  moreover have "sumFractions adj = Inr \<lparr>num = 1, den = 1\<rparr>"
    using sumFractions_canon [OF d] by (simp only: one canon_1)
  ultimately show ?thesis by blast
qed


lemma determineAsaba_Some:
  assumes "determineAsaba h = Some a"
  shows "\<exists>e \<in> set AsabaPriority. \<not> skipped h e \<and> a = foundAsaba h e"
proof -
  from assms obtain e where f: "find (\<lambda>e. \<not> skipped h e) AsabaPriority = Some e"
    and a: "a = foundAsaba h e"
    by (auto simp add: determineAsaba_def determineAsaba_loop_find split: option.splits)
  from f have "e \<in> set AsabaPriority" "\<not> skipped h e"
    by (auto simp add: find_Some_iff)
  with a show ?thesis by blast
qed

text \<open>A residuary tier as the resolver returns it for a valid composition: at least one
  male, no negative number of females, and \<open>hasFemales\<close> set exactly when there is a
  female.\<close>

definition wellFormedInfo :: "asabaInfo \<Rightarrow> bool" where
  "wellFormedInfo a \<longleftrightarrow>
     0 < maleCount a \<and> 0 \<le> femaleCount a \<and> hasFemales a = (0 < femaleCount a)"

lemma foundAsaba_wellFormed:
  assumes "validHeirs h"
  shows "\<forall>e \<in> set AsabaPriority. \<not> skipped h e \<longrightarrow> wellFormedInfo (foundAsaba h e)"
proof -
  have nn: "0 \<le> sons h" "0 \<le> daughters h" "0 \<le> grandsonsFromSon h"
    "0 \<le> granddaughtersFromSon h" "0 \<le> fullBrothers h" "0 \<le> fullSisters h"
    "0 \<le> paternalBrothers h" "0 \<le> paternalSisters h" "0 \<le> nephewsFullBrothers h"
    "0 \<le> nephewsPaternalBrothers h" "0 \<le> unclesFull h" "0 \<le> unclesPaternal h"
    using assms by (simp_all add: validHeirs_def)
  show ?thesis
    unfolding AsabaPriority_def
    apply (simp add: skipped_entries)
    apply (simp add: foundAsaba_def wellFormedInfo_def heirsField_def headCountOf_def)
    apply (insert nn)
    apply auto
    done
qed

lemma determineAsaba_wellFormed:
  "validHeirs h \<Longrightarrow> determineAsaba h = Some a \<Longrightarrow> wellFormedInfo a"
  using determineAsaba_Some [of h a] foundAsaba_wellFormed [of h] by blast

lemma calculateAsaba_some:
  assumes v: "validHeirs h" and a: "determineAsaba h = Some a"
    and R: "0 < 1 - ratSum (fixedShares h)"
  shows "\<exists>d. calculateAsaba h =
        Inr \<lparr>hasAsaba = True, resultInfo = Some a,
             resultRemainder = canon (1 - ratSum (fixedShares h)),
             resultDistribution = Some d\<rparr>
      \<and> den (maleShare d) \<noteq> 0 \<and> den (femaleShare d) \<noteq> 0
      \<and> ratOf (maleShare d) + ratOf (femaleShare d) = 1 - ratSum (fixedShares h)"
proof -
  let ?R = "1 - ratSum (fixedShares h)"
  from determineAsaba_wellFormed [OF v a]
  have m: "0 < maleCount a" and f: "0 \<le> femaleCount a"
    and hf: "hasFemales a = (0 < femaleCount a)"
    by (simp_all add: wellFormedInfo_def)
  have d0: "0 < den (canon ?R)" by simp
  have nz: "\<not> isZero (canon ?R)" using R by simp
  show ?thesis
  proof (cases "hasFemales a")
    case True
    from m f have nz': "maleCount a * 2 + femaleCount a \<noteq> 0" by simp
    define T :: rat where "T = of_int (maleCount a * 2 + femaleCount a)"
    have T: "T \<noteq> 0" using nz' unfolding T_def by (simp del: of_int_add of_int_mult)
    have "?R / T * 2 * of_int (maleCount a) + ?R / T * of_int (femaleCount a)
        = ?R / T * (of_int (maleCount a) * 2 + of_int (femaleCount a))"
      by (simp add: algebra_simps)
    also have "of_int (maleCount a) * 2 + of_int (femaleCount a) = T"
      by (simp add: T_def)
    also have "?R / T * T = ?R"
      using T by simp
    finally have sum: "?R / of_int (maleCount a * 2 + femaleCount a) * 2 * of_int (maleCount a)
        + ?R / of_int (maleCount a * 2 + femaleCount a) * of_int (femaleCount a) = ?R"
      unfolding T_def .
    show ?thesis
      using R a sum
      by (simp add: calculateAsaba_def calculateRemainder_canon Let_def
          distributeAsaba_females [OF d0 nz True nz'] not_less [symmetric])
  next
    case False
    from m have "maleCount a \<noteq> 0" by simp
    then show ?thesis
      using R a
      by (simp add: calculateAsaba_def calculateRemainder_canon Let_def
          distributeAsaba_males [OF d0 nz False] not_less [symmetric])
  qed
qed


lemma special_not_awl:
  assumes u: "checkUmariyyatan h = None" and T: "\<not> 1 < ratSum (fixedShares h)"
  shows "finalFractions h =
     ebind (applyRadd h) (\<lambda>r.
     ebind (calculateAsaba h) (\<lambda>residuary.
       Inr (map snd (fixedShares h)
            @ (case resultDistribution residuary of
                 None \<Rightarrow> [] | Some d \<Rightarrow> [maleShare d, femaleShare d])
            @ foldedAddends (raddShares r))))"
proof (cases "applyRadd h")
  case (Inl e)
  then show ?thesis
    using u T
    by (simp add: finalFractions_def applySpecialCases_def applyUmariyyatan_def
        applyAwl_canon)
next
  case (Inr r)
  then show ?thesis
    using u T
    by (simp add: finalFractions_def applySpecialCases_def applyUmariyyatan_def
        applyAwl_canon)
qed

lemma fixed_dens: "\<forall>x \<in> set (map snd (fixedShares h)). den x \<noteq> 0"
  by (auto dest: fixedShares_den)

lemma final_residuary:
  assumes v: "validHeirs h" and u: "checkUmariyyatan h = None"
    and a: "determineAsaba h = Some a" and R: "0 < 1 - ratSum (fixedShares h)"
  shows "\<exists>fs. finalFractions h = Inr fs \<and> sumFractions fs = Inr \<lparr>num = 1, den = 1\<rparr>"
proof -
  let ?T = "ratSum (fixedShares h)"
  from R have T: "\<not> 1 < ?T" by simp
  from calculateAsaba_some [OF v a R] obtain d where
    c: "calculateAsaba h = Inr \<lparr>hasAsaba = True, resultInfo = Some a,
             resultRemainder = canon (1 - ?T), resultDistribution = Some d\<rparr>"
    and dm: "den (maleShare d) \<noteq> 0" and df: "den (femaleShare d) \<noteq> 0"
    and sum: "ratOf (maleShare d) + ratOf (femaleShare d) = 1 - ?T"
    by blast
  have r: "applyRadd h = Inr (createRaddNotAppliedResult (canon (1 - ?T)))"
    using a by (intro applyRadd_not_applied) simp
  let ?fs = "map snd (fixedShares h) @ [maleShare d, femaleShare d]"
  have f: "finalFractions h = Inr ?fs"
    by (simp add: special_not_awl [OF u T] r c createRaddNotAppliedResult_def)
  have dens: "\<forall>x \<in> set ?fs. den x \<noteq> 0"
    using fixed_dens [of h] dm df by auto
  have "sum_list (map ratOf ?fs) = ?T + (ratOf (maleShare d) + ratOf (femaleShare d))"
    by (simp add: ratSum_sum_list_comp)
  also have "\<dots> = 1" by (simp add: sum)
  finally have one: "sum_list (map ratOf ?fs) = 1" .
  have "sumFractions ?fs = Inr \<lparr>num = 1, den = 1\<rparr>"
    using sumFractions_canon [OF dens] by (simp only: one canon_1)
  with f show ?thesis by blast
qed

lemma final_exact:
  assumes u: "checkUmariyyatan h = None" and T: "ratSum (fixedShares h) = 1"
  shows "\<exists>fs. finalFractions h = Inr fs \<and> sumFractions fs = Inr \<lparr>num = 1, den = 1\<rparr>"
proof -
  have nT: "\<not> 1 < ratSum (fixedShares h)" using T by simp
  have c: "calculateAsaba h = Inr \<lparr>hasAsaba = False, resultInfo = None,
      resultRemainder = canon (1 - ratSum (fixedShares h)), resultDistribution = None\<rparr>"
    using T by (intro calculateAsaba_none) simp
  have r: "applyRadd h = Inr (createRaddNotAppliedResult (canon (1 - ratSum (fixedShares h))))"
    using T by (intro applyRadd_not_applied) simp
  have f: "finalFractions h = Inr (map snd (fixedShares h))"
    by (simp add: special_not_awl [OF u nT] r c createRaddNotAppliedResult_def)
  have "sumFractions (map snd (fixedShares h)) = Inr \<lparr>num = 1, den = 1\<rparr>"
    by (simp add: sumFractions_fixedShares T canon_1)
  with f show ?thesis by blast
qed

lemma baseOf_single_other:
  "x \<noteq> ''maternalSisters'' \<Longrightarrow> baseOf x h [x] = baseOf x h rs"
proof -
  assume "x \<noteq> ''maternalSisters''"
  then have "getRecipientRaddShare x h [x] = getRecipientRaddShare x h rs"
    by (auto simp add: getRecipientRaddShare_def shouldAddMaternalSiblingsShare_def Let_def)
  then show ?thesis by (simp add: baseOf_def)
qed

lemma folded_addends_sum:
  assumes v: "validHeirs h" and ne: "getRaddRecipients h \<noteq> []"
  shows "sum_list (map ratOf (foldedAddends
           (map (\<lambda>x. (x, canon (r * (ratOf (baseOf x h [x]) / recipientsTotalRat h))))
              (getRaddRecipients h)))) = r"
proof (cases "''maternalBrothers'' \<in> set (getRaddRecipients h)")
  case False
  then have nb: "\<not> (''maternalBrothers'' \<in> set (getRaddRecipients h)
               \<and> ''maternalSisters'' \<in> set (getRaddRecipients h))" by simp
  from False have "foldedAddends
           (map (\<lambda>x. (x, canon (r * (ratOf (baseOf x h [x]) / recipientsTotalRat h))))
              (getRaddRecipients h))
      = map (\<lambda>x. canon (r * (ratOf (baseOf x h [x]) / recipientsTotalRat h)))
          (getRaddRecipients h)"
    by (simp add: foldedAddends_def comp_def)
  then show ?thesis
    using radd_addends_sum [OF v ne nb, of r] by (simp add: comp_def)
next
  case True
  let ?rs = "getRaddRecipients h"
  let ?keep = "filter (\<lambda>x. x \<noteq> ''maternalSisters'') ?rs"
  have t: "recipientsTotalRat h \<noteq> 0"
    using recipientsTotal_pos [OF v ne] by (simp add: recipientsTotalRat_def)
  from True have "foldedAddends
           (map (\<lambda>x. (x, canon (r * (ratOf (baseOf x h [x]) / recipientsTotalRat h)))) ?rs)
      = map (\<lambda>x. canon (r * (ratOf (baseOf x h [x]) / recipientsTotalRat h))) ?keep"
    by (simp add: foldedAddends_def comp_def filter_map)
  then have "sum_list (map ratOf (foldedAddends
           (map (\<lambda>x. (x, canon (r * (ratOf (baseOf x h [x]) / recipientsTotalRat h)))) ?rs)))
      = sum_list (map (\<lambda>x. r * (ratOf (baseOf x h [x]) / recipientsTotalRat h)) ?keep)"
    by (simp add: comp_def)
  also have "map (\<lambda>x. r * (ratOf (baseOf x h [x]) / recipientsTotalRat h)) ?keep
      = map (\<lambda>x. ratOf (baseOf x h ?rs) * (r / recipientsTotalRat h)) ?keep"
    by (rule map_cong) (simp_all add: baseOf_single_other [of _ h ?rs])
  also have "sum_list (map (\<lambda>x. ratOf (baseOf x h ?rs) * (r / recipientsTotalRat h)) ?keep)
      = sum_list (map (\<lambda>x. ratOf (baseOf x h ?rs) * (r / recipientsTotalRat h)) ?rs)"
    using True by (intro sum_list_map_filter) (simp add: base_values)
  also have "\<dots> = sum_list (map (\<lambda>x. ratOf (baseOf x h ?rs)) ?rs) * (r / recipientsTotalRat h)"
    by (simp only: sum_list_mult_const)
  also have "\<dots> = recipientsTotalRat h * (r / recipientsTotalRat h)"
    by (simp only: recipientsTotalRat_def)
  also have "\<dots> = r" using t by simp
  finally show ?thesis .
qed

lemma folded_dens:
  "\<forall>x \<in> set (foldedAddends (map (\<lambda>x. (x, canon (f x))) rs)). den x \<noteq> 0"
  by (auto simp add: foldedAddends_def)

lemma final_radd:
  assumes v: "validHeirs h" and u: "checkUmariyyatan h = None"
    and a: "determineAsaba h = None" and R: "0 < 1 - ratSum (fixedShares h)"
    and ne: "getRaddRecipients h \<noteq> []"
  shows "\<exists>fs. finalFractions h = Inr fs \<and> sumFractions fs = Inr \<lparr>num = 1, den = 1\<rparr>"
proof -
  let ?T = "ratSum (fixedShares h)"
  let ?shares = "map (\<lambda>x. (x, canon ((1 - ?T) * (ratOf (baseOf x h [x]) / recipientsTotalRat h))))
      (getRaddRecipients h)"
  from R have T: "\<not> 1 < ?T" by simp
  have c: "calculateAsaba h = Inr \<lparr>hasAsaba = False, resultInfo = None,
      resultRemainder = canon (1 - ?T), resultDistribution = None\<rparr>"
    using a by (intro calculateAsaba_none) simp
  note r = applyRadd_applied [OF v R a ne]
  let ?fs = "map snd (fixedShares h) @ foldedAddends ?shares"
  have f: "finalFractions h = Inr ?fs"
    by (simp add: special_not_awl [OF u T] r c)
  have dens: "\<forall>x \<in> set ?fs. den x \<noteq> 0"
    using fixed_dens [of h] folded_dens [of _ "getRaddRecipients h"] by auto
  have "sum_list (map ratOf (foldedAddends ?shares)) = 1 - ?T"
    by (rule folded_addends_sum [OF v ne])
  then have "sum_list (map ratOf ?fs) = ?T + (1 - ?T)"
    by (simp add: ratSum_sum_list_comp)
  then have one: "sum_list (map ratOf ?fs) = 1" by simp
  have "sumFractions ?fs = Inr \<lparr>num = 1, den = 1\<rparr>"
    using sumFractions_canon [OF dens] by (simp only: one canon_1)
  with f show ?thesis by blast
qed


lemma lessThan_canon_1 [simp]: "lessThan (canon q) \<lparr>num = 1, den = 1\<rparr> \<longleftrightarrow> q < 1"
  by (simp add: lessThan_iff)

lemma determineAsaba_None:
  assumes "determineAsaba h = None"
  shows "sons h = 0 \<and> (grandsonsFromSon h = 0 \<or> sons h > 0) \<and> \<not> father h
     \<and> (\<not> paternalGrandfather h \<or> father h)
     \<and> (fullBrothers h = 0 \<or> father h \<or> sons h > 0 \<or> grandsonsFromSon h > 0)"
proof -
  from assms have "find (\<lambda>e. \<not> skipped h e) AsabaPriority = None"
    by (simp add: determineAsaba_def determineAsaba_loop_find split: option.splits)
  then have "\<forall>e \<in> set (take 6 AsabaPriority). skipped h e"
    by (auto simp add: find_None_iff dest: in_set_takeD)
  then show ?thesis
    unfolding take6 by (auto simp add: skipped_entries)
qed

lemma spouse_only:
  assumes v: "validHeirs h" and a: "determineAsaba h = None" and rs: "getRaddRecipients h = []"
  shows "fixedShares h = spouseFixed h \<and> \<not> hasChildren h \<and> \<not> father h"
proof -
  from determineAsaba_None [OF a] have s: "sons h = 0" and f: "\<not> father h"
    and g: "grandsonsFromSon h = 0" and pg: "\<not> paternalGrandfather h"
    and fb: "fullBrothers h = 0"
    by auto
  from v have nn: "0 \<le> daughters h" "0 \<le> granddaughtersFromSon h" "0 \<le> fullSisters h"
    "0 \<le> paternalSisters h" "0 \<le> maternalBrothers h" "0 \<le> maternalSisters h"
    "0 \<le> paternalBrothers h"
    by (simp_all add: validHeirs_def)
  from rs have m: "\<not> mother h" and d: "\<not> canDaughtersParticipateInRadd h"
    and gd: "\<not> canGranddaughtersParticipateInRadd h"
    and gm: "\<not> canGrandmothersParticipateInRadd h"
    and fs: "\<not> canFullSistersParticipateInRadd h"
    and ps: "\<not> canPaternalSistersParticipateInRadd h"
    and mb: "\<not> (isKalalahCondition h \<and> maternalBrothers h > 0)"
    and ms: "\<not> (isKalalahCondition h \<and> maternalSisters h > 0)"
    using recipients_mem [of h] by simp_all
  from d s nn have d0: "daughters h = 0"
    by (simp add: canDaughtersParticipateInRadd_def)
  from gd s nn have gd0: "granddaughtersFromSon h = 0"
    by (simp add: canGranddaughtersParticipateInRadd_def)
  have hc: "\<not> hasChildren h"
    by (simp add: hasChildren_def s g d0 gd0)
  from fs s g f fb nn have fs0: "fullSisters h = 0"
    by (simp add: canFullSistersParticipateInRadd_def areSistersBlockedFromRadd_def)
  from ps s g f fb nn have ps0: "paternalSisters h = 0 \<or> paternalBrothers h \<noteq> 0"
    by (simp add: canPaternalSistersParticipateInRadd_def areSistersBlockedFromRadd_def)
  from mb ms hc f nn have mat: "maternalBrothers h = 0" "maternalSisters h = 0"
    by (simp_all add: isKalalahCondition_def)
  have "fixedShares h = spouseFixed h"
    using m f pg gm d0 gd0 fs0 ps0 mat
    by (auto simp add: fixedShares_def motherFixed_def fatherFixed_def grandfatherFixed_def
        grandmothersFixed_def daughtersFixed_def granddaughtersFixed_def fullSistersFixed_def
        paternalSistersFixed_def maternalFixed_def canGrandmothersParticipateInRadd_def)
  with hc f show ?thesis by simp
qed

lemma final_spouse_only:
  assumes v: "validHeirs h" and a: "determineAsaba h = None" and rs: "getRaddRecipients h = []"
  shows "finalFractions h = Inr (map snd (spouseFixed h))
     \<and> sumFractions (map snd (spouseFixed h)) =
         Inr (if husband h then \<lparr>num = 1, den = 2\<rparr>
              else if wife h then \<lparr>num = 1, den = 4\<rparr> else \<lparr>num = 0, den = 1\<rparr>)"
proof -
  from spouse_only [OF v a rs] have fx: "fixedShares h = spouseFixed h"
    and hc: "\<not> hasChildren h" and f: "\<not> father h" by simp_all
  from f have u: "checkUmariyyatan h = None" by (simp add: checkUmariyyatan_def)
  have T: "ratSum (fixedShares h) =
      (if husband h then 1/2 else if wife h then 1/4 else 0)"
    using hc by (simp add: fx spouseFixed_def)
  then have nT: "\<not> 1 < ratSum (fixedShares h)" by simp
  have c: "calculateAsaba h = Inr \<lparr>hasAsaba = False, resultInfo = None,
      resultRemainder = canon (1 - ratSum (fixedShares h)), resultDistribution = None\<rparr>"
    using a by (intro calculateAsaba_none) simp
  have r: "applyRadd h = Inr (createRaddNotAppliedResult (canon (1 - ratSum (fixedShares h))))"
    using rs by (intro applyRadd_not_applied) simp
  have 1: "finalFractions h = Inr (map snd (spouseFixed h))"
    by (simp add: special_not_awl [OF u nT] r c createRaddNotAppliedResult_def fx)
  have 2: "sumFractions (map snd (spouseFixed h)) =
         Inr (if husband h then \<lparr>num = 1, den = 2\<rparr>
              else if wife h then \<lparr>num = 1, den = 4\<rparr> else \<lparr>num = 0, den = 1\<rparr>)"
    using hc by (simp add: spouseFixed_def sumFractions_def add_def Let_def simplify_def
        Fraction_gcd_eq)
  from 1 2 show ?thesis by simp
qed

text \<open>
  Claim C1, as amended. For every valid composition in which a residuary category is
  present and unblocked, or the fixed shares add up to at least one, or there is at
  least one redistribution recipient, the final fractions add up to exactly 1/1. When
  there is neither a residuary category nor a redistribution recipient, nobody but a
  spouse inherits: the only final fraction is the spouse's fixed share, 1/2 for the
  husband and 1/4 for the wife, and the remainder is not distributed.
\<close>

theorem final_fractions_sum_to_one:
  assumes v: "validHeirs h"
  shows "(determineAsaba h \<noteq> None
          \<or> (\<exists>t. calculateFixedSharesTotal h = Inr t \<and> \<not> lessThan t \<lparr>num = 1, den = 1\<rparr>)
          \<or> getRaddRecipients h \<noteq> []
         \<longrightarrow> (\<exists>fs. finalFractions h = Inr fs \<and> sumFractions fs = Inr \<lparr>num = 1, den = 1\<rparr>))
       \<and> (determineAsaba h = None \<and> getRaddRecipients h = []
         \<longrightarrow> finalFractions h = Inr (map snd (spouseFixed h))
            \<and> sumFractions (map snd (spouseFixed h)) =
                Inr (if husband h then \<lparr>num = 1, den = 2\<rparr>
                     else if wife h then \<lparr>num = 1, den = 4\<rparr> else \<lparr>num = 0, den = 1\<rparr>))"
proof (intro conjI impI)
  assume H: "determineAsaba h \<noteq> None
          \<or> (\<exists>t. calculateFixedSharesTotal h = Inr t \<and> \<not> lessThan t \<lparr>num = 1, den = 1\<rparr>)
          \<or> getRaddRecipients h \<noteq> []"
  let ?T = "ratSum (fixedShares h)"
  show "\<exists>fs. finalFractions h = Inr fs \<and> sumFractions fs = Inr \<lparr>num = 1, den = 1\<rparr>"
  proof (cases "checkUmariyyatan h")
    case (Some n)
    then show ?thesis by (rule final_umariyyatan)
  next
    case None
    consider "1 < ?T" | "?T = 1" | "?T < 1" by linarith
    then show ?thesis
    proof cases
      case 1 with None show ?thesis by (intro final_awl)
    next
      case 2 with None show ?thesis by (intro final_exact)
    next
      case 3
      then have R: "0 < 1 - ?T" by simp
      show ?thesis
      proof (cases "determineAsaba h")
        case (Some a)
        show ?thesis by (rule final_residuary [OF v None Some R])
      next
        case a: None
        from 3 have "\<not> (\<exists>t. calculateFixedSharesTotal h = Inr t
            \<and> \<not> lessThan t \<lparr>num = 1, den = 1\<rparr>)"
          by (simp add: calculateFixedSharesTotal_canon)
        with H a have "getRaddRecipients h \<noteq> []"
          by blast
        then show ?thesis by (intro final_radd [OF v None a R])
      qed
    qed
  qed
next
  assume "determineAsaba h = None \<and> getRaddRecipients h = []"
  then have a: "determineAsaba h = None" and rs: "getRaddRecipients h = []" by simp_all
  from final_spouse_only [OF v a rs]
  show "finalFractions h = Inr (map snd (spouseFixed h))" by simp
  from final_spouse_only [OF v a rs]
  show "sumFractions (map snd (spouseFixed h)) =
                Inr (if husband h then \<lparr>num = 1, den = 2\<rparr>
                     else if wife h then \<lparr>num = 1, den = 4\<rparr> else \<lparr>num = 0, den = 1\<rparr>)"
    by simp
qed

lemma validHeirs_witness_C1:
  "validHeirs (noHeirs\<lparr>wife := True, mother := True, sons := 1, daughters := 2\<rparr>)"
  by (simp add: validHeirs_def noHeirs_def)

lemma determineAsaba_eval_C1:
  "determineAsaba (noHeirs\<lparr>wife := True, mother := True, sons := 1, daughters := 2\<rparr>) =
     Some \<lparr>maleType = ''son'', maleCount = 1, femaleType = Some ''daughter'',
           femaleCount = 2, hasFemales = True, key = ''sons''\<rparr>"
  by code_simp

lemma finalFractions_eval_C1:
  "finalFractions (noHeirs\<lparr>wife := True, mother := True, sons := 1, daughters := 2\<rparr>) =
     Inr [\<lparr>num = 1, den = 8\<rparr>, \<lparr>num = 1, den = 6\<rparr>, \<lparr>num = 17, den = 48\<rparr>,
          \<lparr>num = 17, den = 48\<rparr>]"
  by code_simp

lemma finalFractions_eval_husband:
  "finalFractions (noHeirs\<lparr>husband := True\<rparr>) = Inr [\<lparr>num = 1, den = 2\<rparr>]"
  by code_simp

lemma getRaddRecipients_eval_husband: "getRaddRecipients (noHeirs\<lparr>husband := True\<rparr>) = []"
  by code_simp

lemma sumFractions_eval_half: "sumFractions [\<lparr>num = 1, den = 2\<rparr>] = Inr \<lparr>num = 1, den = 2\<rparr>"
  by code_simp

lemma finalFractions_eval_maternal:
  "finalFractions (noHeirs\<lparr>maternalBrothers := 1, maternalSisters := 1\<rparr>) =
     Inr [\<lparr>num = 1, den = 3\<rparr>, \<lparr>num = 2, den = 3\<rparr>]"
  by code_simp

lemma getRaddRecipients_eval_maternal:
  "getRaddRecipients (noHeirs\<lparr>maternalBrothers := 1, maternalSisters := 1\<rparr>) =
     [''maternalBrothers'', ''maternalSisters'']"
  by code_simp

theorem final_fractions_sum_to_one_witness:
  "validHeirs (noHeirs\<lparr>wife := True, mother := True, sons := 1, daughters := 2\<rparr>)
   \<and> determineAsaba (noHeirs\<lparr>wife := True, mother := True, sons := 1, daughters := 2\<rparr>)
       \<noteq> None
   \<and> finalFractions (noHeirs\<lparr>wife := True, mother := True, sons := 1, daughters := 2\<rparr>) =
       Inr [\<lparr>num = 1, den = 8\<rparr>, \<lparr>num = 1, den = 6\<rparr>, \<lparr>num = 17, den = 48\<rparr>,
            \<lparr>num = 17, den = 48\<rparr>]
   \<and> sumFractions [\<lparr>num = 1, den = 8\<rparr>, \<lparr>num = 1, den = 6\<rparr>, \<lparr>num = 17, den = 48\<rparr>,
                   \<lparr>num = 17, den = 48\<rparr>] = Inr \<lparr>num = 1, den = 1\<rparr>
   \<and> validHeirs (noHeirs\<lparr>husband := True\<rparr>)
   \<and> determineAsaba (noHeirs\<lparr>husband := True\<rparr>) = None
   \<and> getRaddRecipients (noHeirs\<lparr>husband := True\<rparr>) = []
   \<and> finalFractions (noHeirs\<lparr>husband := True\<rparr>) = Inr [\<lparr>num = 1, den = 2\<rparr>]
   \<and> validHeirs (noHeirs\<lparr>maternalBrothers := 1, maternalSisters := 1\<rparr>)
   \<and> getRaddRecipients (noHeirs\<lparr>maternalBrothers := 1, maternalSisters := 1\<rparr>) \<noteq> []
   \<and> finalFractions (noHeirs\<lparr>maternalBrothers := 1, maternalSisters := 1\<rparr>) =
       Inr [\<lparr>num = 1, den = 3\<rparr>, \<lparr>num = 2, den = 3\<rparr>]
   \<and> sumFractions [\<lparr>num = 1, den = 3\<rparr>, \<lparr>num = 2, den = 3\<rparr>] = Inr \<lparr>num = 1, den = 1\<rparr>"
proof -
  let ?h = "noHeirs\<lparr>wife := True, mother := True, sons := 1, daughters := 2\<rparr>"
  let ?m = "noHeirs\<lparr>maternalBrothers := 1, maternalSisters := 1\<rparr>"
  have rm: "getRaddRecipients ?m \<noteq> []"
    by (simp add: getRaddRecipients_eval_maternal)
  from final_fractions_sum_to_one [OF validHeirs_maternal_pair] rm
  obtain ms where "finalFractions ?m = Inr ms"
    and "sumFractions ms = Inr \<lparr>num = 1, den = 1\<rparr>"
    by blast
  then have m: "sumFractions [\<lparr>num = 1, den = 3\<rparr>, \<lparr>num = 2, den = 3\<rparr>]
      = Inr \<lparr>num = 1, den = 1\<rparr>"
    by (simp add: finalFractions_eval_maternal)
  have a: "determineAsaba ?h \<noteq> None"
    by (simp add: determineAsaba_eval_C1)
  from final_fractions_sum_to_one [OF validHeirs_witness_C1] a
  obtain fs where "finalFractions ?h = Inr fs"
    and "sumFractions fs = Inr \<lparr>num = 1, den = 1\<rparr>"
    by blast
  then have "sumFractions [\<lparr>num = 1, den = 8\<rparr>, \<lparr>num = 1, den = 6\<rparr>, \<lparr>num = 17, den = 48\<rparr>,
      \<lparr>num = 17, den = 48\<rparr>] = Inr \<lparr>num = 1, den = 1\<rparr>"
    by (simp add: finalFractions_eval_C1)
  then show ?thesis
    using validHeirs_witness_C1 a finalFractions_eval_C1 validHeirs_husband_only
      radd_eval_husband(2) getRaddRecipients_eval_husband finalFractions_eval_husband
      validHeirs_maternal_pair rm finalFractions_eval_maternal m
    by simp
qed

text \<open>
  The claim as stated fails for a valid composition with only the husband present: he
  is present and unblocked, his final fraction is 1/2 and nothing else is distributed.
\<close>

lemma husband_present: "husband (noHeirs\<lparr>husband := True\<rparr>)"
  by simp

theorem sum_to_one_counterexample:
  "validHeirs (noHeirs\<lparr>husband := True\<rparr>)
   \<and> husband (noHeirs\<lparr>husband := True\<rparr>)
   \<and> finalFractions (noHeirs\<lparr>husband := True\<rparr>) = Inr [\<lparr>num = 1, den = 2\<rparr>]
   \<and> sumFractions [\<lparr>num = 1, den = 2\<rparr>] = Inr \<lparr>num = 1, den = 2\<rparr>
   \<and> \<lparr>num = 1, den = 2\<rparr> \<noteq> \<lparr>num = 1, den = 1\<rparr>"
  by (simp add: validHeirs_husband_only husband_present
      finalFractions_eval_husband sumFractions_eval_half)

end
